theory Spec2Isabelle
  imports Complex_Main "HOL-Library.AList" "HOL-Library.Multiset"
begin

section \<open>Strings and small helpers\<close>

text \<open>
  A JavaScript string is modelled as a \<^typ>\<open>string\<close>: a list of code units, here the
  code units below 256. \<open>join\<close> is \<open>Array.prototype.join\<close> on an array of strings.
\<close>

fun join :: "string \<Rightarrow> string list \<Rightarrow> string" where
  "join sep [] = []"
| "join sep [x] = x"
| "join sep (x # y # ys) = x @ sep @ join sep (y # ys)"

section \<open>Abstract inversion (invertAbstract)\<close>

text \<open>
  The inverted index is a JavaScript object from words to arrays of positions. It is
  modelled as the list of its entries in the order in which \<open>for (const word in ...)\<close>
  enumerates them; an object has every key once. The local object \<open>map\<close> is an
  association list updated in place by \<open>map[pos] = word\<close>.
\<close>

type_synonym inverted_index = "(string \<times> nat list) list"

definition assign_positions :: "string \<Rightarrow> nat list \<Rightarrow> (nat \<times> string) list \<Rightarrow> (nat \<times> string) list" where
  "assign_positions word ps m = fold (\<lambda>pos acc. AList.update pos word acc) ps m"

definition build_position_map :: "inverted_index \<Rightarrow> (nat \<times> string) list" where
  "build_position_map idx = fold (\<lambda>(word, ps) acc. assign_positions word ps acc) idx []"

text \<open>\<open>map[pos]\<close>; a missing property is \<open>undefined\<close>, which \<open>join\<close> renders as the empty string.\<close>

definition word_in :: "(nat \<times> string) list \<Rightarrow> nat \<Rightarrow> string" where
  "word_in m pos = (case map_of m pos of Some w \<Rightarrow> w | None \<Rightarrow> [])"

definition invertAbstract :: "inverted_index option \<Rightarrow> string" where
  "invertAbstract invertedIndex =
     (case invertedIndex of
        None \<Rightarrow> ''No abstract available''
      | Some idx \<Rightarrow>
          (let m = build_position_map idx
           in join '' '' (map (word_in m) (sort (map fst m)))))"

text \<open>
  Reference description of the result: the positions that occur anywhere in the
  index, and for each position the word that the position map holds for it, which is
  the word of the last enumerated entry that lists the position.
\<close>

definition positions_of :: "inverted_index \<Rightarrow> nat set" where
  "positions_of idx = (\<Union>(w, ps) \<in> set idx. set ps)"

definition last_word_at :: "inverted_index \<Rightarrow> nat \<Rightarrow> string" where
  "last_word_at idx p =
     (let es = filter (\<lambda>(w, ps). p \<in> set ps) idx
      in if es = [] then [] else fst (last es))"

section \<open>Effects: exceptions, console output and HTTP requests\<close>

text \<open>
  A thrown JavaScript value is an \<open>exn\<close>. An \<open>AxiosError\<close> carries its message and, when
  the server answered, the status and the body (already printed by \<open>JSON.stringify\<close>).
\<close>

datatype exn =
    Error string
  | TypeError string
  | SyntaxError string
  | AxiosError string "(nat \<times> string) option"

fun message :: "exn \<Rightarrow> string" where
  "message (Error m) = m"
| "message (TypeError m) = m"
| "message (SyntaxError m) = m"
| "message (AxiosError m r) = m"

datatype level = LOG | WARN | ERROR

datatype event =
    HttpGet string string
  | HttpPost string string
  | Console level string

text \<open>
  An asynchronous computation is modelled by what it did (the events, in order) and how
  it ended: \<open>Inl\<close> a thrown value (a rejected promise), \<open>Inr\<close> the value returned.
\<close>

type_synonym 'a io = "event list \<times> (exn + 'a)"

definition return :: "'a \<Rightarrow> 'a io" where
  "return v = ([], Inr v)"

definition throw :: "exn \<Rightarrow> 'a io" where
  "throw e = ([], Inl e)"

definition console :: "level \<Rightarrow> string \<Rightarrow> unit io" where
  "console l m = ([Console l m], Inr ())"

definition bind :: "'a io \<Rightarrow> ('a \<Rightarrow> 'b io) \<Rightarrow> 'b io" where
  "bind m f =
     (case m of
        (tr, Inl e) \<Rightarrow> (tr, Inl e)
      | (tr, Inr v) \<Rightarrow> (case f v of (tr', r) \<Rightarrow> (tr @ tr', r)))"

definition seq :: "unit io \<Rightarrow> 'b io \<Rightarrow> 'b io" where
  "seq m k = bind m (\<lambda>_. k)"

definition try_catch :: "'a io \<Rightarrow> (exn \<Rightarrow> 'a io) \<Rightarrow> 'a io" where
  "try_catch m h =
     (case m of
        (tr, Inl e) \<Rightarrow> (case h e of (tr', r) \<Rightarrow> (tr @ tr', r))
      | (tr, Inr v) \<Rightarrow> (tr, Inr v))"

text \<open>The outcome of \<open>await axios.get(...)\<close> or \<open>await axios.post(...)\<close>.\<close>

datatype 'a http_outcome = Rejected exn | Resolved 'a

definition await :: "event \<Rightarrow> 'a http_outcome \<Rightarrow> 'a io" where
  "await request outcome =
     (case outcome of
        Rejected e \<Rightarrow> ([request], Inl e)
      | Resolved r \<Rightarrow> ([request], Inr r))"

text \<open>A number inside a template string is printed in decimal.\<close>

definition digit_char :: "nat \<Rightarrow> char" where
  "digit_char k = char_of (k + 48)"

fun decimal :: "nat \<Rightarrow> string" where
  "decimal n =
     (if n div 10 = 0 then [digit_char n]
      else decimal (n div 10) @ [digit_char (n mod 10)])"

section \<open>Values that may be missing\<close>

text \<open>
  A field of a provider's payload, and a field of a record built from it, holds a value
  or is \<open>undefined\<close>/\<open>null\<close>: \<open>None\<close>. \<open>x || d\<close> keeps \<open>x\<close> when it is truthy (a non-empty
  string, a number other than zero), \<open>x ?? d\<close> keeps it when it is not missing.
\<close>

definition truthy_str :: "string option \<Rightarrow> bool" where
  "truthy_str x = (case x of None \<Rightarrow> False | Some s \<Rightarrow> s \<noteq> [])"

definition or_str :: "string option \<Rightarrow> string option \<Rightarrow> string option" where
  "or_str x d = (if truthy_str x then x else d)"

definition truthy_num :: "rat option \<Rightarrow> bool" where
  "truthy_num x = (case x of None \<Rightarrow> False | Some r \<Rightarrow> r \<noteq> 0)"

definition or_num :: "rat option \<Rightarrow> rat option \<Rightarrow> rat option" where
  "or_num x d = (if truthy_num x then x else d)"

definition nullish_num :: "rat option \<Rightarrow> rat option \<Rightarrow> rat option" where
  "nullish_num x d = (case x of None \<Rightarrow> d | Some r \<Rightarrow> Some r)"

text \<open>An array element that is \<open>undefined\<close> or \<open>null\<close> is joined as the empty string.\<close>

definition join_opt :: "string \<Rightarrow> string option list \<Rightarrow> string" where
  "join_opt sep xs = join sep (map (\<lambda>x. case x of None \<Rightarrow> [] | Some s \<Rightarrow> s) xs)"

section \<open>JSON values\<close>

text \<open>
  The values \<open>JSON.parse\<close> produces. A decoded string is a list of UTF-16 code units
  (an escape \<open>\uXXXX\<close> can denote any of them); a number is kept exactly, as a rational
  (the rounding to a double is not modelled); an object is the list of its properties, a
  repeated key keeping its first place and its last value.
\<close>

datatype json =
    JNull
  | JBool bool
  | JNum rat
  | JStr "nat list"
  | JArr "json list"
  | JObj "(nat list \<times> json) list"

text \<open>\<open>!v\<close> is false exactly for the truthy values.\<close>

fun truthy :: "json \<Rightarrow> bool" where
  "truthy JNull = False"
| "truthy (JBool b) = b"
| "truthy (JNum r) = (r \<noteq> 0)"
| "truthy (JStr s) = (s \<noteq> [])"
| "truthy (JArr xs) = True"
| "truthy (JObj kvs) = True"

text \<open>
  A value found in a response body where the code expects a text. Nothing in the code
  checks that it is a string, so it may be any JSON value: a string (a list of code
  units below 256, as every string here) or one of the other kinds.
\<close>

datatype js_value =
    VText string
  | VNull
  | VBool bool
  | VNum rat
  | VArr "json list"
  | VObj "(nat list \<times> json) list"

fun truthy_value :: "js_value \<Rightarrow> bool" where
  "truthy_value (VText s) = (s \<noteq> [])"
| "truthy_value VNull = False"
| "truthy_value (VBool b) = b"
| "truthy_value (VNum r) = (r \<noteq> 0)"
| "truthy_value (VArr xs) = True"
| "truthy_value (VObj kvs) = True"

text \<open>The same for a value that may be \<open>undefined\<close> (\<open>None\<close>).\<close>

definition truthy_opt :: "js_value option \<Rightarrow> bool" where
  "truthy_opt x = (case x of None \<Rightarrow> False | Some v \<Rightarrow> truthy_value v)"

section \<open>The envelope of the generative text service\<close>

text \<open>
  The envelope of an answer, with the fields the checks read; each may be missing or
  \<open>null\<close>. The text of a part is what \<open>callGemini\<close> returns when it is truthy; it is
  not checked to be a string.
  \<open>safetyRatings_json\<close> and \<open>candidate_json\<close> are the texts \<open>JSON.stringify\<close> prints for
  the ratings and for the candidate in the diagnostics.
\<close>

record part =
  text_of :: "js_value option"

record content =
  parts :: "part list option"

record candidate =
  finishReason :: "string option"
  content_of :: "content option"
  candidate_json :: string

record promptFeedback =
  blockReason :: "string option"
  safetyRatings_json :: string

record gemini_data =
  promptFeedback_of :: "promptFeedback option"
  candidates :: "candidate list option"

section \<open>Configuration\<close>

definition SEMANTIC_SCHOLAR_API :: string where
  "SEMANTIC_SCHOLAR_API = ''https://api.semanticscholar.org/graph/v1/paper/search''"

definition OPENALEX_API :: string where
  "OPENALEX_API = ''https://api.openalex.org/works''"

definition CORE_API :: string where
  "CORE_API = ''https://api.core.ac.uk/v3/search/works''"

text \<open>\<open>process.env.CORE_API_KEY || "YOUR_CORE_API_KEY"\<close>, from the environment variable.\<close>

definition CORE_API_KEY :: "string option \<Rightarrow> string" where
  "CORE_API_KEY env = (case or_str env (Some ''YOUR_CORE_API_KEY'') of Some k \<Rightarrow> k | None \<Rightarrow> [])"

section \<open>The canonical paper and the providers' payloads\<close>

text \<open>
  The fields of a \<open>ResearchPaper\<close> as they are at run time: each may hold \<open>undefined\<close>.
  \<open>citationCount\<close> is a JavaScript number, modelled exactly as a rational.
\<close>

record ResearchPaper =
  title :: "string option"
  url :: "string option"
  paperLink :: "string option"
  abstract :: "string option"
  citationCount :: "rat option"
  authors :: "string option"

text \<open>
  The payloads have the shape the adapters read; every field may be missing or \<open>null\<close>.
\<close>

record ss_author =
  ss_name :: "string option"

record ss_paper =
  ss_title :: "string option"
  ss_url :: "string option"
  ss_abstract :: "string option"
  ss_citationCount :: "rat option"
  ss_authors :: "ss_author list option"

record oa_author =
  oa_author_display_name :: "string option"

record oa_authorship =
  oa_author :: "oa_author option"

record oa_location =
  oa_landing_page_url :: "string option"
  oa_pdf_url :: "string option"

record oa_paper =
  oa_display_name :: "string option"
  oa_id :: "string option"
  oa_primary_location :: "oa_location option"
  oa_abstract_inverted_index :: "inverted_index option"
  oa_cited_by_count :: "rat option"
  oa_authorships :: "oa_authorship list option"

record core_paper =
  core_title :: "string option"
  core_doi :: "string option"
  core_downloadUrl :: "string option"
  core_abstract :: "string option"
  core_citationCount :: "rat option"
  core_authors :: "string list option"

text \<open>
  \<open>response.data\<close> is \<open>None\<close> when the body is \<open>null\<close> or \<open>undefined\<close>; the list inside it
  (\<open>data\<close> for Semantic Scholar, \<open>results\<close> for the others) is \<open>None\<close> when it is missing.
\<close>

type_synonym 'p body = "'p list option option"

text \<open>
  The outside world: what each provider answers to a query (and, for CORE, a key), the
  environment variable \<open>CORE_API_KEY\<close>, and what the generative text service answers
  to the prompt of a stage (named by its context).
\<close>

record world =
  semantic_scholar :: "string \<Rightarrow> ss_paper body http_outcome"
  openalex :: "string \<Rightarrow> oa_paper body http_outcome"
  core :: "string \<Rightarrow> string \<Rightarrow> core_paper body http_outcome"
  env_CORE_API_KEY :: "string option"
  gemini :: "string \<Rightarrow> string \<Rightarrow> gemini_data option http_outcome"

section \<open>The adapters\<close>

definition ss_to_paper :: "ss_paper \<Rightarrow> ResearchPaper" where
  "ss_to_paper paper =
     \<lparr> title = or_str (ss_title paper) (Some ''Untitled''),
       url = or_str (ss_url paper) (Some ''''),
       paperLink = or_str (ss_url paper) (Some ''''),
       abstract = or_str (ss_abstract paper) (Some ''No abstract available''),
       citationCount = or_num (ss_citationCount paper) (Some 0),
       authors =
         or_str (map_option (\<lambda>as. join_opt '', '' (map ss_name as)) (ss_authors paper))
           (Some ''Unknown authors'') \<rparr>"

text \<open>
  The three branches on the list of a response: a non-empty array is mapped, an empty
  one is logged and returned, anything else is an error. Reading a property of a
  \<open>null\<close> body is a \<open>TypeError\<close>.
\<close>

definition on_results ::
  "'p body \<Rightarrow> ('p \<Rightarrow> ResearchPaper) \<Rightarrow> string \<Rightarrow> string \<Rightarrow> ResearchPaper list io" where
  "on_results b f empty_msg provider =
     (case b of
        None \<Rightarrow> throw (TypeError ''Cannot read properties of undefined'')
      | Some None \<Rightarrow> throw (Error (''Invalid data format received from '' @ provider))
      | Some (Some []) \<Rightarrow> seq (console LOG empty_msg) (return [])
      | Some (Some (p # ps)) \<Rightarrow> return (map f (p # ps)))"

definition fetchFromSemanticScholar :: "world \<Rightarrow> string \<Rightarrow> ResearchPaper list io" where
  "fetchFromSemanticScholar w query =
     bind (await (HttpGet SEMANTIC_SCHOLAR_API query) (semantic_scholar w query))
       (\<lambda>response. on_results response ss_to_paper
          ''Semantic Scholar returned 0 results.'' ''Semantic Scholar'')"

text \<open>\<open>id.split('/').pop()\<close>: what follows the last slash.\<close>

definition last_segment :: "string \<Rightarrow> string" where
  "last_segment s = rev (takeWhile (\<lambda>c. c \<noteq> CHR ''/'') (rev s))"

definition oa_to_paper :: "oa_paper \<Rightarrow> ResearchPaper" where
  "oa_to_paper paper =
     \<lparr> title = or_str (oa_display_name paper) (Some ''Untitled''),
       url =
         (if truthy_str (oa_id paper)
          then map_option (\<lambda>i. ''https://openalex.org/'' @ last_segment i) (oa_id paper)
          else Some ''''),
       paperLink =
         or_str (or_str (Option.bind (oa_primary_location paper) oa_landing_page_url)
                   (Option.bind (oa_primary_location paper) oa_pdf_url))
           (Some ''''),
       abstract =
         (case oa_abstract_inverted_index paper of
            Some idx \<Rightarrow> Some (invertAbstract (Some idx))
          | None \<Rightarrow> Some ''No abstract available''),
       citationCount = or_num (oa_cited_by_count paper) (Some 0),
       authors =
         or_str
           (map_option
              (\<lambda>as. join_opt '', ''
                 (filter truthy_str
                    (map (\<lambda>a. Option.bind (oa_author a) oa_author_display_name) as)))
              (oa_authorships paper))
           (Some ''Unknown authors'') \<rparr>"

definition fetchFromOpenAlex :: "world \<Rightarrow> string \<Rightarrow> ResearchPaper list io" where
  "fetchFromOpenAlex w query =
     bind (await (HttpGet OPENALEX_API query) (openalex w query))
       (\<lambda>response. on_results response oa_to_paper
          ''OpenAlex returned 0 results.'' ''OpenAlex'')"

definition doi_url :: "string option \<Rightarrow> string option" where
  "doi_url doi = map_option (\<lambda>d. ''https://doi.org/'' @ d) doi"

definition core_to_paper :: "core_paper \<Rightarrow> ResearchPaper" where
  "core_to_paper paper =
     \<lparr> title = or_str (core_title paper) (Some ''Untitled''),
       url =
         (if truthy_str (core_doi paper) then doi_url (core_doi paper)
          else or_str (core_downloadUrl paper) (Some '''')),
       paperLink =
         or_str (core_downloadUrl paper)
           (if truthy_str (core_doi paper) then doi_url (core_doi paper) else Some ''''),
       abstract = or_str (core_abstract paper) (Some ''No abstract available''),
       citationCount = nullish_num (core_citationCount paper) (Some 0),
       authors =
         or_str (map_option (join '', '') (core_authors paper)) (Some ''Unknown authors'') \<rparr>"

definition fetchFromCORE :: "world \<Rightarrow> string \<Rightarrow> ResearchPaper list io" where
  "fetchFromCORE w query =
     (let key = CORE_API_KEY (env_CORE_API_KEY w)
      in if key = [] \<or> key = ''YOUR_CORE_API_KEY''
         then seq (console WARN ''CORE API Key not configured.'') (return [])
         else bind (await (HttpGet CORE_API query) (core w query key))
                (\<lambda>response. on_results response core_to_paper
                   ''CORE returned 0 results.'' ''CORE''))"

section \<open>The provider fallback chain (fetchRelatedPapers)\<close>

type_synonym PaperProvider = "string \<times> (string \<Rightarrow> ResearchPaper list io)"

text \<open>The text printed for a caught error, and the rate-limit warning.\<close>

definition errorMessage :: "exn \<Rightarrow> string" where
  "errorMessage err =
     (case err of
        AxiosError m (Some (status, data)) \<Rightarrow> ''Status '' @ decimal status @ '': '' @ data
      | _ \<Rightarrow> message err)"

definition on_provider_error :: "string \<Rightarrow> exn \<Rightarrow> unit io" where
  "on_provider_error name err =
     seq (case err of
            AxiosError m (Some (status, data)) \<Rightarrow>
              (if name = ''Semantic Scholar'' \<and> status = 429
               then console WARN (''Rate limit hit for '' @ name @ ''. Falling back...'')
               else return ())
          | _ \<Rightarrow> return ())
       (console ERROR (''Error fetching from '' @ name @ '': '' @ errorMessage err))"

text \<open>
  One pass of the loop body. \<open>Some results\<close> is the \<open>return results\<close> inside the loop,
  \<open>None\<close> is falling through to the next provider.
\<close>

definition try_provider :: "PaperProvider \<Rightarrow> string \<Rightarrow> ResearchPaper list option io" where
  "try_provider provider thesisDescription =
     seq (console LOG (''Attempting to fetch from '' @ fst provider @ ''...''))
       (try_catch
          (bind (snd provider thesisDescription)
             (\<lambda>results.
                if length results > 0
                then seq (console LOG (''Successfully fetched '' @ decimal (length results)
                                        @ '' papers from '' @ fst provider @ ''.''))
                       (return (Some results))
                else seq (console LOG (fst provider
                                        @ '' returned successfully but found 0 relevant papers.''))
                       (return None)))
          (\<lambda>err. seq (on_provider_error (fst provider) err) (return None)))"

fun fetch_loop :: "PaperProvider list \<Rightarrow> string \<Rightarrow> ResearchPaper list io" where
  "fetch_loop [] thesisDescription =
     seq (console WARN ''All paper providers failed or returned no results.'') (return [])"
| "fetch_loop (provider # providers) thesisDescription =
     bind (try_provider provider thesisDescription)
       (\<lambda>r. case r of
               Some results \<Rightarrow> return results
             | None \<Rightarrow> fetch_loop providers thesisDescription)"

definition ss_provider :: "world \<Rightarrow> PaperProvider" where
  "ss_provider w = (''Semantic Scholar'', fetchFromSemanticScholar w)"

definition oa_provider :: "world \<Rightarrow> PaperProvider" where
  "oa_provider w = (''OpenAlex'', fetchFromOpenAlex w)"

definition core_provider :: "world \<Rightarrow> PaperProvider" where
  "core_provider w = (''CORE'', fetchFromCORE w)"

definition providers :: "world \<Rightarrow> PaperProvider list" where
  "providers w = [ss_provider w, oa_provider w, core_provider w]"

definition fetchRelatedPapers :: "world \<Rightarrow> string \<Rightarrow> ResearchPaper list io" where
  "fetchRelatedPapers w thesisDescription = fetch_loop (providers w) thesisDescription"

text \<open>
  Reference description of one provider's contribution: the non-empty list it supplies,
  if it supplies one, and everything a pass over it did.
\<close>

definition supplies :: "PaperProvider \<Rightarrow> string \<Rightarrow> ResearchPaper list option" where
  "supplies provider q =
     (case snd (snd provider q) of
        Inr (p # ps) \<Rightarrow> Some (p # ps)
      | _ \<Rightarrow> None)"

definition pass_events :: "PaperProvider \<Rightarrow> string \<Rightarrow> event list" where
  "pass_events provider q = fst (try_provider provider q)"

definition requests :: "event list \<Rightarrow> event list" where
  "requests tr = filter (\<lambda>e. case e of Console l m \<Rightarrow> False | _ \<Rightarrow> True) tr"

section \<open>Reference predicates and example inputs\<close>

definition all_present :: "ResearchPaper \<Rightarrow> bool" where
  "all_present p =
     (title p \<noteq> None \<and> url p \<noteq> None \<and> paperLink p \<noteq> None \<and> abstract p \<noteq> None
      \<and> citationCount p \<noteq> None \<and> authors p \<noteq> None)"

definition count_of :: "rat option \<Rightarrow> rat" where
  "count_of c = (case c of None \<Rightarrow> 0 | Some r \<Rightarrow> r)"

text \<open>A paper of each provider with every field missing, to build examples from.\<close>

definition empty_ss_paper :: ss_paper where
  "empty_ss_paper =
     \<lparr> ss_title = None, ss_url = None, ss_abstract = None, ss_citationCount = None,
       ss_authors = None \<rparr>"

definition empty_oa_paper :: oa_paper where
  "empty_oa_paper =
     \<lparr> oa_display_name = None, oa_id = None, oa_primary_location = None,
       oa_abstract_inverted_index = None, oa_cited_by_count = None, oa_authorships = None \<rparr>"

definition empty_core_paper :: core_paper where
  "empty_core_paper =
     \<lparr> core_title = None, core_doi = None, core_downloadUrl = None, core_abstract = None,
       core_citationCount = None, core_authors = None \<rparr>"

text \<open>A world in which every provider is unreachable and no key is configured.\<close>

definition offline :: world where
  "offline =
     \<lparr> semantic_scholar = (\<lambda>q. Rejected (AxiosError ''Network Error'' None)),
       openalex = (\<lambda>q. Rejected (AxiosError ''Network Error'' None)),
       core = (\<lambda>q k. Rejected (AxiosError ''Network Error'' None)),
       env_CORE_API_KEY = None,
       gemini = (\<lambda>c p. Rejected (AxiosError ''Network Error'' None)) \<rparr>"

text \<open>Worlds in which one provider answers every query with a given list of papers.\<close>

definition ss_answers :: "ss_paper list \<Rightarrow> world \<Rightarrow> world" where
  "ss_answers ps w = w\<lparr> semantic_scholar := (\<lambda>q. Resolved (Some (Some ps))) \<rparr>"

definition oa_answers :: "oa_paper list \<Rightarrow> world \<Rightarrow> world" where
  "oa_answers ps w = w\<lparr> openalex := (\<lambda>q. Resolved (Some (Some ps))) \<rparr>"

definition core_answers :: "core_paper list \<Rightarrow> world \<Rightarrow> world" where
  "core_answers ps w = w\<lparr> core := (\<lambda>q k. Resolved (Some (Some ps))) \<rparr>"

section \<open>JSON.parse\<close>

datatype token =
    TLBrace | TRBrace | TLBracket | TRBracket | TColon | TComma
  | TTrue | TFalse | TNull
  | TString "nat list"
  | TNumber rat

definition is_digit :: "char \<Rightarrow> bool" where
  "is_digit c = ((48::nat) \<le> of_char c \<and> of_char c \<le> (57::nat))"

definition digit_value :: "char \<Rightarrow> nat" where
  "digit_value c = of_char c - (48::nat)"

definition hex_value :: "char \<Rightarrow> nat option" where
  "hex_value c =
     (let n = of_char c :: nat
      in if 48 \<le> n \<and> n \<le> 57 then Some (n - 48)
         else if 65 \<le> n \<and> n \<le> 70 then Some (n - 55)
         else if 97 \<le> n \<and> n \<le> 102 then Some (n - 87)
         else None)"

definition hex4 :: "char \<Rightarrow> char \<Rightarrow> char \<Rightarrow> char \<Rightarrow> nat option" where
  "hex4 a b c d =
     (case (hex_value a, hex_value b, hex_value c, hex_value d) of
        (Some h3, Some h2, Some h1, Some h0) \<Rightarrow> Some (((h3 * 16 + h2) * 16 + h1) * 16 + h0)
      | _ \<Rightarrow> None)"

text \<open>The character after a backslash, for the escapes of one character.\<close>

definition simple_escape :: "char \<Rightarrow> nat option" where
  "simple_escape c =
     (if c = CHR 0x22 then Some 0x22
      else if c = CHR 0x5C then Some 0x5C
      else if c = CHR ''/'' then Some 0x2F
      else if c = CHR ''b'' then Some 8
      else if c = CHR ''f'' then Some 12
      else if c = CHR ''n'' then Some 10
      else if c = CHR ''r'' then Some 13
      else if c = CHR ''t'' then Some 9
      else None)"

definition more :: "nat \<Rightarrow> nat \<Rightarrow> (nat list \<times> nat) option \<Rightarrow> (nat list \<times> nat) option" where
  "more u k r = map_option (\<lambda>(s, n). (u # s, n + k)) r"

text \<open>
  The text after an opening quote: the decoded string and the number of characters up
  to and including the closing quote. A control character below U+0020, an unknown
  escape and a missing closing quote are syntax errors.
\<close>

fun lex_string :: "string \<Rightarrow> (nat list \<times> nat) option" where
  "lex_string [] = None"
| "lex_string (c # cs) =
     (if c = CHR 0x22 then Some ([], 1)
      else if c = CHR 0x5C then
        (case cs of
           [] \<Rightarrow> None
         | e # es \<Rightarrow>
             if e = CHR ''u'' then
               (case es of
                  a # b # c' # d # rest \<Rightarrow>
                    (case hex4 a b c' d of
                       None \<Rightarrow> None
                     | Some u \<Rightarrow> more u 6 (lex_string rest))
                | _ \<Rightarrow> None)
             else
               (case simple_escape e of
                  None \<Rightarrow> None
                | Some u \<Rightarrow> more u 2 (lex_string es)))
      else if of_char c < (32::nat) then None
      else more (of_char c) 1 (lex_string cs))"

definition digits_value :: "string \<Rightarrow> nat" where
  "digits_value ds = foldl (\<lambda>acc d. acc * 10 + digit_value d) 0 ds"

text \<open>
  A number at the head of the text: its value and its length. The integer part is a
  single \<open>0\<close> or starts with a non-zero digit; a fraction and an exponent need at least
  one digit each.
\<close>

definition lex_fraction :: "string \<Rightarrow> (string \<times> nat) option" where
  "lex_fraction s =
     (case s of
        c # r \<Rightarrow>
          if c = CHR ''.'' then
            (let fs = takeWhile is_digit r
             in if fs = [] then None else Some (fs, Suc (length fs)))
          else Some ([], 0)
      | [] \<Rightarrow> Some ([], 0))"

definition lex_exponent :: "string \<Rightarrow> (int \<times> nat) option" where
  "lex_exponent s =
     (case s of
        c # r \<Rightarrow>
          if c = CHR ''e'' \<or> c = CHR ''E'' then
            (let (neg, k, r') =
                   (case r of
                      g # r'' \<Rightarrow>
                        if g = CHR ''-'' then (True, 1, r'')
                        else if g = CHR ''+'' then (False, 1, r'')
                        else (False, 0, r)
                    | [] \<Rightarrow> (False, 0, r));
                 es = takeWhile is_digit r'
             in if es = [] then None
                else Some (if neg then - int (digits_value es) else int (digits_value es),
                           Suc (k + length es)))
          else Some (0, 0)
      | [] \<Rightarrow> Some (0, 0))"

definition scale :: "rat \<Rightarrow> int \<Rightarrow> rat" where
  "scale r e = (if 0 \<le> e then r * 10 ^ nat e else r / 10 ^ nat (- e))"

definition lex_number :: "string \<Rightarrow> (rat \<times> nat) option" where
  "lex_number s =
     (let (neg, k, s1) =
            (case s of
               c # r \<Rightarrow> if c = CHR ''-'' then (True, 1, r) else (False, 0, s)
             | [] \<Rightarrow> (False, 0, s));
          ds = takeWhile is_digit s1
      in if ds = [] then None
         else
           (let ip = (if hd ds = CHR ''0'' then [hd ds] else ds);
                s2 = drop (length ip) s1
            in case lex_fraction s2 of
                 None \<Rightarrow> None
               | Some (fs, kf) \<Rightarrow>
                   (case lex_exponent (drop kf s2) of
                      None \<Rightarrow> None
                    | Some (e, ke) \<Rightarrow>
                        (let m = of_nat (digits_value (ip @ fs)) :: rat;
                             v = scale m (e - int (length fs))
                         in Some (if neg then - v else v, k + length ip + kf + ke)))))"

definition is_json_ws :: "char \<Rightarrow> bool" where
  "is_json_ws c = (c = CHR '' '' \<or> c = CHR 0x09 \<or> c = CHR 0x0A \<or> c = CHR 0x0D)"

definition punctuation :: "char \<Rightarrow> token option" where
  "punctuation c =
     (if c = CHR ''{'' then Some TLBrace
      else if c = CHR ''}'' then Some TRBrace
      else if c = CHR ''['' then Some TLBracket
      else if c = CHR '']'' then Some TRBracket
      else if c = CHR '':'' then Some TColon
      else if c = CHR '','' then Some TComma
      else None)"

definition keyword :: "string \<Rightarrow> (token \<times> nat) option" where
  "keyword s =
     (if take 4 s = ''true'' then Some (TTrue, 4)
      else if take 5 s = ''false'' then Some (TFalse, 5)
      else if take 4 s = ''null'' then Some (TNull, 4)
      else None)"

definition cons_token :: "token \<Rightarrow> token list option \<Rightarrow> token list option" where
  "cons_token t r = map_option (\<lambda>ts. t # ts) r"

fun lex :: "string \<Rightarrow> token list option" where
  "lex [] = Some []"
| "lex (c # cs) =
     (if is_json_ws c then lex cs
      else case punctuation c of
        Some t \<Rightarrow> cons_token t (lex cs)
      | None \<Rightarrow>
          if c = CHR 0x22 then
            (case lex_string cs of
               None \<Rightarrow> None
             | Some (s, n) \<Rightarrow> cons_token (TString s) (lex (drop n cs)))
          else if c = CHR ''-'' \<or> is_digit c then
            (case lex_number (c # cs) of
               None \<Rightarrow> None
             | Some (r, n) \<Rightarrow> cons_token (TNumber r) (lex (drop (n - 1) cs)))
          else
            (case keyword (c # cs) of
               None \<Rightarrow> None
             | Some (t, n) \<Rightarrow> cons_token t (lex (drop (n - 1) cs))))"

text \<open>
  The grammar, as a machine over the tokens with a stack of the arrays and objects that
  are open. \<open>FObj kvs (Some k)\<close> is an object waiting for the value of key \<open>k\<close>.
\<close>

datatype frame = FArr "json list" | FObj "(nat list \<times> json) list" "nat list option"

datatype mode = NeedValue | ArrFirst | ObjFirst | ObjKey | NeedColon | After | Done json

type_synonym pstate = "mode \<times> frame list"

fun complete :: "json \<Rightarrow> frame list \<Rightarrow> pstate option" where
  "complete v [] = Some (Done v, [])"
| "complete v (FArr xs # st) = Some (After, FArr (xs @ [v]) # st)"
| "complete v (FObj kvs (Some k) # st) = Some (After, FObj (AList.update k v kvs) None # st)"
| "complete v (FObj kvs None # st) = None"

fun scalar :: "token \<Rightarrow> json option" where
  "scalar TTrue = Some (JBool True)"
| "scalar TFalse = Some (JBool False)"
| "scalar TNull = Some JNull"
| "scalar (TString s) = Some (JStr s)"
| "scalar (TNumber r) = Some (JNum r)"
| "scalar _ = None"

definition value_start :: "token \<Rightarrow> frame list \<Rightarrow> pstate option" where
  "value_start t st =
     (case scalar t of
        Some v \<Rightarrow> complete v st
      | None \<Rightarrow>
          (case t of
             TLBracket \<Rightarrow> Some (ArrFirst, FArr [] # st)
           | TLBrace \<Rightarrow> Some (ObjFirst, FObj [] None # st)
           | _ \<Rightarrow> None))"

definition key_start :: "token \<Rightarrow> frame list \<Rightarrow> pstate option" where
  "key_start t st =
     (case (t, st) of
        (TString k, FObj kvs None # st') \<Rightarrow> Some (NeedColon, FObj kvs (Some k) # st')
      | _ \<Rightarrow> None)"

definition close_frame :: "token \<Rightarrow> frame list \<Rightarrow> pstate option" where
  "close_frame t st =
     (case (t, st) of
        (TRBracket, FArr xs # st') \<Rightarrow> complete (JArr xs) st'
      | (TRBrace, FObj kvs None # st') \<Rightarrow> complete (JObj kvs) st'
      | _ \<Rightarrow> None)"

fun pstep :: "pstate \<Rightarrow> token \<Rightarrow> pstate option" where
  "pstep (NeedValue, st) t = value_start t st"
| "pstep (ArrFirst, st) t = (if t = TRBracket then close_frame t st else value_start t st)"
| "pstep (ObjFirst, st) t = (if t = TRBrace then close_frame t st else key_start t st)"
| "pstep (ObjKey, st) t = key_start t st"
| "pstep (NeedColon, st) t = (if t = TColon then Some (NeedValue, st) else None)"
| "pstep (After, st) t =
     (if t = TComma then
        (case st of
           FArr xs # st' \<Rightarrow> Some (NeedValue, st)
         | FObj kvs None # st' \<Rightarrow> Some (ObjKey, st)
         | _ \<Rightarrow> None)
      else close_frame t st)"
| "pstep (Done v, st) t = None"

fun run_tokens :: "pstate \<Rightarrow> token list \<Rightarrow> pstate option" where
  "run_tokens s [] = Some s"
| "run_tokens s (t # ts) = (case pstep s t of None \<Rightarrow> None | Some s' \<Rightarrow> run_tokens s' ts)"

text \<open>
  \<open>JSON.parse\<close>: the value, or a \<open>SyntaxError\<close> (its message is the engine's; a fixed
  text stands for it).
\<close>

definition JSON_parse :: "string \<Rightarrow> exn + json" where
  "JSON_parse s =
     (case lex s of
        None \<Rightarrow> Inl (SyntaxError ''Unexpected token in JSON'')
      | Some ts \<Rightarrow>
          (case run_tokens (NeedValue, []) ts of
             Some (Done v, []) \<Rightarrow> Inr v
           | _ \<Rightarrow> Inl (SyntaxError ''Unexpected token in JSON'')))"

section \<open>JSON extraction and repair (extractAndParseJson)\<close>

definition backtick :: char where "backtick = CHR 0x60"
definition dquote :: char where "dquote = CHR 0x22"
definition squote :: char where "squote = CHR 0x27"
definition backslash :: char where "backslash = CHR 0x5C"
definition newline :: char where "newline = CHR 0x0A"

text \<open>
  The class \<open>\s\<close> and the line terminators, among the code units below 256; \<open>trim\<close>
  removes the same characters as \<open>\s\<close> matches.
\<close>

definition is_space :: "char \<Rightarrow> bool" where
  "is_space c = (of_char c \<in> {9, 10, 11, 12, 13, 32, 160 :: nat})"

definition is_line_terminator :: "char \<Rightarrow> bool" where
  "is_line_terminator c = (c = CHR 0x0A \<or> c = CHR 0x0D)"

definition trim :: "string \<Rightarrow> string" where
  "trim s = rev (dropWhile is_space (rev (dropWhile is_space s)))"

definition ascii_lower :: "char \<Rightarrow> char" where
  "ascii_lower c =
     (if (65::nat) \<le> of_char c \<and> of_char c \<le> (90::nat) then char_of (of_char c + (32::nat)) else c)"

definition fence :: string where
  "fence = [backtick, backtick, backtick]"

text \<open>
  \<open>.replace(/^```json\s*/im, '')\<close>: the first place at the start of a line where the
  marker stands, in either case, is removed together with the white space after it.
  The flag says whether the position is at the start of a line.
\<close>

definition at_json_fence :: "string \<Rightarrow> bool" where
  "at_json_fence s = (map ascii_lower (take 7 s) = fence @ ''json'')"

fun strip_start_from :: "bool \<Rightarrow> string \<Rightarrow> string" where
  "strip_start_from b [] = []"
| "strip_start_from b (c # cs) =
     (if b \<and> at_json_fence (c # cs) then dropWhile is_space (drop 7 (c # cs))
      else c # strip_start_from (is_line_terminator c) cs)"

definition strip_start :: "string \<Rightarrow> string" where
  "strip_start s = strip_start_from True s"

text \<open>
  \<open>.replace(/\s*```$/im, '')\<close>: the first place from which white space, three
  backticks and the end of a line follow is removed up to that end. \<open>match_end\<close> gives
  what remains after a match that starts at the head of the text.
\<close>

definition match_end :: "string \<Rightarrow> string option" where
  "match_end s =
     (let r = dropWhile is_space s
      in if take 3 r = fence
            \<and> (case drop 3 r of [] \<Rightarrow> True | d # ds \<Rightarrow> is_line_terminator d)
         then Some (drop 3 r) else None)"

fun strip_end :: "string \<Rightarrow> string" where
  "strip_end [] = []"
| "strip_end (c # cs) =
     (case match_end (c # cs) of
        Some rest \<Rightarrow> rest
      | None \<Rightarrow> c # strip_end cs)"

fun includes_str :: "string \<Rightarrow> string \<Rightarrow> bool" where
  "includes_str [] sub = (sub = [])"
| "includes_str (c # cs) sub = (take (length sub) (c # cs) = sub \<or> includes_str cs sub)"

definition startsWith :: "string \<Rightarrow> char \<Rightarrow> bool" where
  "startsWith s c = (case s of [] \<Rightarrow> False | d # ds \<Rightarrow> d = c)"

text \<open>
  \<open>group1.replace(/(?<!\\)\n/g, '\\n')\<close>: a line feed that does not follow a backslash
  becomes a backslash and \<open>n\<close>. The flag says whether the previous character of the
  input is a backslash.
\<close>

fun repair_from :: "bool \<Rightarrow> string \<Rightarrow> string" where
  "repair_from p [] = []"
| "repair_from p (c # cs) =
     (if c = newline \<and> \<not> p then backslash # CHR ''n'' # repair_from False cs
      else c # repair_from (c = backslash) cs)"

definition repair_newlines :: "string \<Rightarrow> string" where
  "repair_newlines g = repair_from False g"

text \<open>
  The group \<open>((\\"|[^"])*?)\<close> followed by the closing quote, on the text after the
  opening quote: the length of the group. The star is lazy, so the closing quote is
  tried first; a backslash before a quote is taken as a pair, and only when nothing
  closes the string after that pair is the backslash taken alone and the quote as the
  closing one.
\<close>

fun body_dq :: "string \<Rightarrow> nat option" where
  "body_dq [] = None"
| "body_dq (c # cs) =
     (if c = dquote then Some 0
      else
        (case cs of
           d # ds \<Rightarrow>
             if c = backslash \<and> d = dquote then
               (case body_dq ds of Some n \<Rightarrow> Some (n + 2) | None \<Rightarrow> Some 1)
             else map_option Suc (body_dq cs)
         | [] \<Rightarrow> None))"

text \<open>
  A match of \<open>\s*"((\\"|[^"])*?)"\<close> on the text after a colon: the group and the
  number of characters matched. Likewise for \<open>\s*'([^']*)'\<close>.
\<close>

definition match_dq :: "string \<Rightarrow> (string \<times> nat) option" where
  "match_dq cs =
     (let w = length (takeWhile is_space cs)
      in case drop w cs of
           q # r \<Rightarrow>
             if q = dquote then
               (case body_dq r of
                  Some n \<Rightarrow> Some (take n r, w + n + 2)
                | None \<Rightarrow> None)
             else None
         | [] \<Rightarrow> None)"

definition match_sq :: "string \<Rightarrow> (string \<times> nat) option" where
  "match_sq cs =
     (let w = length (takeWhile is_space cs)
      in case drop w cs of
           q # r \<Rightarrow>
             if q = squote then
               (let g = takeWhile (\<lambda>c. c \<noteq> squote) r
                in if drop (length g) r = [] then None else Some (g, w + length g + 2))
             else None
         | [] \<Rightarrow> None)"

text \<open>
  The two global replacements. A match is replaced by a colon, one space and the
  repaired group between its quotes, and the search goes on after the match; where no
  match starts, the character is copied.
\<close>

fun clean_dq :: "string \<Rightarrow> string" where
  "clean_dq [] = []"
| "clean_dq (c # cs) =
     (if c = CHR '':'' then
        (case match_dq cs of
           Some (g, k) \<Rightarrow>
             CHR '':'' # CHR '' '' # dquote # repair_newlines g @ dquote # clean_dq (drop k cs)
         | None \<Rightarrow> c # clean_dq cs)
      else c # clean_dq cs)"

fun clean_sq :: "string \<Rightarrow> string" where
  "clean_sq [] = []"
| "clean_sq (c # cs) =
     (if c = CHR '':'' then
        (case match_sq cs of
           Some (g, k) \<Rightarrow>
             CHR '':'' # CHR '' '' # squote # repair_newlines g @ squote # clean_sq (drop k cs)
         | None \<Rightarrow> c # clean_sq cs)
      else c # clean_sq cs)"

definition clean :: "string \<Rightarrow> string" where
  "clean jsonString = clean_sq (clean_dq jsonString)"

definition strip_fences :: "string \<Rightarrow> string" where
  "strip_fences rawString = trim (strip_end (strip_start rawString))"

definition looks_like_plain_text :: "string \<Rightarrow> bool" where
  "looks_like_plain_text jsonString =
     (\<not> startsWith jsonString CHR ''['' \<and> \<not> startsWith jsonString CHR ''{''
      \<and> length jsonString < 200
      \<and> (includes_str jsonString ''error'' \<or> includes_str jsonString ''sorry''))"

definition parse :: "string \<Rightarrow> json io" where
  "parse s = ([], JSON_parse s)"

text \<open>
  The raw string is \<open>None\<close> for \<open>null\<close> and \<open>undefined\<close>. The result \<open>null\<close> is \<open>JNull\<close>.
\<close>

definition extractAndParseJson :: "string option \<Rightarrow> string \<Rightarrow> json io" where
  "extractAndParseJson rawString context =
     (if rawString = None \<or> rawString = Some [] then
        seq (console WARN (''[Parser] No raw string provided for context: '' @ context))
          (return JNull)
      else
        (let jsonString = strip_fences (the rawString)
         in if looks_like_plain_text jsonString then
              seq (console WARN (''[Parser] Raw string for '' @ context
                     @ '' looks like plain text/error, not JSON: '' @ [dquote]
                     @ take 100 jsonString @ ''...'' @ [dquote]))
                (return JNull)
            else
              try_catch (parse jsonString)
                (\<lambda>initialError.
                   seq (console WARN (''[Parser] Initial JSON.parse failed for '' @ context
                          @ ''. Attempting cleaning. Error: '' @ message initialError))
                     (try_catch
                        (let cleanedString = clean jsonString
                         in seq (if cleanedString \<noteq> jsonString
                                 then console LOG
                                        (''[Parser] Attempting parse after newline cleaning for ''
                                           @ context @ ''.'')
                                 else console WARN
                                        (''[Parser] Newline cleaning did not modify the string for ''
                                           @ context @ ''. The error might be different.''))
                              (parse cleanedString))
                        (\<lambda>cleaningError.
                           seq (console ERROR
                                  (''[Parser] JSON.parse failed even after cleaning for ''
                                     @ context @ ''. Error: '' @ message cleaningError))
                             (seq (console ERROR
                                     (''[Parser] Final problematic string slice for '' @ context
                                        @ '': '' @ take 500 jsonString))
                                (return JNull)))))))"

text \<open>
  The call \<open>extractAndParseJson(raw, context)\<close> with a raw value of any kind, as the
  pipeline makes it. A falsy value takes the first return; a string is handled as above;
  any other truthy value has no method \<open>replace\<close>, so the first statement after the
  guard throws a \<open>TypeError\<close>, outside both \<open>try\<close> blocks.
\<close>

definition extractAndParseJson_untyped :: "js_value option \<Rightarrow> string \<Rightarrow> json io" where
  "extractAndParseJson_untyped rawString context =
     (case rawString of
        None \<Rightarrow> extractAndParseJson None context
      | Some (VText s) \<Rightarrow> extractAndParseJson (Some s) context
      | Some v \<Rightarrow>
          if truthy_value v then throw (TypeError ''rawString.replace is not a function'')
          else extractAndParseJson None context)"

text \<open>
  A text between an opening line (three backticks, a tag and the white space \<open>b1\<close>) and
  a closing line (the white space \<open>b2\<close>, three backticks and the white space \<open>b3\<close>).
\<close>

definition wrap_in_fences :: "string \<Rightarrow> string \<Rightarrow> string \<Rightarrow> string \<Rightarrow> string \<Rightarrow> string" where
  "wrap_in_fences tag b1 b2 b3 s = fence @ tag @ b1 @ s @ b2 @ fence @ b3"

section \<open>The generative text gateway (callGemini)\<close>

definition GEMINI_API :: string where
  "GEMINI_API = ''https://generativelanguage.googleapis.com/v1beta/models/gemini-1.5-flash-latest:generateContent''"

text \<open>\<open>candidate.content?.parts?.[0]?.text\<close>\<close>

definition first_text :: "candidate \<Rightarrow> js_value option" where
  "first_text c =
     (case content_of c of
        None \<Rightarrow> None
      | Some ct \<Rightarrow>
          (case parts ct of
             None \<Rightarrow> None
           | Some [] \<Rightarrow> None
           | Some (p # ps) \<Rightarrow> text_of p))"

definition no_candidates :: "string \<Rightarrow> js_value io" where
  "no_candidates context =
     seq (console ERROR (''Error calling Gemini API for '' @ context
            @ '': No candidates received. Finish Reason: UNKNOWN''))
       (throw (Error ''No response generated by AI. Reason: UNKNOWN''))"

text \<open>The checks on the answer, in the order of the source.\<close>

definition check_response :: "string \<Rightarrow> gemini_data option \<Rightarrow> js_value io" where
  "check_response context data =
     (case data of
        None \<Rightarrow>
          seq (console ERROR (''Error calling Gemini API for '' @ context
                 @ '': No response data received.''))
            (throw (Error ''Empty response from Gemini API''))
      | Some d \<Rightarrow>
          if truthy_str (Option.bind (promptFeedback_of d) blockReason) then
            seq (console ERROR (''Error calling Gemini API for '' @ context
                   @ '': Prompt blocked. Reason: ''
                   @ the (Option.bind (promptFeedback_of d) blockReason)))
              (seq (console ERROR (''Safety Ratings: ''
                      @ safetyRatings_json (the (promptFeedback_of d))))
                 (throw (Error (''AI request blocked due to safety settings: ''
                    @ the (Option.bind (promptFeedback_of d) blockReason)))))
          else
            (case candidates d of
               None \<Rightarrow> no_candidates context
             | Some [] \<Rightarrow> no_candidates context
             | Some (candidate # others) \<Rightarrow>
                 seq (if truthy_str (finishReason candidate)
                         \<and> finishReason candidate \<noteq> Some ''STOP''
                      then console WARN (''Gemini API for '' @ context
                             @ '' finished with reason: '' @ the (finishReason candidate)
                             @ ''. Output might be incomplete.'')
                      else return ())
                   (if \<not> truthy_opt (first_text candidate) then
                      seq (console ERROR (''Error calling Gemini API for '' @ context
                             @ '': Missing text content in response candidate.''))
                        (seq (console ERROR (''Received candidate: ''
                                @ candidate_json candidate))
                           (throw (Error
                              ''Invalid response structure from Gemini API (missing text)'')))
                    else return (the (first_text candidate)))))"

text \<open>What the outer handler prints for the caught error.\<close>

definition error_detail :: "exn \<Rightarrow> string" where
  "error_detail err =
     (case err of
        AxiosError m (Some (status, data)) \<Rightarrow> (if data \<noteq> [] then data else m)
      | _ \<Rightarrow> message err)"

definition gateway_error :: "string \<Rightarrow> exn" where
  "gateway_error context = Error (''Failed to get response from AI for '' @ context @ ''.'')"

definition callGemini :: "world \<Rightarrow> string \<Rightarrow> string \<Rightarrow> js_value io" where
  "callGemini w prompt context =
     seq (console LOG (''Calling Gemini API for: '' @ context))
       (try_catch
          (bind (await (HttpPost GEMINI_API prompt) (gemini w context prompt))
             (check_response context))
          (\<lambda>error.
             seq (console ERROR (''Error calling Gemini API for '' @ context @ '': ''
                    @ error_detail error))
               (throw (gateway_error context))))"

section \<open>The pipeline (generateThesisRoadmap)\<close>

text \<open>
  The prompt templates of \<open>PromptGenerator\<close> and the printing of the paper details by
  \<open>JSON.stringify(paperDetails, null, 2)\<close> are parameters: they build strings and do
  nothing else.
\<close>

record templates =
  prompt_stepByStep :: "string \<Rightarrow> string"
  prompt_rankPapers :: "string \<Rightarrow> string \<Rightarrow> string"
  prompt_methodology :: "string \<Rightarrow> string"
  prompt_researchGaps :: "string \<Rightarrow> string \<Rightarrow> string"
  prompt_prosCons :: "string \<Rightarrow> string \<Rightarrow> string"
  stringify_papers :: "ResearchPaper list \<Rightarrow> string"

text \<open>The texts \<open>JSON.stringify\<close> gives for the three error markers.\<close>

definition rank_error_marker :: string where
  "rank_error_marker = ''[{\"error\":\"Failed to prepare data for research ranking.\"}]''"

definition gaps_error_marker :: string where
  "gaps_error_marker = ''{\"error\":\"Failed to prepare data for research gap analysis.\"}''"

definition pros_error_marker :: string where
  "pros_error_marker = ''{\"error\":\"Failed to prepare data for pros and cons analysis.\"}''"

definition rankAndSummarizePapersLLM ::
  "world \<Rightarrow> templates \<Rightarrow> string \<Rightarrow> ResearchPaper list \<Rightarrow> js_value io" where
  "rankAndSummarizePapersLLM w t thesisDescription papers =
     try_catch
       (callGemini w (prompt_rankPapers t thesisDescription (stringify_papers t papers))
          ''rank and summarize papers'')
       (\<lambda>error.
          seq (console ERROR (''Error preparing data for rankAndSummarizePapersLLM: ''
                 @ message error))
            (return (VText rank_error_marker)))"

definition abstracts_of :: "ResearchPaper list \<Rightarrow> string" where
  "abstracts_of papers = join_opt [newline, newline, CHR ''-'', CHR ''-'', CHR ''-'', newline, newline]
     (map abstract papers)"

definition generateResearchGapAnalysisLLM ::
  "world \<Rightarrow> templates \<Rightarrow> ResearchPaper list \<Rightarrow> string \<Rightarrow> js_value io" where
  "generateResearchGapAnalysisLLM w t papers thesisDescription =
     try_catch
       (callGemini w (prompt_researchGaps t (abstracts_of papers) thesisDescription)
          ''research gap analysis'')
       (\<lambda>error.
          seq (console ERROR (''Error preparing data for generateResearchGapAnalysisLLM: ''
                 @ message error))
            (return (VText gaps_error_marker)))"

definition generateProsAndConsLLM ::
  "world \<Rightarrow> templates \<Rightarrow> ResearchPaper list \<Rightarrow> string \<Rightarrow> js_value io" where
  "generateProsAndConsLLM w t papers thesisDescription =
     try_catch
       (callGemini w (prompt_prosCons t (abstracts_of papers) thesisDescription)
          ''pros and cons'')
       (\<lambda>error.
          seq (console ERROR (''Error preparing data for generateProsAndConsLLM: ''
                 @ message error))
            (return (VText pros_error_marker)))"

text \<open>
  The variables declared before the \<open>try\<close>: what the handler sees is what was assigned
  before the exception. A raw text is \<open>None\<close> while it is \<open>null\<close>, and then whatever the
  stage returned.
\<close>

record vars =
  stepByStepRaw :: "js_value option"
  rankedPapersRaw :: "js_value option"
  methodologyRaw :: "js_value option"
  researchGapAnalysisRaw :: "js_value option"
  prosAndConsRaw :: "js_value option"
  relatedPapers_var :: "ResearchPaper list"

definition initial_vars :: vars where
  "initial_vars =
     \<lparr> stepByStepRaw = None, rankedPapersRaw = None, methodologyRaw = None,
       researchGapAnalysisRaw = None, prosAndConsRaw = None, relatedPapers_var = [] \<rparr>"

text \<open>
  A run of assignments \<open>x = await f(...)\<close>: the events so far, the variables, and the
  exception that stopped the run, if one did.
\<close>

type_synonym run = "event list \<times> vars \<times> exn option"

definition assign :: "run \<Rightarrow> (vars \<Rightarrow> 'a io) \<Rightarrow> (vars \<Rightarrow> 'a \<Rightarrow> vars) \<Rightarrow> run" where
  "assign r f store =
     (case r of
        (tr, vs, Some e) \<Rightarrow> (tr, vs, Some e)
      | (tr, vs, None) \<Rightarrow>
          (case f vs of
             (tr', Inl e) \<Rightarrow> (tr @ tr', vs, Some e)
           | (tr', Inr v) \<Rightarrow> (tr @ tr', store vs v, None)))"

definition stage1 :: "world \<Rightarrow> templates \<Rightarrow> string \<Rightarrow> js_value io" where
  "stage1 w t thesisDescription =
     callGemini w (prompt_stepByStep t thesisDescription) ''step-by-step guide''"

definition stage4 :: "world \<Rightarrow> templates \<Rightarrow> string \<Rightarrow> js_value io" where
  "stage4 w t thesisDescription =
     callGemini w (prompt_methodology t thesisDescription) ''methodology''"

definition stages :: "world \<Rightarrow> templates \<Rightarrow> string \<Rightarrow> run" where
  "stages w t thesisDescription =
     assign
       (assign
          (assign
             (assign
                (assign
                   (assign ([], initial_vars, None)
                      (\<lambda>vs. stage1 w t thesisDescription)
                      (\<lambda>vs v. vs\<lparr> stepByStepRaw := Some v \<rparr>))
                   (\<lambda>vs. fetchRelatedPapers w thesisDescription)
                   (\<lambda>vs v. vs\<lparr> relatedPapers_var := v \<rparr>))
                (\<lambda>vs. rankAndSummarizePapersLLM w t thesisDescription (relatedPapers_var vs))
                (\<lambda>vs v. vs\<lparr> rankedPapersRaw := Some v \<rparr>))
             (\<lambda>vs. stage4 w t thesisDescription)
             (\<lambda>vs v. vs\<lparr> methodologyRaw := Some v \<rparr>))
          (\<lambda>vs. generateResearchGapAnalysisLLM w t (relatedPapers_var vs) thesisDescription)
          (\<lambda>vs v. vs\<lparr> researchGapAnalysisRaw := Some v \<rparr>))
       (\<lambda>vs. generateProsAndConsLLM w t (relatedPapers_var vs) thesisDescription)
       (\<lambda>vs v. vs\<lparr> prosAndConsRaw := Some v \<rparr>)"

record ThesisRoadmapOutput =
  thesisDescription_of :: string
  stepByStep :: json
  relatedPapers :: json
  methodology :: json
  researchGapAnalysis :: json
  prosAndCons :: json
  error :: "string option"

text \<open>\<open>[!a && "...", ...].filter(Boolean).join(', ')\<close>\<close>

definition errorDetails :: "json \<Rightarrow> json \<Rightarrow> json \<Rightarrow> json \<Rightarrow> json \<Rightarrow> string" where
  "errorDetails a b c d e =
     join '', ''
       (map snd
          (filter (\<lambda>(v, label). \<not> truthy v)
             [(a, ''step-by-step guide''), (b, ''ranked papers''), (c, ''methodology''),
              (d, ''research gaps''), (e, ''pros and cons'')]))"

text \<open>The parsing at the end of the \<open>try\<close> block, and the two results it can return.\<close>

definition parse_all :: "string \<Rightarrow> vars \<Rightarrow> ThesisRoadmapOutput io" where
  "parse_all thesisDescription vs =
     seq (console LOG ''--- Parsing LLM Responses ---'')
       (bind (extractAndParseJson_untyped (stepByStepRaw vs) ''stepByStep'') (\<lambda>parsedStepByStep.
        bind (extractAndParseJson_untyped (rankedPapersRaw vs) ''relatedPapers (ranked)'') (\<lambda>parsedRankedPapers.
        bind (extractAndParseJson_untyped (methodologyRaw vs) ''methodology'') (\<lambda>parsedMethodology.
        bind (extractAndParseJson_untyped (researchGapAnalysisRaw vs) ''researchGapAnalysis'') (\<lambda>parsedResearchGaps.
        bind (extractAndParseJson_untyped (prosAndConsRaw vs) ''prosAndCons'') (\<lambda>parsedProsCons.
        seq (console LOG ''--- Parsing Complete ---'')
          (if \<not> truthy parsedStepByStep \<or> \<not> truthy parsedRankedPapers
               \<or> \<not> truthy parsedMethodology \<or> \<not> truthy parsedResearchGaps
               \<or> \<not> truthy parsedProsCons
           then
             seq (console ERROR
                    ''One or more sections failed to parse correctly from LLM response.'')
               (return
                  \<lparr> thesisDescription_of = thesisDescription,
                    stepByStep = parsedStepByStep,
                    relatedPapers = parsedRankedPapers,
                    methodology = parsedMethodology,
                    researchGapAnalysis = parsedResearchGaps,
                    prosAndCons = parsedProsCons,
                    error = Some (''Failed to parse the following sections from the AI: ''
                      @ errorDetails parsedStepByStep parsedRankedPapers parsedMethodology
                          parsedResearchGaps parsedProsCons
                      @ ''. The structure might be invalid.'') \<rparr>)
           else
             return
               \<lparr> thesisDescription_of = thesisDescription,
                 stepByStep = parsedStepByStep,
                 relatedPapers = parsedRankedPapers,
                 methodology = parsedMethodology,
                 researchGapAnalysis = parsedResearchGaps,
                 prosAndCons = parsedProsCons,
                 error = None \<rparr>)))))))"

text \<open>The handler of the top-level \<open>catch\<close>.\<close>

definition on_error :: "string \<Rightarrow> vars \<Rightarrow> exn \<Rightarrow> ThesisRoadmapOutput io" where
  "on_error thesisDescription vs err =
     seq (console ERROR (''Error generating thesis roadmap: '' @ message err))
       (bind (extractAndParseJson_untyped (stepByStepRaw vs) ''stepByStep (on error)'') (\<lambda>a.
        bind (extractAndParseJson_untyped (rankedPapersRaw vs) ''relatedPapers (on error)'') (\<lambda>b.
        bind (extractAndParseJson_untyped (methodologyRaw vs) ''methodology (on error)'') (\<lambda>c.
        bind (extractAndParseJson_untyped (researchGapAnalysisRaw vs) ''researchGapAnalysis (on error)'') (\<lambda>d.
        bind (extractAndParseJson_untyped (prosAndConsRaw vs) ''prosAndCons (on error)'') (\<lambda>e.
        return
          \<lparr> thesisDescription_of = thesisDescription,
            stepByStep = a,
            relatedPapers = b,
            methodology = c,
            researchGapAnalysis = d,
            prosAndCons = e,
            error = Some (''Failed to generate thesis roadmap: ''
              @ (if message err \<noteq> [] then message err else ''Unknown error'')) \<rparr>))))))"

definition generateThesisRoadmap ::
  "world \<Rightarrow> templates \<Rightarrow> string \<Rightarrow> ThesisRoadmapOutput io" where
  "generateThesisRoadmap w t thesisDescription =
     (case stages w t thesisDescription of
        (tr, vs, Some err) \<Rightarrow>
          (case on_error thesisDescription vs err of (tr', r) \<Rightarrow> (tr @ tr', r))
      | (tr, vs, None) \<Rightarrow>
          (case try_catch (parse_all thesisDescription vs) (on_error thesisDescription vs) of
             (tr', r) \<Rightarrow> (tr @ tr', r)))"

section \<open>Reference descriptions of the gateway, the extractor and the pipeline\<close>

text \<open>The warning for a candidate that did not finish with \<open>STOP\<close>.\<close>

definition finish_warning :: "string \<Rightarrow> candidate \<Rightarrow> event list" where
  "finish_warning context c =
     (if truthy_str (finishReason c) \<and> finishReason c \<noteq> Some ''STOP''
      then [Console WARN (''Gemini API for '' @ context @ '' finished with reason: ''
              @ the (finishReason c) @ ''. Output might be incomplete.'')]
      else [])"

text \<open>
  The value \<open>extractAndParseJson\<close> returns, without its console output: \<open>null\<close> for no
  text and for a short text that looks like prose, else the strict parse of the text
  without its fences, else the strict parse of the repaired text, else \<open>null\<close>.
\<close>

definition extracted :: "string option \<Rightarrow> json" where
  "extracted rawString =
     (case rawString of
        None \<Rightarrow> JNull
      | Some s \<Rightarrow>
          if s = [] then JNull
          else
            (let jsonString = strip_fences s
             in if looks_like_plain_text jsonString then JNull
                else
                  (case JSON_parse jsonString of
                     Inr v \<Rightarrow> v
                   | Inl e \<Rightarrow>
                       (case JSON_parse (clean jsonString) of
                          Inr v \<Rightarrow> v
                        | Inl e' \<Rightarrow> JNull))))"

text \<open>
  The same for a value that is not checked to be a string: a string is handled as
  above and a value that is not truthy like no text; a truthy value of another kind has
  no method \<open>replace\<close>, and the call throws before it reaches a result.
\<close>

definition truthy_non_string :: "js_value option \<Rightarrow> bool" where
  "truthy_non_string raw =
     (case raw of
        None \<Rightarrow> False
      | Some (VText s) \<Rightarrow> False
      | Some v \<Rightarrow> truthy_value v)"

definition extracted_raw :: "js_value option \<Rightarrow> json" where
  "extracted_raw raw = (case raw of Some (VText s) \<Rightarrow> extracted (Some s) | _ \<Rightarrow> JNull)"

definition not_a_function :: exn where
  "not_a_function = TypeError ''rawString.replace is not a function''"

definition untyped_log :: "js_value option \<Rightarrow> string \<Rightarrow> event list" where
  "untyped_log raw context = fst (extractAndParseJson_untyped raw context)"

definition extract_log :: "string option \<Rightarrow> string \<Rightarrow> event list" where
  "extract_log rawString context = fst (extractAndParseJson rawString context)"

definition gateway_log :: "world \<Rightarrow> string \<Rightarrow> string \<Rightarrow> event list" where
  "gateway_log w prompt context = fst (callGemini w prompt context)"

text \<open>Example answers of the generative text service.\<close>

definition text_candidate :: "string \<Rightarrow> js_value \<Rightarrow> candidate" where
  "text_candidate reason v =
     \<lparr> finishReason = Some reason,
       content_of = Some \<lparr> parts = Some [\<lparr> text_of = Some v \<rparr>] \<rparr>,
       candidate_json = ''{}'' \<rparr>"

definition answer :: "string \<Rightarrow> js_value \<Rightarrow> gemini_data" where
  "answer reason v = \<lparr> promptFeedback_of = None, candidates = Some [text_candidate reason v] \<rparr>"

definition blocked_answer :: gemini_data where
  "blocked_answer =
     \<lparr> promptFeedback_of = Some \<lparr> blockReason = Some ''SAFETY'', safetyRatings_json = ''[]'' \<rparr>,
       candidates = None \<rparr>"

definition gemini_answers ::
  "(string \<Rightarrow> gemini_data option http_outcome) \<Rightarrow> world \<Rightarrow> world" where
  "gemini_answers f w = w\<lparr> gemini := (\<lambda>context prompt. f context) \<rparr>"

definition example_templates :: templates where
  "example_templates =
     \<lparr> prompt_stepByStep = (\<lambda>d. ''steps for '' @ d),
       prompt_rankPapers = (\<lambda>d p. ''rank '' @ p @ '' for '' @ d),
       prompt_methodology = (\<lambda>d. ''methodology for '' @ d),
       prompt_researchGaps = (\<lambda>a d. ''gaps in '' @ a @ '' for '' @ d),
       prompt_prosCons = (\<lambda>a d. ''pros and cons of '' @ a @ '' for '' @ d),
       stringify_papers = (\<lambda>ps. ''[]'') \<rparr>"

text \<open>
  Example texts: an object and an array whose string holds a line feed, and the same
  with the line feed written as an escape.
\<close>

definition broken_object :: string where
  "broken_object = ''{\"a\":\"x'' @ [newline] @ ''y\"}''"




text \<open>
  The fence lines the two replacements are written for: the tag is \<open>json\<close> in any letter
  case, the closing line starts on a line of its own (after some white space), and
  after its backticks the text ends or the line ends.
\<close>

definition json_fence_lines :: "string \<Rightarrow> string \<Rightarrow> string \<Rightarrow> string \<Rightarrow> bool" where
  "json_fence_lines tag b1 b2 b3 =
     (map ascii_lower tag = ''json'' \<and> list_all is_space b1
      \<and> b2 \<noteq> [] \<and> list_all is_space b2
      \<and> list_all is_space b3 \<and> (b3 = [] \<or> is_line_terminator (hd b3)))"

text \<open>A text that ends with a fence line of its own, and one with inline code.\<close>

definition inline_code :: string where
  "inline_code = ''{\"a\":\"run '' @ [backtick] @ ''npm i'' @ [backtick] @ ''\"}''"


definition half_fenced :: string where
  "half_fenced = ''[1]'' @ [newline] @ fence"



text \<open>
  The pipeline in terms of its stages: the papers stage 2 returns, the gateway calls of
  stages 3, 5 and 6 on those papers, the text a guarded stage hands on (the text of
  the call, or the marker when the call failed), and the variables and the exception
  at the end of the run.
\<close>

definition fetched :: "world \<Rightarrow> string \<Rightarrow> ResearchPaper list" where
  "fetched w d = (case snd (fetchRelatedPapers w d) of Inr ps \<Rightarrow> ps | Inl e \<Rightarrow> [])"

definition stage3_call :: "world \<Rightarrow> templates \<Rightarrow> string \<Rightarrow> js_value io" where
  "stage3_call w t d =
     callGemini w (prompt_rankPapers t d (stringify_papers t (fetched w d)))
       ''rank and summarize papers''"

definition stage5_call :: "world \<Rightarrow> templates \<Rightarrow> string \<Rightarrow> js_value io" where
  "stage5_call w t d =
     callGemini w (prompt_researchGaps t (abstracts_of (fetched w d)) d) ''research gap analysis''"

definition stage6_call :: "world \<Rightarrow> templates \<Rightarrow> string \<Rightarrow> js_value io" where
  "stage6_call w t d =
     callGemini w (prompt_prosCons t (abstracts_of (fetched w d)) d) ''pros and cons''"

definition text_or :: "js_value io \<Rightarrow> string \<Rightarrow> js_value" where
  "text_or call marker = (case snd call of Inr v \<Rightarrow> v | Inl e \<Rightarrow> VText marker)"

definition final_vars :: "world \<Rightarrow> templates \<Rightarrow> string \<Rightarrow> vars" where
  "final_vars w t d = fst (snd (stages w t d))"

definition interruption :: "world \<Rightarrow> templates \<Rightarrow> string \<Rightarrow> exn option" where
  "interruption w t d = snd (snd (stages w t d))"

text \<open>
  The five raw values of the variables, and whether none of them is a truthy value
  that is not a string.
\<close>

definition raws_of :: "vars \<Rightarrow> js_value option list" where
  "raws_of vs =
     [stepByStepRaw vs, rankedPapersRaw vs, methodologyRaw vs, researchGapAnalysisRaw vs,
      prosAndConsRaw vs]"

definition texts_only :: "vars \<Rightarrow> bool" where
  "texts_only vs = list_all (\<lambda>raw. \<not> truthy_non_string raw) (raws_of vs)"

text \<open>
  The same on the side of the service: whatever it answers, the text of the first part
  of the first candidate is a string, or missing, or not truthy.
\<close>

definition string_texts :: "world \<Rightarrow> bool" where
  "string_texts w =
     (\<forall>context prompt d c cs.
        gemini w context prompt = Resolved (Some d) \<longrightarrow> candidates d = Some (c # cs)
        \<longrightarrow> \<not> truthy_non_string (first_text c))"

text \<open>The result object for given variables and a given \<open>error\<close> field.\<close>

definition output_of :: "string \<Rightarrow> vars \<Rightarrow> string option \<Rightarrow> ThesisRoadmapOutput" where
  "output_of d vs err =
     \<lparr> thesisDescription_of = d,
       stepByStep = extracted_raw (stepByStepRaw vs),
       relatedPapers = extracted_raw (rankedPapersRaw vs),
       methodology = extracted_raw (methodologyRaw vs),
       researchGapAnalysis = extracted_raw (researchGapAnalysisRaw vs),
       prosAndCons = extracted_raw (prosAndConsRaw vs),
       error = err \<rparr>"

definition all_truthy :: "vars \<Rightarrow> bool" where
  "all_truthy vs =
     (truthy (extracted_raw (stepByStepRaw vs)) \<and> truthy (extracted_raw (rankedPapersRaw vs))
      \<and> truthy (extracted_raw (methodologyRaw vs)) \<and> truthy (extracted_raw (researchGapAnalysisRaw vs))
      \<and> truthy (extracted_raw (prosAndConsRaw vs)))"

definition parse_failure_message :: "vars \<Rightarrow> string" where
  "parse_failure_message vs =
     ''Failed to parse the following sections from the AI: ''
       @ errorDetails (extracted_raw (stepByStepRaw vs)) (extracted_raw (rankedPapersRaw vs))
           (extracted_raw (methodologyRaw vs)) (extracted_raw (researchGapAnalysisRaw vs))
           (extracted_raw (prosAndConsRaw vs))
       @ ''. The structure might be invalid.''"

definition interruption_message :: "exn \<Rightarrow> string" where
  "interruption_message err =
     ''Failed to generate thesis roadmap: ''
       @ (if message err \<noteq> [] then message err else ''Unknown error'')"

text \<open>
  A world without reachable paper providers in which the generative text service
  answers the stages listed in a table with the given values as texts and fails for the
  others.
\<close>

definition stage_answers :: "(string \<times> js_value) list \<Rightarrow> world" where
  "stage_answers table =
     gemini_answers
       (\<lambda>c. case map_of table c of
               Some v \<Rightarrow> Resolved (Some (answer ''STOP'' v))
             | None \<Rightarrow> Rejected (AxiosError ''Network Error'' None))
       offline"

section \<open>Proofs: abstract inversion\<close>

lemma map_of_assign_positions:
  "map_of (assign_positions w ps m) p = (if p \<in> set ps then Some w else map_of m p)"
  unfolding assign_positions_def
  by (induction ps arbitrary: m) (auto simp: update_conv')

lemma keys_assign_positions:
  "fst ` set (assign_positions w ps m) = fst ` set m \<union> set ps"
  unfolding assign_positions_def
  by (induction ps arbitrary: m) (simp_all add: dom_update Un_ac)

lemma distinct_assign_positions:
  "distinct (map fst m) \<Longrightarrow> distinct (map fst (assign_positions w ps m))"
  unfolding assign_positions_def
  by (induction ps arbitrary: m) (auto simp: distinct_update)

lemma map_of_fold_assign:
  "map_of (fold (\<lambda>(w, ps) acc. assign_positions w ps acc) idx m) p =
     (let es = filter (\<lambda>(w, ps). p \<in> set ps) idx
      in if es = [] then map_of m p else Some (fst (last es)))"
proof (induction idx rule: rev_induct)
  case Nil
  show ?case by simp
next
  case (snoc x xs)
  obtain w ps where x: "x = (w, ps)" by (cases x)
  show ?case
  proof (cases "p \<in> set ps")
    case True
    then show ?thesis
      by (simp add: x map_of_assign_positions Let_def)
  next
    case False
    then show ?thesis
      using snoc.IH by (simp add: x map_of_assign_positions Let_def)
  qed
qed

lemma keys_fold_assign:
  "fst ` set (fold (\<lambda>(w, ps) acc. assign_positions w ps acc) idx m) =
     fst ` set m \<union> positions_of idx"
proof (induction idx arbitrary: m)
  case Nil
  show ?case by (simp add: positions_of_def)
next
  case (Cons x xs)
  obtain w ps where x: "x = (w, ps)" by (cases x)
  have "positions_of (x # xs) = set ps \<union> positions_of xs"
    by (simp add: positions_of_def x)
  then show ?case
    by (simp add: Cons.IH x keys_assign_positions Un_assoc)
qed

lemma distinct_fold_assign:
  "distinct (map fst m) \<Longrightarrow>
     distinct (map fst (fold (\<lambda>(w, ps) acc. assign_positions w ps acc) idx m))"
  by (induction idx arbitrary: m) (auto simp: distinct_assign_positions)

lemma word_in_build: "word_in (build_position_map idx) = last_word_at idx"
  unfolding word_in_def build_position_map_def last_word_at_def
  by (rule ext) (simp add: map_of_fold_assign Let_def)

lemma sorted_keys_build:
  "sort (map fst (build_position_map idx)) = sorted_list_of_set (positions_of idx)"
proof -
  let ?ks = "map fst (build_position_map idx)"
  have d: "distinct ?ks"
    unfolding build_position_map_def by (rule distinct_fold_assign) simp
  have s: "set ?ks = positions_of idx"
    unfolding build_position_map_def using keys_fold_assign [of idx "[]"] by simp
  have "sorted_list_of_set (set ?ks) = sort (remdups ?ks)"
    by (rule sorted_list_of_set_sort_remdups)
  with d s show ?thesis by (simp add: distinct_remdups_id)
qed

lemma invertAbstract_char:
  "invertAbstract (Some idx) =
     join '' '' (map (last_word_at idx) (sorted_list_of_set (positions_of idx)))"
  by (simp add: invertAbstract_def Let_def sorted_keys_build word_in_build)

lemma last_word_at_perm:
  assumes s: "set idx' = set idx"
    and u: "\<forall>(w, ps) \<in> set idx. \<forall>(w', ps') \<in> set idx. w \<noteq> w' \<longrightarrow> set ps \<inter> set ps' = {}"
  shows "last_word_at idx' p = last_word_at idx p"
proof (cases "p \<in> positions_of idx")
  case False
  then have "filter (\<lambda>(w, ps). p \<in> set ps) idx = []"
    and "filter (\<lambda>(w, ps). p \<in> set ps) idx' = []"
    using s by (auto simp: positions_of_def filter_empty_conv)
  then show ?thesis by (simp add: last_word_at_def)
next
  case True
  let ?P = "\<lambda>(w, ps). p \<in> set ps"
  from True have ne: "filter ?P idx \<noteq> []" "filter ?P idx' \<noteq> []"
    using s by (auto simp: positions_of_def filter_empty_conv)
  have a: "last (filter ?P idx) \<in> set (filter ?P idx)"
    using ne(1) by (rule last_in_set)
  have b: "last (filter ?P idx') \<in> set (filter ?P idx')"
    using ne(2) by (rule last_in_set)
  obtain w ps where e: "last (filter ?P idx) = (w, ps)" by (cases "last (filter ?P idx)")
  obtain w' ps' where e': "last (filter ?P idx') = (w', ps')" by (cases "last (filter ?P idx')")
  from a e have 1: "(w, ps) \<in> set idx" "p \<in> set ps" by auto
  from b e' s have 2: "(w', ps') \<in> set idx" "p \<in> set ps'" by auto
  have "w = w'"
  proof (rule ccontr)
    assume "w \<noteq> w'"
    with u 1 2 have "set ps \<inter> set ps' = {}" by blast
    with 1 2 show False by blast
  qed
  with e e' ne show ?thesis
    by (simp add: last_word_at_def Let_def)
qed

text \<open>
  Claim C7 (as amended). For every inverted index, \<open>invertAbstract\<close> returns the words
  joined by single spaces in strictly ascending order of all positions that occur, each
  position carrying the word of the last enumerated entry that lists it. When no position
  is listed under two different words, the result does not depend on the enumeration
  order of the keys.
\<close>

theorem invertAbstract_ascending_positions:
  "invertAbstract (Some idx) =
     join '' '' (map (last_word_at idx) (sorted_list_of_set (positions_of idx)))
   \<and> sorted_wrt (<) (sorted_list_of_set (positions_of idx))
   \<and> (mset idx' = mset idx \<longrightarrow>
      (\<forall>(w, ps) \<in> set idx. \<forall>(w', ps') \<in> set idx. w \<noteq> w' \<longrightarrow> set ps \<inter> set ps' = {}) \<longrightarrow>
      invertAbstract (Some idx') = invertAbstract (Some idx))"
proof (intro conjI impI)
  show "invertAbstract (Some idx) =
     join '' '' (map (last_word_at idx) (sorted_list_of_set (positions_of idx)))"
    by (rule invertAbstract_char)
  show "sorted_wrt (<) (sorted_list_of_set (positions_of idx))"
    by (simp add: strict_sorted_iff)
next
  assume m: "mset idx' = mset idx"
    and u: "\<forall>(w, ps) \<in> set idx. \<forall>(w', ps') \<in> set idx. w \<noteq> w' \<longrightarrow> set ps \<inter> set ps' = {}"
  from m have s: "set idx' = set idx" by (rule mset_eq_setD)
  then have p: "positions_of idx' = positions_of idx" by (simp add: positions_of_def)
  have "last_word_at idx' = last_word_at idx"
    using last_word_at_perm [OF s u] by (rule ext)
  then show "invertAbstract (Some idx') = invertAbstract (Some idx)"
    by (simp add: invertAbstract_char p)
qed

theorem invertAbstract_ascending_positions_witness:
  "invertAbstract (Some [(''quick'', [0]), (''fox'', [1])]) = ''quick fox''
   \<and> invertAbstract (Some [(''fox'', [1]), (''quick'', [0])]) = ''quick fox''"
proof -
  let ?a = "[(''quick'', [0::nat]), (''fox'', [1])]"
  let ?b = "[(''fox'', [1::nat]), (''quick'', [0])]"
  have e: "invertAbstract (Some ?a) = ''quick fox''"
    by (simp add: invertAbstract_def build_position_map_def assign_positions_def word_in_def)
  have m: "mset ?b = mset ?a" by (simp add: add.commute)
  have u: "\<forall>(w, ps) \<in> set ?a. \<forall>(w', ps') \<in> set ?a. w \<noteq> w' \<longrightarrow> set ps \<inter> set ps' = {}"
    by simp
  from invertAbstract_ascending_positions [of ?a ?b] m u
  have "invertAbstract (Some ?b) = invertAbstract (Some ?a)" by blast
  with e show ?thesis by simp
qed

text \<open>
  With a position listed under two words the enumeration order of the keys decides the
  result: the later key overwrites the earlier one.
\<close>

theorem invertAbstract_key_order_counterexample:
  "invertAbstract (Some [(''a'', [0]), (''b'', [0])]) = ''b''
   \<and> invertAbstract (Some [(''b'', [0]), (''a'', [0])]) = ''a''
   \<and> invertAbstract (Some [(''a'', [0]), (''b'', [0])])
       \<noteq> invertAbstract (Some [(''b'', [0]), (''a'', [0])])"
  by (simp add: invertAbstract_def build_position_map_def assign_positions_def word_in_def)

section \<open>Proofs: adapters and the fallback chain\<close>

lemma bind_Inr [simp]: "bind (tr, Inr v) f = (tr @ fst (f v), snd (f v))"
  by (simp add: bind_def split: prod.splits)

lemma bind_Inl [simp]: "bind (tr, Inl e) f = (tr, Inl e)"
  by (simp add: bind_def)

lemma seq_Inr [simp]: "seq (tr, Inr u) k = (tr @ fst k, snd k)"
  by (simp add: seq_def)

lemma seq_Inl [simp]: "seq (tr, Inl e) k = (tr, Inl e)"
  by (simp add: seq_def)

lemmas io_defs = return_def throw_def console_def await_def

lemma try_catch_Inr [simp]: "try_catch (tr, Inr v) h = (tr, Inr v)"
  by (simp add: try_catch_def)

lemma try_catch_Inl [simp]: "try_catch (tr, Inl e) h = (tr @ fst (h e), snd (h e))"
  by (simp add: try_catch_def split: prod.splits)

lemma on_provider_error_ok: "\<exists>tr. on_provider_error name err = (tr, Inr ())"
  unfolding on_provider_error_def errorMessage_def
  by (cases err) (auto simp: io_defs split: option.splits)

lemma try_provider_result: "snd (try_provider p q) = Inr (supplies p q)"
proof (cases "snd p q")
  case (Pair tr r)
  show ?thesis
  proof (cases r)
    case (Inl e)
    obtain tr' where "on_provider_error (fst p) e = (tr', Inr ())"
      using on_provider_error_ok by blast
    with Pair Inl show ?thesis
      by (simp add: try_provider_def supplies_def io_defs)
  next
    case (Inr rs)
    with Pair show ?thesis
      by (cases rs) (simp_all add: try_provider_def supplies_def io_defs)
  qed
qed

lemma try_provider_eq: "try_provider p q = (pass_events p q, Inr (supplies p q))"
  using try_provider_result [of p q] by (simp add: pass_events_def prod_eq_iff)

lemma fetch_loop_Cons:
  "fetch_loop (p # ps) q =
     (case supplies p q of
        Some r \<Rightarrow> (pass_events p q, Inr r)
      | None \<Rightarrow> (pass_events p q @ fst (fetch_loop ps q), snd (fetch_loop ps q)))"
  by (simp add: try_provider_eq io_defs split: option.splits)

lemma fetch_loop_Nil:
  "fetch_loop [] q =
     ([Console WARN ''All paper providers failed or returned no results.''], Inr [])"
  by (simp add: io_defs)

lemma pass_events_shape:
  "\<exists>l m. pass_events p q =
     Console LOG (''Attempting to fetch from '' @ fst p @ ''...'') # fst (snd p q) @ [Console l m]
   \<or> (\<exists>l' m'. pass_events p q =
     Console LOG (''Attempting to fetch from '' @ fst p @ ''...'') # fst (snd p q)
       @ [Console l' m', Console l m])"
proof (cases "snd p q")
  case (Pair tr r)
  show ?thesis
  proof (cases r)
    case (Inl e)
    with Pair show ?thesis
      unfolding pass_events_def try_provider_def on_provider_error_def
      by (cases e) (auto simp: io_defs split: option.splits)
  next
    case (Inr rs)
    with Pair show ?thesis
      unfolding pass_events_def try_provider_def
      by (cases rs) (auto simp: io_defs)
  qed
qed

lemma requests_pass_events: "requests (pass_events p q) = requests (fst (snd p q))"
  using pass_events_shape [of p q] by (auto simp: requests_def)

lemma requests_append: "requests (xs @ ys) = requests xs @ requests ys"
  by (simp add: requests_def)

lemma pass_events_logs:
  "\<exists>l m. last (pass_events p q) = Console l m"
  using pass_events_shape [of p q] by auto

text \<open>
  Claim C3. \<open>fetchRelatedPapers\<close> never raises. It passes over Semantic Scholar, OpenAlex
  and CORE in this order and returns the first non-empty list; what it did is exactly
  the passes up to and including that provider, so no later adapter is invoked. A pass
  over a provider that returns an empty list or throws ends with a console entry and
  the loop continues; when no provider supplies a non-empty list the result is the
  empty list.
\<close>

theorem fetchRelatedPapers_fallback:
  "fetchRelatedPapers w q =
     (case supplies (ss_provider w) q of
        Some r \<Rightarrow> (pass_events (ss_provider w) q, Inr r)
      | None \<Rightarrow>
         (case supplies (oa_provider w) q of
            Some r \<Rightarrow> (pass_events (ss_provider w) q @ pass_events (oa_provider w) q, Inr r)
          | None \<Rightarrow>
             (case supplies (core_provider w) q of
                Some r \<Rightarrow>
                  (pass_events (ss_provider w) q @ pass_events (oa_provider w) q
                     @ pass_events (core_provider w) q, Inr r)
              | None \<Rightarrow>
                 (pass_events (ss_provider w) q @ pass_events (oa_provider w) q
                    @ pass_events (core_provider w) q
                    @ [Console WARN ''All paper providers failed or returned no results.''],
                  Inr []))))
   \<and> (\<exists>ps. snd (fetchRelatedPapers w q) = Inr ps)
   \<and> (supplies (ss_provider w) q \<noteq> None \<longrightarrow>
        requests (fst (fetchRelatedPapers w q)) = requests (fst (fetchFromSemanticScholar w q)))
   \<and> (supplies (ss_provider w) q = None \<and> supplies (oa_provider w) q \<noteq> None \<longrightarrow>
        requests (fst (fetchRelatedPapers w q)) =
          requests (fst (fetchFromSemanticScholar w q)) @ requests (fst (fetchFromOpenAlex w q)))
   \<and> (\<forall>p \<in> set (providers w). \<exists>l m. last (pass_events p q) = Console l m)"
proof -
  have 1: "fetchRelatedPapers w q =
     (case supplies (ss_provider w) q of
        Some r \<Rightarrow> (pass_events (ss_provider w) q, Inr r)
      | None \<Rightarrow>
         (case supplies (oa_provider w) q of
            Some r \<Rightarrow> (pass_events (ss_provider w) q @ pass_events (oa_provider w) q, Inr r)
          | None \<Rightarrow>
             (case supplies (core_provider w) q of
                Some r \<Rightarrow>
                  (pass_events (ss_provider w) q @ pass_events (oa_provider w) q
                     @ pass_events (core_provider w) q, Inr r)
              | None \<Rightarrow>
                 (pass_events (ss_provider w) q @ pass_events (oa_provider w) q
                    @ pass_events (core_provider w) q
                    @ [Console WARN ''All paper providers failed or returned no results.''],
                  Inr []))))"
    unfolding fetchRelatedPapers_def providers_def
    by (simp only: fetch_loop_Cons fetch_loop_Nil fst_conv snd_conv split: option.splits)
       simp
  from 1 have 2: "\<exists>ps. snd (fetchRelatedPapers w q) = Inr ps"
    by (simp split: option.splits)
  from 1 have 3: "supplies (ss_provider w) q \<noteq> None \<longrightarrow>
      requests (fst (fetchRelatedPapers w q)) = requests (fst (fetchFromSemanticScholar w q))"
    using requests_pass_events [of "ss_provider w" q] by (auto simp: ss_provider_def)
  from 1 have 4: "supplies (ss_provider w) q = None \<and> supplies (oa_provider w) q \<noteq> None \<longrightarrow>
      requests (fst (fetchRelatedPapers w q)) =
        requests (fst (fetchFromSemanticScholar w q)) @ requests (fst (fetchFromOpenAlex w q))"
    using requests_pass_events [of "ss_provider w" q] requests_pass_events [of "oa_provider w" q]
    by (auto simp: ss_provider_def oa_provider_def requests_append)
  have 5: "\<forall>p \<in> set (providers w). \<exists>l m. last (pass_events p q) = Console l m"
    using pass_events_logs by blast
  from 1 2 3 4 5 show ?thesis by (intro conjI)
qed

text \<open>
  Semantic Scholar returns an empty list, OpenAlex supplies one paper: the result is
  that paper, and CORE is never asked although it is configured and reachable.
\<close>

theorem fetchRelatedPapers_fallback_witness:
  "snd (fetchRelatedPapers
          (ss_answers [] (oa_answers [empty_oa_paper] (core_answers [empty_core_paper]
             (offline\<lparr> env_CORE_API_KEY := Some ''k'' \<rparr>)))) ''remote work'')
     = Inr [oa_to_paper empty_oa_paper]
   \<and> requests (fst (fetchRelatedPapers
          (ss_answers [] (oa_answers [empty_oa_paper] (core_answers [empty_core_paper]
             (offline\<lparr> env_CORE_API_KEY := Some ''k'' \<rparr>)))) ''remote work''))
     = [HttpGet SEMANTIC_SCHOLAR_API ''remote work'', HttpGet OPENALEX_API ''remote work'']"
proof -
  let ?w = "ss_answers [] (oa_answers [empty_oa_paper] (core_answers [empty_core_paper]
             (offline\<lparr> env_CORE_API_KEY := Some ''k'' \<rparr>)))"
  let ?q = "''remote work''"
  have a: "supplies (ss_provider ?w) ?q = None"
    by (simp add: supplies_def ss_provider_def fetchFromSemanticScholar_def on_results_def
        io_defs ss_answers_def)
  have b: "supplies (oa_provider ?w) ?q = Some [oa_to_paper empty_oa_paper]"
    by (simp add: supplies_def oa_provider_def fetchFromOpenAlex_def on_results_def io_defs
        ss_answers_def oa_answers_def)
  have c: "requests (fst (fetchFromSemanticScholar ?w ?q)) = [HttpGet SEMANTIC_SCHOLAR_API ?q]"
    by (simp add: requests_def fetchFromSemanticScholar_def on_results_def io_defs
        ss_answers_def)
  have d: "requests (fst (fetchFromOpenAlex ?w ?q)) = [HttpGet OPENALEX_API ?q]"
    by (simp add: requests_def fetchFromOpenAlex_def on_results_def io_defs
        ss_answers_def oa_answers_def)
  note t = fetchRelatedPapers_fallback [of ?w ?q]
  note t1 = t [THEN conjunct1]
  note t4 = t [THEN conjunct2, THEN conjunct2, THEN conjunct2, THEN conjunct1]
  have "snd (fetchRelatedPapers ?w ?q) = Inr [oa_to_paper empty_oa_paper]"
    by (simp only: t1 a b option.case snd_conv)
  moreover from t4 a b have "requests (fst (fetchRelatedPapers ?w ?q))
      = requests (fst (fetchFromSemanticScholar ?w ?q)) @ requests (fst (fetchFromOpenAlex ?w ?q))"
    by blast
  ultimately show ?thesis by (simp only: c d append_Cons append_Nil simp_thms)
qed

text \<open>
  Claim C10. When the environment variable \<open>CORE_API_KEY\<close> is unset or holds the
  placeholder, \<open>fetchFromCORE\<close> warns and returns the empty list without issuing a
  request, whatever the query, so the CORE entry of the chain supplies no papers.
\<close>

theorem fetchFromCORE_without_key:
  "env_CORE_API_KEY w = None \<or> env_CORE_API_KEY w = Some ''YOUR_CORE_API_KEY'' \<Longrightarrow>
     fetchFromCORE w q = ([Console WARN ''CORE API Key not configured.''], Inr [])
     \<and> requests (fst (fetchFromCORE w q)) = []
     \<and> supplies (core_provider w) q = None"
  by (auto simp: fetchFromCORE_def CORE_API_KEY_def or_str_def truthy_str_def io_defs
      requests_def supplies_def core_provider_def)

theorem fetchFromCORE_without_key_witness:
  "fetchFromCORE (core_answers [empty_core_paper] offline) ''x''
     = ([Console WARN ''CORE API Key not configured.''], Inr [])
   \<and> fetchFromCORE (core_answers [empty_core_paper]
        (offline\<lparr> env_CORE_API_KEY := Some ''YOUR_CORE_API_KEY'' \<rparr>)) ''x''
     = ([Console WARN ''CORE API Key not configured.''], Inr [])"
proof -
  let ?w = "core_answers [empty_core_paper] offline"
  have "env_CORE_API_KEY ?w = None \<or> env_CORE_API_KEY ?w = Some ''YOUR_CORE_API_KEY''"
    by (simp add: offline_def core_answers_def)
  from fetchFromCORE_without_key [OF this, of "''x''"]
  have 1: "fetchFromCORE ?w ''x'' = ([Console WARN ''CORE API Key not configured.''], Inr [])"
    by blast
  let ?v = "core_answers [empty_core_paper]
        (offline\<lparr> env_CORE_API_KEY := Some ''YOUR_CORE_API_KEY'' \<rparr>)"
  have "env_CORE_API_KEY ?v = None \<or> env_CORE_API_KEY ?v = Some ''YOUR_CORE_API_KEY''"
    by (simp add: core_answers_def)
  from fetchFromCORE_without_key [OF this, of "''x''"]
  have 2: "fetchFromCORE ?v ''x'' = ([Console WARN ''CORE API Key not configured.''], Inr [])"
    by blast
  from 1 2 show ?thesis by simp
qed

section \<open>Proofs: normalisation of papers\<close>

lemma or_str_Some: "or_str x (Some d) \<noteq> None"
  by (cases x) (simp_all add: or_str_def truthy_str_def)

lemma or_str_None: "or_str None d = d"
  by (simp add: or_str_def truthy_str_def)

lemma or_num_count: "or_num x (Some 0) = Some (count_of x)"
  by (cases x) (simp_all add: or_num_def truthy_num_def count_of_def)

lemma nullish_num_count: "nullish_num x (Some 0) = Some (count_of x)"
  by (cases x) (simp_all add: nullish_num_def count_of_def)

lemma all_present_ss: "all_present (ss_to_paper s)"
  by (simp add: all_present_def ss_to_paper_def or_str_Some or_num_count)

lemma all_present_oa: "all_present (oa_to_paper s)"
  by (cases "oa_id s")
     (simp_all add: all_present_def oa_to_paper_def or_str_Some or_num_count truthy_str_def
       split: option.splits)

lemma or_str_defined: "d \<noteq> None \<Longrightarrow> or_str x d \<noteq> None"
  by (cases x) (simp_all add: or_str_def truthy_str_def)

lemma doi_url_defined: "truthy_str x \<Longrightarrow> doi_url x \<noteq> None"
  by (cases x) (simp_all add: doi_url_def truthy_str_def)

lemma all_present_core: "all_present (core_to_paper s)"
  by (simp add: all_present_def core_to_paper_def or_str_Some nullish_num_count
      or_str_defined doi_url_defined del: not_None_eq)

lemma on_results_image:
  "snd (on_results b f msg name) = Inr ps \<Longrightarrow> \<exists>srcs. ps = map f srcs"
proof -
  assume a: "snd (on_results b f msg name) = Inr ps"
  then obtain xs where b: "b = Some (Some xs)"
    by (auto simp: on_results_def io_defs split: option.splits)
  with a have "ps = map f xs"
    by (cases xs) (auto simp: on_results_def io_defs)
  then show ?thesis by blast
qed

lemma emitted_ss:
  "snd (fetchFromSemanticScholar w q) = Inr ps \<Longrightarrow> \<exists>srcs. ps = map ss_to_paper srcs"
  unfolding fetchFromSemanticScholar_def
  by (cases "semantic_scholar w q") (auto simp: io_defs dest: on_results_image)

lemma emitted_oa:
  "snd (fetchFromOpenAlex w q) = Inr ps \<Longrightarrow> \<exists>srcs. ps = map oa_to_paper srcs"
  unfolding fetchFromOpenAlex_def
  by (cases "openalex w q") (auto simp: io_defs dest: on_results_image)

lemma emitted_core:
  "snd (fetchFromCORE w q) = Inr ps \<Longrightarrow> \<exists>srcs. ps = map core_to_paper srcs"
  unfolding fetchFromCORE_def Let_def
  by (cases "core w q (CORE_API_KEY (env_CORE_API_KEY w))")
     (auto simp: io_defs dest: on_results_image split: if_splits)

lemma defaults_ss:
  "(ss_title s = None \<longrightarrow> title (ss_to_paper s) = Some ''Untitled'')
   \<and> (ss_url s = None \<longrightarrow> url (ss_to_paper s) = Some [] \<and> paperLink (ss_to_paper s) = Some [])
   \<and> (ss_abstract s = None \<longrightarrow> abstract (ss_to_paper s) = Some ''No abstract available'')
   \<and> (ss_authors s = None \<longrightarrow> authors (ss_to_paper s) = Some ''Unknown authors'')
   \<and> citationCount (ss_to_paper s) = Some (count_of (ss_citationCount s))"
  by (simp add: ss_to_paper_def or_str_None or_num_count)

lemma defaults_oa:
  "(oa_display_name s = None \<longrightarrow> title (oa_to_paper s) = Some ''Untitled'')
   \<and> (oa_id s = None \<longrightarrow> url (oa_to_paper s) = Some [])
   \<and> (oa_primary_location s = None \<longrightarrow> paperLink (oa_to_paper s) = Some [])
   \<and> (oa_abstract_inverted_index s = None \<longrightarrow>
        abstract (oa_to_paper s) = Some ''No abstract available'')
   \<and> (oa_authorships s = None \<longrightarrow> authors (oa_to_paper s) = Some ''Unknown authors'')
   \<and> citationCount (oa_to_paper s) = Some (count_of (oa_cited_by_count s))"
  by (simp add: oa_to_paper_def or_str_None or_num_count truthy_str_def)

lemma defaults_core:
  "(core_title s = None \<longrightarrow> title (core_to_paper s) = Some ''Untitled'')
   \<and> (core_doi s = None \<and> core_downloadUrl s = None \<longrightarrow>
        url (core_to_paper s) = Some [] \<and> paperLink (core_to_paper s) = Some [])
   \<and> (core_abstract s = None \<longrightarrow> abstract (core_to_paper s) = Some ''No abstract available'')
   \<and> (core_authors s = None \<longrightarrow> authors (core_to_paper s) = Some ''Unknown authors'')
   \<and> citationCount (core_to_paper s) = Some (count_of (core_citationCount s))"
  by (simp add: core_to_paper_def or_str_None nullish_num_count truthy_str_def)

text \<open>
  Claim C9 (as amended). Every paper that an adapter returns is the image of a payload
  entry under that adapter's mapping; all six fields of such a paper are present; a
  missing source field is replaced by its documented default; and \<open>citationCount\<close> is
  the provider's number, or 0 when the provider sent none, so it is a non-negative
  integer whenever the provider's number is one.
\<close>

theorem adapters_emit_complete_papers:
  "(snd (fetchFromSemanticScholar w q) = Inr ps \<longrightarrow> (\<exists>srcs. ps = map ss_to_paper srcs))
   \<and> (snd (fetchFromOpenAlex w q) = Inr ps \<longrightarrow> (\<exists>srcs. ps = map oa_to_paper srcs))
   \<and> (snd (fetchFromCORE w q) = Inr ps \<longrightarrow> (\<exists>srcs. ps = map core_to_paper srcs))
   \<and> ((snd (fetchFromSemanticScholar w q) = Inr ps \<or> snd (fetchFromOpenAlex w q) = Inr ps
        \<or> snd (fetchFromCORE w q) = Inr ps) \<longrightarrow> (\<forall>p \<in> set ps. all_present p))
   \<and> all_present (ss_to_paper s) \<and> all_present (oa_to_paper oa) \<and> all_present (core_to_paper co)
   \<and> (ss_title s = None \<longrightarrow> title (ss_to_paper s) = Some ''Untitled'')
   \<and> (ss_url s = None \<longrightarrow> url (ss_to_paper s) = Some [] \<and> paperLink (ss_to_paper s) = Some [])
   \<and> (ss_abstract s = None \<longrightarrow> abstract (ss_to_paper s) = Some ''No abstract available'')
   \<and> (ss_authors s = None \<longrightarrow> authors (ss_to_paper s) = Some ''Unknown authors'')
   \<and> citationCount (ss_to_paper s) = Some (count_of (ss_citationCount s))
   \<and> (oa_display_name oa = None \<longrightarrow> title (oa_to_paper oa) = Some ''Untitled'')
   \<and> (oa_id oa = None \<longrightarrow> url (oa_to_paper oa) = Some [])
   \<and> (oa_primary_location oa = None \<longrightarrow> paperLink (oa_to_paper oa) = Some [])
   \<and> (oa_abstract_inverted_index oa = None \<longrightarrow>
        abstract (oa_to_paper oa) = Some ''No abstract available'')
   \<and> (oa_authorships oa = None \<longrightarrow> authors (oa_to_paper oa) = Some ''Unknown authors'')
   \<and> citationCount (oa_to_paper oa) = Some (count_of (oa_cited_by_count oa))
   \<and> (core_title co = None \<longrightarrow> title (core_to_paper co) = Some ''Untitled'')
   \<and> (core_doi co = None \<and> core_downloadUrl co = None \<longrightarrow>
        url (core_to_paper co) = Some [] \<and> paperLink (core_to_paper co) = Some [])
   \<and> (core_abstract co = None \<longrightarrow> abstract (core_to_paper co) = Some ''No abstract available'')
   \<and> (core_authors co = None \<longrightarrow> authors (core_to_paper co) = Some ''Unknown authors'')
   \<and> citationCount (core_to_paper co) = Some (count_of (core_citationCount co))
   \<and> (\<forall>c \<in> {ss_citationCount s, oa_cited_by_count oa, core_citationCount co}.
        (c = None \<or> (\<exists>n::nat. c = Some (of_nat n))) \<longrightarrow> (\<exists>n::nat. count_of c = of_nat n))"
proof (intro conjI)
  show "snd (fetchFromSemanticScholar w q) = Inr ps \<longrightarrow> (\<exists>srcs. ps = map ss_to_paper srcs)"
    using emitted_ss by blast
  show "snd (fetchFromOpenAlex w q) = Inr ps \<longrightarrow> (\<exists>srcs. ps = map oa_to_paper srcs)"
    using emitted_oa by blast
  show "snd (fetchFromCORE w q) = Inr ps \<longrightarrow> (\<exists>srcs. ps = map core_to_paper srcs)"
    using emitted_core by blast
  show "(snd (fetchFromSemanticScholar w q) = Inr ps \<or> snd (fetchFromOpenAlex w q) = Inr ps
        \<or> snd (fetchFromCORE w q) = Inr ps) \<longrightarrow> (\<forall>p \<in> set ps. all_present p)"
  proof
    assume "snd (fetchFromSemanticScholar w q) = Inr ps \<or> snd (fetchFromOpenAlex w q) = Inr ps
        \<or> snd (fetchFromCORE w q) = Inr ps"
    then consider srcs where "ps = map ss_to_paper srcs"
      | srcs where "ps = map oa_to_paper srcs"
      | srcs where "ps = map core_to_paper srcs"
      using emitted_ss [of w q ps] emitted_oa [of w q ps] emitted_core [of w q ps] by blast
    then show "\<forall>p \<in> set ps. all_present p"
    proof cases
      case 1
      then show ?thesis by (simp add: all_present_ss)
    next
      case 2
      then show ?thesis by (simp add: all_present_oa)
    next
      case 3
      then show ?thesis by (simp add: all_present_core)
    qed
  qed
  show "all_present (ss_to_paper s)" by (rule all_present_ss)
  show "all_present (oa_to_paper oa)" by (rule all_present_oa)
  show "all_present (core_to_paper co)" by (rule all_present_core)
  show "ss_title s = None \<longrightarrow> title (ss_to_paper s) = Some ''Untitled''"
    using defaults_ss [of s] by blast
  show "ss_url s = None \<longrightarrow> url (ss_to_paper s) = Some [] \<and> paperLink (ss_to_paper s) = Some []"
    using defaults_ss [of s] by blast
  show "ss_abstract s = None \<longrightarrow> abstract (ss_to_paper s) = Some ''No abstract available''"
    using defaults_ss [of s] by blast
  show "ss_authors s = None \<longrightarrow> authors (ss_to_paper s) = Some ''Unknown authors''"
    using defaults_ss [of s] by blast
  show "citationCount (ss_to_paper s) = Some (count_of (ss_citationCount s))"
    using defaults_ss [of s] by blast
  show "oa_display_name oa = None \<longrightarrow> title (oa_to_paper oa) = Some ''Untitled''"
    using defaults_oa [of oa] by blast
  show "oa_id oa = None \<longrightarrow> url (oa_to_paper oa) = Some []"
    using defaults_oa [of oa] by blast
  show "oa_primary_location oa = None \<longrightarrow> paperLink (oa_to_paper oa) = Some []"
    using defaults_oa [of oa] by blast
  show "oa_abstract_inverted_index oa = None \<longrightarrow>
        abstract (oa_to_paper oa) = Some ''No abstract available''"
    using defaults_oa [of oa] by blast
  show "oa_authorships oa = None \<longrightarrow> authors (oa_to_paper oa) = Some ''Unknown authors''"
    using defaults_oa [of oa] by blast
  show "citationCount (oa_to_paper oa) = Some (count_of (oa_cited_by_count oa))"
    using defaults_oa [of oa] by blast
  show "core_title co = None \<longrightarrow> title (core_to_paper co) = Some ''Untitled''"
    using defaults_core [of co] by blast
  show "core_doi co = None \<and> core_downloadUrl co = None \<longrightarrow>
        url (core_to_paper co) = Some [] \<and> paperLink (core_to_paper co) = Some []"
    using defaults_core [of co] by blast
  show "core_abstract co = None \<longrightarrow> abstract (core_to_paper co) = Some ''No abstract available''"
    using defaults_core [of co] by blast
  show "core_authors co = None \<longrightarrow> authors (core_to_paper co) = Some ''Unknown authors''"
    using defaults_core [of co] by blast
  show "citationCount (core_to_paper co) = Some (count_of (core_citationCount co))"
    using defaults_core [of co] by blast
  show "\<forall>c \<in> {ss_citationCount s, oa_cited_by_count oa, core_citationCount co}.
        (c = None \<or> (\<exists>n::nat. c = Some (of_nat n))) \<longrightarrow> (\<exists>n::nat. count_of c = of_nat n)"
  proof (intro ballI impI)
    fix c :: "rat option"
    assume "c = None \<or> (\<exists>n::nat. c = Some (of_nat n))"
    then show "\<exists>n::nat. count_of c = of_nat n"
    proof
      assume "c = None"
      then have "count_of c = of_nat 0" by (simp add: count_of_def)
      then show ?thesis by blast
    next
      assume "\<exists>n::nat. c = Some (of_nat n)"
      then show ?thesis by (auto simp: count_of_def)
    qed
  qed
qed

text \<open>
  A Semantic Scholar paper with every field missing comes out with all the defaults.
\<close>

theorem adapters_emit_complete_papers_witness:
  "snd (fetchFromSemanticScholar (ss_answers [empty_ss_paper] offline) ''x'')
     = Inr [ss_to_paper empty_ss_paper]
   \<and> all_present (ss_to_paper empty_ss_paper)
   \<and> title (ss_to_paper empty_ss_paper) = Some ''Untitled''
   \<and> url (ss_to_paper empty_ss_paper) = Some []
   \<and> paperLink (ss_to_paper empty_ss_paper) = Some []
   \<and> abstract (ss_to_paper empty_ss_paper) = Some ''No abstract available''
   \<and> authors (ss_to_paper empty_ss_paper) = Some ''Unknown authors''
   \<and> citationCount (ss_to_paper empty_ss_paper) = Some 0"
proof -
  let ?w = "ss_answers [empty_ss_paper] offline"
  let ?ps = "[ss_to_paper empty_ss_paper]"
  have r: "snd (fetchFromSemanticScholar ?w ''x'') = Inr ?ps"
    by (simp add: fetchFromSemanticScholar_def on_results_def io_defs ss_answers_def)
  note t = adapters_emit_complete_papers
    [of ?w "''x''" ?ps empty_ss_paper empty_oa_paper empty_core_paper]
  have m: "ss_title empty_ss_paper = None" "ss_url empty_ss_paper = None"
    "ss_abstract empty_ss_paper = None" "ss_authors empty_ss_paper = None"
    "count_of (ss_citationCount empty_ss_paper) = 0"
    by (simp_all add: empty_ss_paper_def count_of_def)
  from t [THEN conjunct2, THEN conjunct2, THEN conjunct2, THEN conjunct1] r have "\<forall>p \<in> set ?ps. all_present p" by simp
  then have 1: "all_present (ss_to_paper empty_ss_paper)" by simp
  from t [THEN conjunct2, THEN conjunct2, THEN conjunct2, THEN conjunct2, THEN conjunct2, THEN conjunct2, THEN conjunct2, THEN conjunct1] m(1)
  have 2: "title (ss_to_paper empty_ss_paper) = Some ''Untitled''" by (rule mp)
  from t [THEN conjunct2, THEN conjunct2, THEN conjunct2, THEN conjunct2, THEN conjunct2, THEN conjunct2, THEN conjunct2, THEN conjunct2, THEN conjunct1] m(2)
  have 3: "url (ss_to_paper empty_ss_paper) = Some []
      \<and> paperLink (ss_to_paper empty_ss_paper) = Some []" by (rule mp)
  from t [THEN conjunct2, THEN conjunct2, THEN conjunct2, THEN conjunct2, THEN conjunct2, THEN conjunct2, THEN conjunct2, THEN conjunct2, THEN conjunct2, THEN conjunct1] m(3)
  have 4: "abstract (ss_to_paper empty_ss_paper) = Some ''No abstract available''"
    by (rule mp)
  from t [THEN conjunct2, THEN conjunct2, THEN conjunct2, THEN conjunct2, THEN conjunct2, THEN conjunct2, THEN conjunct2, THEN conjunct2, THEN conjunct2, THEN conjunct2, THEN conjunct1] m(4)
  have 5: "authors (ss_to_paper empty_ss_paper) = Some ''Unknown authors''"
    by (rule mp)
  from t [THEN conjunct2, THEN conjunct2, THEN conjunct2, THEN conjunct2, THEN conjunct2, THEN conjunct2, THEN conjunct2, THEN conjunct2, THEN conjunct2, THEN conjunct2, THEN conjunct2, THEN conjunct1] have "citationCount (ss_to_paper empty_ss_paper)
      = Some (count_of (ss_citationCount empty_ss_paper))" .
  with m(5) have 6: "citationCount (ss_to_paper empty_ss_paper) = Some 0" by simp
  from r 1 2 3 4 5 6 show ?thesis by (intro conjI) (erule conjunct1 conjunct2 | assumption)+
qed

text \<open>
  A provider that reports a citation count of \<open>-1\<close> gets it passed through: the emitted
  paper's \<open>citationCount\<close> is negative.
\<close>

theorem citationCount_negative_counterexample:
  "snd (fetchFromSemanticScholar
          (ss_answers [empty_ss_paper\<lparr> ss_citationCount := Some (- 1) \<rparr>] offline) ''x'')
     = Inr [ss_to_paper (empty_ss_paper\<lparr> ss_citationCount := Some (- 1) \<rparr>)]
   \<and> citationCount (ss_to_paper (empty_ss_paper\<lparr> ss_citationCount := Some (- 1) \<rparr>))
     = Some (- 1)
   \<and> (- 1 :: rat) < 0"
  by (simp add: fetchFromSemanticScholar_def on_results_def io_defs ss_answers_def
      ss_to_paper_def or_num_def truthy_num_def)

section \<open>Proofs: the gateway\<close>

lemma includes_str_middle: "includes_str (xs @ sub @ ys) sub"
proof (induction xs)
  case Nil
  have "take (length sub) (sub @ ys) = sub" by simp
  then show ?case by (cases "sub @ ys") auto
next
  case (Cons x xs)
  then show ?case by simp
qed

lemma callGemini_rejected:
  "gemini w context prompt = Rejected e \<Longrightarrow>
     callGemini w prompt context =
       ([Console LOG (''Calling Gemini API for: '' @ context), HttpPost GEMINI_API prompt,
         Console ERROR (''Error calling Gemini API for '' @ context @ '': '' @ error_detail e)],
        Inl (gateway_error context))"
  by (simp add: callGemini_def io_defs)

lemma callGemini_no_data:
  "gemini w context prompt = Resolved None \<Longrightarrow>
     callGemini w prompt context =
       ([Console LOG (''Calling Gemini API for: '' @ context), HttpPost GEMINI_API prompt,
         Console ERROR (''Error calling Gemini API for '' @ context
           @ '': No response data received.''),
         Console ERROR (''Error calling Gemini API for '' @ context
           @ '': Empty response from Gemini API'')],
        Inl (gateway_error context))"
  by (simp add: callGemini_def check_response_def error_detail_def io_defs)

lemma callGemini_blocked:
  "gemini w context prompt = Resolved (Some d) \<Longrightarrow>
   promptFeedback_of d = Some f \<Longrightarrow> blockReason f = Some r \<Longrightarrow> r \<noteq> [] \<Longrightarrow>
     callGemini w prompt context =
       ([Console LOG (''Calling Gemini API for: '' @ context), HttpPost GEMINI_API prompt,
         Console ERROR (''Error calling Gemini API for '' @ context
           @ '': Prompt blocked. Reason: '' @ r),
         Console ERROR (''Safety Ratings: '' @ safetyRatings_json f),
         Console ERROR (''Error calling Gemini API for '' @ context
           @ '': AI request blocked due to safety settings: '' @ r)],
        Inl (gateway_error context))"
  by (simp add: callGemini_def check_response_def error_detail_def truthy_str_def io_defs)

lemma callGemini_no_candidates:
  "gemini w context prompt = Resolved (Some d) \<Longrightarrow>
   \<not> truthy_str (Option.bind (promptFeedback_of d) blockReason) \<Longrightarrow>
   candidates d = None \<or> candidates d = Some [] \<Longrightarrow>
     callGemini w prompt context =
       ([Console LOG (''Calling Gemini API for: '' @ context), HttpPost GEMINI_API prompt,
         Console ERROR (''Error calling Gemini API for '' @ context
           @ '': No candidates received. Finish Reason: UNKNOWN''),
         Console ERROR (''Error calling Gemini API for '' @ context
           @ '': No response generated by AI. Reason: UNKNOWN'')],
        Inl (gateway_error context))"
  by (auto simp: callGemini_def check_response_def no_candidates_def error_detail_def io_defs)

lemma callGemini_missing_text:
  "gemini w context prompt = Resolved (Some d) \<Longrightarrow>
   \<not> truthy_str (Option.bind (promptFeedback_of d) blockReason) \<Longrightarrow>
   candidates d = Some (c # cs) \<Longrightarrow> \<not> truthy_opt (first_text c) \<Longrightarrow>
     callGemini w prompt context =
       ([Console LOG (''Calling Gemini API for: '' @ context), HttpPost GEMINI_API prompt]
        @ finish_warning context c
        @ [Console ERROR (''Error calling Gemini API for '' @ context
             @ '': Missing text content in response candidate.''),
           Console ERROR (''Received candidate: '' @ candidate_json c),
           Console ERROR (''Error calling Gemini API for '' @ context
             @ '': Invalid response structure from Gemini API (missing text)'')],
        Inl (gateway_error context))"
  by (simp add: callGemini_def check_response_def error_detail_def finish_warning_def io_defs)

lemma truthy_opt_iff: "truthy_opt x \<longleftrightarrow> (\<exists>v. x = Some v \<and> truthy_value v)"
  by (cases x) (simp_all add: truthy_opt_def)

lemma callGemini_text:
  "gemini w context prompt = Resolved (Some d) \<Longrightarrow>
   \<not> truthy_str (Option.bind (promptFeedback_of d) blockReason) \<Longrightarrow>
   candidates d = Some (c # cs) \<Longrightarrow> first_text c = Some v \<Longrightarrow> truthy_value v \<Longrightarrow>
     callGemini w prompt context =
       ([Console LOG (''Calling Gemini API for: '' @ context), HttpPost GEMINI_API prompt]
        @ finish_warning context c,
        Inr v)"
  by (simp add: callGemini_def check_response_def finish_warning_def truthy_str_def
      truthy_opt_def io_defs)

lemma truthy_str_iff: "truthy_str x \<longleftrightarrow> (\<exists>s. x = Some s \<and> s \<noteq> [])"
  by (cases x) (simp_all add: truthy_str_def)

lemma callGemini_result:
  "(\<exists>v. truthy_value v \<and> snd (callGemini w prompt context) = Inr v)
   \<or> snd (callGemini w prompt context) = Inl (gateway_error context)"
proof (cases "gemini w context prompt")
  case (Rejected e)
  then show ?thesis by (simp add: callGemini_rejected)
next
  case (Resolved data)
  show ?thesis
  proof (cases data)
    case None
    with Resolved show ?thesis by (simp add: callGemini_no_data)
  next
    case (Some d)
    with Resolved have D: "gemini w context prompt = Resolved (Some d)" by simp
    show ?thesis
    proof (cases "truthy_str (Option.bind (promptFeedback_of d) blockReason)")
      case True
      then obtain f r where "promptFeedback_of d = Some f" "blockReason f = Some r" "r \<noteq> []"
        by (cases "promptFeedback_of d") (auto simp: truthy_str_iff)
      with D show ?thesis by (simp add: callGemini_blocked)
    next
      case False
      show ?thesis
      proof (cases "candidates d")
        case None
        with D False show ?thesis by (simp add: callGemini_no_candidates)
      next
        case (Some cands)
        show ?thesis
        proof (cases cands)
          case Nil
          with D False \<open>candidates d = Some cands\<close> show ?thesis by (simp add: callGemini_no_candidates)
        next
          case (Cons c cs')
          show ?thesis
          proof (cases "truthy_opt (first_text c)")
            case True
            then obtain v where "first_text c = Some v" "truthy_value v"
              by (auto simp: truthy_opt_iff)
            with D \<open>\<not> truthy_str (Option.bind (promptFeedback_of d) blockReason)\<close> \<open>candidates d = Some cands\<close> Cons show ?thesis
              by (simp add: callGemini_text)
          next
            case False
            with D \<open>\<not> truthy_str (Option.bind (promptFeedback_of d) blockReason)\<close> \<open>candidates d = Some cands\<close> Cons show ?thesis
              by (simp add: callGemini_missing_text)
          qed
        qed
      qed
    qed
  qed
qed

text \<open>
  Claim C8. A call of \<open>callGemini\<close> returns the text of the first part of the first
  candidate, unparsed and as it is (a truthy value: when it is a string, a non-empty
  one), or throws the error whose message names the context. The
  checks come in the order: no response data, blocked prompt (whatever the candidates
  are), no candidates, missing text. A finish reason other than \<open>STOP\<close> only adds a
  warning to the console: the text is returned all the same.
\<close>

theorem callGemini_envelope_checks:
  "((\<exists>v. truthy_value v \<and> snd (callGemini w prompt context) = Inr v)
      \<or> snd (callGemini w prompt context) = Inl (gateway_error context))
   \<and> includes_str (message (gateway_error context)) context
   \<and> (gemini w context prompt = Rejected e \<longrightarrow>
        snd (callGemini w prompt context) = Inl (gateway_error context))
   \<and> (gemini w context prompt = Resolved None \<longrightarrow>
        callGemini w prompt context =
          ([Console LOG (''Calling Gemini API for: '' @ context), HttpPost GEMINI_API prompt,
            Console ERROR (''Error calling Gemini API for '' @ context
              @ '': No response data received.''),
            Console ERROR (''Error calling Gemini API for '' @ context
              @ '': Empty response from Gemini API'')],
           Inl (gateway_error context)))
   \<and> (gemini w context prompt = Resolved (Some d) \<and> promptFeedback_of d = Some f
        \<and> blockReason f = Some r \<and> r \<noteq> [] \<longrightarrow>
        callGemini w prompt context =
          ([Console LOG (''Calling Gemini API for: '' @ context), HttpPost GEMINI_API prompt,
            Console ERROR (''Error calling Gemini API for '' @ context
              @ '': Prompt blocked. Reason: '' @ r),
            Console ERROR (''Safety Ratings: '' @ safetyRatings_json f),
            Console ERROR (''Error calling Gemini API for '' @ context
              @ '': AI request blocked due to safety settings: '' @ r)],
           Inl (gateway_error context)))
   \<and> (gemini w context prompt = Resolved (Some d)
        \<and> \<not> truthy_str (Option.bind (promptFeedback_of d) blockReason)
        \<and> (candidates d = None \<or> candidates d = Some []) \<longrightarrow>
        callGemini w prompt context =
          ([Console LOG (''Calling Gemini API for: '' @ context), HttpPost GEMINI_API prompt,
            Console ERROR (''Error calling Gemini API for '' @ context
              @ '': No candidates received. Finish Reason: UNKNOWN''),
            Console ERROR (''Error calling Gemini API for '' @ context
              @ '': No response generated by AI. Reason: UNKNOWN'')],
           Inl (gateway_error context)))
   \<and> (gemini w context prompt = Resolved (Some d)
        \<and> \<not> truthy_str (Option.bind (promptFeedback_of d) blockReason)
        \<and> candidates d = Some (c # cs) \<and> \<not> truthy_opt (first_text c) \<longrightarrow>
        callGemini w prompt context =
          ([Console LOG (''Calling Gemini API for: '' @ context), HttpPost GEMINI_API prompt]
           @ finish_warning context c
           @ [Console ERROR (''Error calling Gemini API for '' @ context
                @ '': Missing text content in response candidate.''),
              Console ERROR (''Received candidate: '' @ candidate_json c),
              Console ERROR (''Error calling Gemini API for '' @ context
                @ '': Invalid response structure from Gemini API (missing text)'')],
           Inl (gateway_error context)))
   \<and> (gemini w context prompt = Resolved (Some d)
        \<and> \<not> truthy_str (Option.bind (promptFeedback_of d) blockReason)
        \<and> candidates d = Some (c # cs) \<and> first_text c = Some v \<and> truthy_value v \<longrightarrow>
        callGemini w prompt context =
          ([Console LOG (''Calling Gemini API for: '' @ context), HttpPost GEMINI_API prompt]
           @ finish_warning context c,
           Inr v))"
proof (intro conjI impI)
  show "(\<exists>v. truthy_value v \<and> snd (callGemini w prompt context) = Inr v)
      \<or> snd (callGemini w prompt context) = Inl (gateway_error context)"
    by (rule callGemini_result)
  show "includes_str (message (gateway_error context)) context"
    using includes_str_middle [of "''Failed to get response from AI for ''" "context" "''.''"]
    by (simp add: gateway_error_def)
qed (simp_all add: callGemini_rejected callGemini_no_data callGemini_blocked
       callGemini_no_candidates callGemini_missing_text callGemini_text)

text \<open>
  An answer that is blocked and has no candidates is reported as blocked; an answer cut
  off at the token limit is returned with a warning.
\<close>

theorem callGemini_envelope_checks_witness:
  "callGemini (gemini_answers (\<lambda>c. Resolved (Some blocked_answer)) offline) ''p'' ''methodology''
     = ([Console LOG ''Calling Gemini API for: methodology'', HttpPost GEMINI_API ''p'',
         Console ERROR ''Error calling Gemini API for methodology: Prompt blocked. Reason: SAFETY'',
         Console ERROR ''Safety Ratings: []'',
         Console ERROR
           ''Error calling Gemini API for methodology: AI request blocked due to safety settings: SAFETY''],
        Inl (Error ''Failed to get response from AI for methodology.''))
   \<and> callGemini (gemini_answers (\<lambda>c. Resolved (Some (answer ''MAX_TOKENS'' (VText ''[1'')))) offline)
         ''p'' ''methodology''
     = ([Console LOG ''Calling Gemini API for: methodology'', HttpPost GEMINI_API ''p'',
         Console WARN
           ''Gemini API for methodology finished with reason: MAX_TOKENS. Output might be incomplete.''],
        Inr (VText ''[1''))"
proof -
  let ?w = "gemini_answers (\<lambda>c. Resolved (Some blocked_answer)) offline"
  let ?f = "\<lparr> blockReason = Some ''SAFETY'', safetyRatings_json = ''[]'' \<rparr>"
  have h: "gemini ?w ''methodology'' ''p'' = Resolved (Some blocked_answer)
      \<and> promptFeedback_of blocked_answer = Some ?f \<and> blockReason ?f = Some ''SAFETY''
      \<and> ''SAFETY'' \<noteq> []"
    by (simp add: gemini_answers_def blocked_answer_def)
  note t = callGemini_envelope_checks [of ?w "''p''" "''methodology''" _ blocked_answer ?f
      "''SAFETY''"]
  note t5 = t [THEN conjunct2, THEN conjunct2, THEN conjunct2, THEN conjunct2, THEN conjunct1]
  from t5 h have 1: "callGemini ?w ''p'' ''methodology'' =
      ([Console LOG (''Calling Gemini API for: '' @ ''methodology''), HttpPost GEMINI_API ''p'',
        Console ERROR (''Error calling Gemini API for '' @ ''methodology''
          @ '': Prompt blocked. Reason: '' @ ''SAFETY''),
        Console ERROR (''Safety Ratings: '' @ safetyRatings_json ?f),
        Console ERROR (''Error calling Gemini API for '' @ ''methodology''
          @ '': AI request blocked due to safety settings: '' @ ''SAFETY'')],
       Inl (gateway_error ''methodology''))"
    by (rule mp)
  let ?v = "gemini_answers (\<lambda>c. Resolved (Some (answer ''MAX_TOKENS'' (VText ''[1'')))) offline"
  let ?c = "text_candidate ''MAX_TOKENS'' (VText ''[1'')"
  have g: "gemini ?v ''methodology'' ''p'' = Resolved (Some (answer ''MAX_TOKENS'' (VText ''[1'')))
      \<and> \<not> truthy_str (Option.bind (promptFeedback_of (answer ''MAX_TOKENS'' (VText ''[1''))) blockReason)
      \<and> candidates (answer ''MAX_TOKENS'' (VText ''[1'')) = Some (?c # [])
      \<and> first_text ?c = Some (VText ''[1'') \<and> truthy_value (VText ''[1'')"
    by (simp add: gemini_answers_def answer_def text_candidate_def truthy_str_def first_text_def)
  note u = callGemini_envelope_checks [of ?v "''p''" "''methodology''" _
      "answer ''MAX_TOKENS'' (VText ''[1'')" _ _ ?c "[]" "VText ''[1''"]
  note u8 = u [THEN conjunct2, THEN conjunct2, THEN conjunct2, THEN conjunct2, THEN conjunct2,
      THEN conjunct2, THEN conjunct2]
  from u8 g have 2: "callGemini ?v ''p'' ''methodology'' =
      ([Console LOG (''Calling Gemini API for: '' @ ''methodology''), HttpPost GEMINI_API ''p'']
       @ finish_warning ''methodology'' ?c, Inr (VText ''[1''))"
    by (rule mp)
  have 3: "finish_warning ''methodology'' ?c =
      [Console WARN
        ''Gemini API for methodology finished with reason: MAX_TOKENS. Output might be incomplete.'']"
    by (simp add: finish_warning_def text_candidate_def truthy_str_def)
  from 1 2 3 show ?thesis by (simp add: gateway_error_def)
qed

section \<open>Proofs: the extractor\<close>

lemma parse_Inr [simp]: "JSON_parse s = Inr v \<Longrightarrow> parse s = ([], Inr v)"
  by (simp add: parse_def)

lemma parse_Inl [simp]: "JSON_parse s = Inl e \<Longrightarrow> parse s = ([], Inl e)"
  by (simp add: parse_def)

lemma extract_none: "snd (extractAndParseJson None ctx) = Inr JNull"
  by (simp add: extractAndParseJson_def io_defs)

lemma extract_empty: "snd (extractAndParseJson (Some []) ctx) = Inr JNull"
  by (simp add: extractAndParseJson_def io_defs)

lemma extract_plain:
  "s \<noteq> [] \<Longrightarrow> looks_like_plain_text (strip_fences s) \<Longrightarrow>
     snd (extractAndParseJson (Some s) ctx) = Inr JNull"
  by (simp add: extractAndParseJson_def io_defs)

lemma extract_strict:
  "s \<noteq> [] \<Longrightarrow> \<not> looks_like_plain_text (strip_fences s) \<Longrightarrow>
   JSON_parse (strip_fences s) = Inr v \<Longrightarrow>
     snd (extractAndParseJson (Some s) ctx) = Inr v"
  by (simp add: extractAndParseJson_def io_defs)

lemma extract_repaired:
  "s \<noteq> [] \<Longrightarrow> \<not> looks_like_plain_text (strip_fences s) \<Longrightarrow>
   JSON_parse (strip_fences s) = Inl e \<Longrightarrow> JSON_parse (clean (strip_fences s)) = Inr v \<Longrightarrow>
     snd (extractAndParseJson (Some s) ctx) = Inr v"
  by (simp add: extractAndParseJson_def io_defs Let_def)

lemma extract_failed:
  "s \<noteq> [] \<Longrightarrow> \<not> looks_like_plain_text (strip_fences s) \<Longrightarrow>
   JSON_parse (strip_fences s) = Inl e \<Longrightarrow> JSON_parse (clean (strip_fences s)) = Inl e' \<Longrightarrow>
     snd (extractAndParseJson (Some s) ctx) = Inr JNull"
  by (simp add: extractAndParseJson_def io_defs Let_def)

lemma extract_value: "snd (extractAndParseJson raw ctx) = Inr (extracted raw)"
proof (cases raw)
  case None
  then show ?thesis by (simp add: extract_none extracted_def)
next
  case (Some s)
  show ?thesis
  proof (cases "s = []")
    case True
    with Some show ?thesis by (simp add: extract_empty extracted_def)
  next
    case ne: False
    show ?thesis
    proof (cases "looks_like_plain_text (strip_fences s)")
      case True
      with Some ne show ?thesis by (simp add: extract_plain extracted_def)
    next
      case np: False
      show ?thesis
      proof (cases "JSON_parse (strip_fences s)")
        case (Inr v)
        with Some ne np show ?thesis by (simp add: extract_strict extracted_def)
      next
        case (Inl e)
        with Some ne np show ?thesis
          by (cases "JSON_parse (clean (strip_fences s))")
             (simp_all add: extract_repaired extract_failed extracted_def)
      qed
    qed
  qed
qed

lemma extract_eq: "extractAndParseJson raw ctx = (extract_log raw ctx, Inr (extracted raw))"
  using extract_value [of raw ctx] by (simp add: extract_log_def prod_eq_iff)

lemma truncated_array: "extracted (Some ''[{\"a\":1,]'') = JNull"
  by code_simp

text \<open>
  Claim C4. \<open>extractAndParseJson\<close> never throws, whatever the raw string and the context.
  It returns \<open>null\<close> for \<open>null\<close>, \<open>undefined\<close> and the empty string; otherwise, unless the
  text without its fences is short prose, it returns the value of the strict parse when
  that succeeds, else the value of the strict parse of the repaired text when that
  succeeds, and \<open>null\<close> on every other path. For the truncated text \<open>[{"a":1,]\<close> the
  result is \<open>null\<close>.
\<close>

theorem extractAndParseJson_never_throws:
  "(\<exists>v. snd (extractAndParseJson raw ctx) = Inr v)
   \<and> snd (extractAndParseJson raw ctx) = Inr (extracted raw)
   \<and> snd (extractAndParseJson None ctx) = Inr JNull
   \<and> snd (extractAndParseJson (Some []) ctx) = Inr JNull
   \<and> snd (extractAndParseJson (Some ''[{\"a\":1,]'') ctx) = Inr JNull
   \<and> (s \<noteq> [] \<and> looks_like_plain_text (strip_fences s) \<longrightarrow>
        snd (extractAndParseJson (Some s) ctx) = Inr JNull)
   \<and> (s \<noteq> [] \<and> \<not> looks_like_plain_text (strip_fences s)
        \<and> JSON_parse (strip_fences s) = Inr v \<longrightarrow>
        snd (extractAndParseJson (Some s) ctx) = Inr v)
   \<and> (s \<noteq> [] \<and> \<not> looks_like_plain_text (strip_fences s)
        \<and> JSON_parse (strip_fences s) = Inl e
        \<and> JSON_parse (clean (strip_fences s)) = Inr v \<longrightarrow>
        snd (extractAndParseJson (Some s) ctx) = Inr v)
   \<and> (s \<noteq> [] \<and> \<not> looks_like_plain_text (strip_fences s)
        \<and> JSON_parse (strip_fences s) = Inl e
        \<and> JSON_parse (clean (strip_fences s)) = Inl e' \<longrightarrow>
        snd (extractAndParseJson (Some s) ctx) = Inr JNull)"
proof (intro conjI impI)
  show "\<exists>v. snd (extractAndParseJson raw ctx) = Inr v"
    using extract_value by blast
  show "snd (extractAndParseJson raw ctx) = Inr (extracted raw)"
    by (rule extract_value)
  show "snd (extractAndParseJson (Some ''[{\"a\":1,]'') ctx) = Inr JNull"
    by (simp only: extract_value truncated_array)
qed (simp_all add: extract_none extract_empty extract_plain extract_strict extract_repaired
       extract_failed)

lemma broken_object_facts:
  "broken_object \<noteq> []"
  "\<not> looks_like_plain_text (strip_fences broken_object)"
  "JSON_parse (strip_fences broken_object) = Inl (SyntaxError ''Unexpected token in JSON'')"
  "JSON_parse (clean (strip_fences broken_object)) = Inr (JObj [([97], JStr [120, 10, 121])])"
  by code_simp+

text \<open>
  The object \<open>{"a":"x\<dots>y"}\<close> with a line feed between \<open>x\<close> and \<open>y\<close> fails the strict parse
  and is parsed after the repair.
\<close>

theorem extractAndParseJson_never_throws_witness:
  "snd (extractAndParseJson (Some broken_object) ''stepByStep'')
     = Inr (JObj [([97], JStr [120, 10, 121])])"
proof -
  note t = extractAndParseJson_never_throws [where ctx = "''stepByStep''"
      and s = broken_object and e = "SyntaxError ''Unexpected token in JSON''"
      and v = "JObj [([97], JStr [120, 10, 121])]"]
  note t8 = t [THEN conjunct2, THEN conjunct2, THEN conjunct2, THEN conjunct2, THEN conjunct2,
      THEN conjunct2, THEN conjunct2, THEN conjunct1]
  from broken_object_facts
  have "broken_object \<noteq> [] \<and> \<not> looks_like_plain_text (strip_fences broken_object)
      \<and> JSON_parse (strip_fences broken_object) = Inl (SyntaxError ''Unexpected token in JSON'')
      \<and> JSON_parse (clean (strip_fences broken_object))
          = Inr (JObj [([97], JStr [120, 10, 121])])"
    by (intro conjI)
  with t8 show ?thesis by (rule mp)
qed

section \<open>Proofs: fence stripping\<close>

lemma is_space_newline [simp]: "is_space newline"
  by (simp add: is_space_def newline_def)

lemma not_space_backtick [simp]: "\<not> is_space backtick"
  by (simp add: is_space_def backtick_def)

lemma ascii_lower_backtick: "ascii_lower c = backtick \<Longrightarrow> c = backtick"
proof (rule ccontr)
  assume a: "ascii_lower c = backtick" and n: "c \<noteq> backtick"
  then have u: "(65::nat) \<le> of_char c \<and> of_char c \<le> (90::nat)"
    by (auto simp: ascii_lower_def split: if_splits)
  with a have "char_of (of_char c + (32::nat)) = backtick"
    by (simp add: ascii_lower_def)
  then have "of_char (char_of (of_char c + (32::nat))) = (of_char backtick :: nat)"
    by simp
  with u show False
    by (simp add: backtick_def)
qed

lemma at_json_fence_backtick: "at_json_fence (c # cs) \<Longrightarrow> c = backtick"
  by (auto simp: at_json_fence_def fence_def intro: ascii_lower_backtick)

lemma fence_at_json_fence: "at_json_fence s \<Longrightarrow> take 3 s = fence"
proof -
  assume a: "at_json_fence s"
  then have l: "length (take 7 s) = 7"
    using length_map [of ascii_lower "take 7 s"] by (simp add: at_json_fence_def fence_def)
  then obtain c1 c2 c3 r where s: "s = c1 # c2 # c3 # r"
    by (cases s; cases "tl s"; cases "tl (tl s)") auto
  with a have "ascii_lower c1 = backtick" "ascii_lower c2 = backtick" "ascii_lower c3 = backtick"
    by (simp_all add: at_json_fence_def fence_def)
  then have "c1 = backtick" "c2 = backtick" "c3 = backtick"
    by (simp_all add: ascii_lower_backtick)
  with s show ?thesis by (simp add: fence_def)
qed

lemma length_fence: "length fence = 3"
  by (simp add: fence_def)

lemma includes_str_head: "take (length sub) s = sub \<Longrightarrow> includes_str (xs @ s) sub"
proof -
  assume "take (length sub) s = sub"
  then have "s = sub @ drop (length sub) s"
    by (metis append_take_drop_id)
  then show ?thesis
    using includes_str_middle [of xs sub "drop (length sub) s"] by simp
qed

lemma includes_str_tail: "includes_str cs sub \<Longrightarrow> includes_str (c # cs) sub"
  by simp

lemma strip_start_from_id: "\<not> includes_str s fence \<Longrightarrow> strip_start_from b s = s"
proof (induction s arbitrary: b)
  case Nil
  show ?case by simp
next
  case (Cons c cs)
  have "\<not> at_json_fence (c # cs)"
  proof
    assume "at_json_fence (c # cs)"
    then have "take 3 (c # cs) = fence" by (rule fence_at_json_fence)
    then have "take (length fence) (c # cs) = fence" by (simp only: length_fence)
    then have "includes_str ([] @ c # cs) fence" by (rule includes_str_head)
    with Cons.prems show False by simp
  qed
  moreover from Cons.prems have "\<not> includes_str cs fence" by auto
  ultimately show ?case using Cons.IH by simp
qed

lemma match_end_fence: "match_end s = Some rest \<Longrightarrow> includes_str s fence"
proof -
  assume a: "match_end s = Some rest"
  define r where "r = dropWhile is_space s"
  from a have "take 3 r = fence"
    by (simp add: match_end_def Let_def r_def split: if_splits)
  then have "take (length fence) r = fence" by (simp only: length_fence)
  then have "includes_str (takeWhile is_space s @ r) fence" by (rule includes_str_head)
  then show ?thesis by (simp add: r_def)
qed

lemma strip_end_id: "\<not> includes_str s fence \<Longrightarrow> strip_end s = s"
proof (induction s)
  case Nil
  show ?case by simp
next
  case (Cons c cs)
  from Cons.prems have "match_end (c # cs) = None"
    using match_end_fence [of "c # cs"] by (cases "match_end (c # cs)") auto
  moreover from Cons.prems have "\<not> includes_str cs fence" by auto
  ultimately show ?case using Cons.IH by simp
qed

lemma match_end_shorter: "match_end s = Some rest \<Longrightarrow> length rest < length s"
proof -
  assume a: "match_end s = Some rest"
  define r where "r = dropWhile is_space s"
  from a have t: "take 3 r = fence" and d: "rest = drop 3 r"
    by (simp_all add: match_end_def Let_def r_def split: if_splits)
  from t have "3 \<le> length r"
    using length_take [of 3 r] by (simp add: fence_def)
  moreover have "length r \<le> length s"
    unfolding r_def by (rule length_dropWhile_le)
  ultimately show ?thesis using d by simp
qed

lemma strip_end_fixed_Cons:
  assumes "strip_end (c # t) = c # t"
  shows "match_end (c # t) = None \<and> strip_end t = t"
proof (cases "match_end (c # t)")
  case None
  with assms show ?thesis by simp
next
  case (Some rest)
  with assms have "rest = c # t" by simp
  with match_end_shorter [OF Some] show ?thesis by simp
qed

lemma strip_end_fixed_drop: "strip_end s = s \<Longrightarrow> strip_end (drop k s) = drop k s"
proof (induction s arbitrary: k)
  case Nil
  show ?case by simp
next
  case (Cons c t)
  from strip_end_fixed_Cons [OF Cons.prems] have "strip_end t = t" by simp
  with Cons.IH Cons.prems show ?case by (cases k) simp_all
qed

lemma dropWhile_all: "\<forall>x \<in> set ws. P x \<Longrightarrow> dropWhile P (ws @ r) = dropWhile P r"
  by (induction ws) simp_all

lemma dropWhile_fence: "dropWhile is_space (fence @ r) = fence @ r"
  by (simp add: fence_def)

lemma rstrip_Cons:
  "rev (dropWhile P (rev (c # t))) =
     (if \<forall>x \<in> set (c # t). P x then [] else c # rev (dropWhile P (rev t)))"
proof (cases "\<forall>x \<in> set t. P x")
  case True
  then have "dropWhile P (rev t @ [c]) = dropWhile P [c]"
    by (intro dropWhile_append2) simp
  moreover from True have "dropWhile P (rev t) = []" by simp
  ultimately show ?thesis using True by simp
next
  case False
  then obtain x where "x \<in> set (rev t)" "\<not> P x" by auto
  then have "dropWhile P (rev t @ [c]) = dropWhile P (rev t) @ [c]"
    by (rule dropWhile_append1)
  with False show ?thesis by simp
qed

lemma match_end_closing:
  assumes "\<forall>x \<in> set ws. is_space x" "b3 = [] \<or> is_line_terminator (hd b3)"
  shows "match_end (ws @ fence @ b3) = Some b3"
proof -
  from assms(1) have "dropWhile is_space (ws @ fence @ b3) = fence @ b3"
    by (simp add: dropWhile_all dropWhile_fence)
  moreover have "take 3 (fence @ b3) = fence" "drop 3 (fence @ b3) = b3"
    by (simp_all add: fence_def)
  ultimately show ?thesis
    using assms(2) by (cases b3) (simp_all add: match_end_def)
qed

lemma match_end_text:
  assumes "match_end t = None" "\<not> (\<forall>x \<in> set t. is_space x)" "is_space x"
  shows "match_end (t @ x # rest) = None"
proof -
  define r where "r = dropWhile is_space t"
  from assms(2) obtain y where "y \<in> set t" "\<not> is_space y" by auto
  then have d: "dropWhile is_space (t @ x # rest) = r @ x # rest"
    unfolding r_def by (rule dropWhile_append1)
  from assms(2) have ne: "r \<noteq> []" by (auto simp: r_def)
  from assms(1) have n: "\<not> (take 3 r = fence
      \<and> (case drop 3 r of [] \<Rightarrow> True | d # ds \<Rightarrow> is_line_terminator d))"
    by (simp add: match_end_def Let_def r_def split: if_splits)
  have "\<not> (take 3 (r @ x # rest) = fence
      \<and> (case drop 3 (r @ x # rest) of [] \<Rightarrow> True | d # ds \<Rightarrow> is_line_terminator d))"
  proof (cases "3 \<le> length r")
    case True
    then have t: "take 3 (r @ x # rest) = take 3 r" by simp
    show ?thesis
    proof (cases "take 3 r = fence")
      case False
      with t show ?thesis by simp
    next
      case f: True
      with n obtain d ds where dd: "drop 3 r = d # ds" "\<not> is_line_terminator d"
        by (cases "drop 3 r") auto
      from True have "drop 3 (r @ x # rest) = drop 3 r @ x # rest" by simp
      with dd show ?thesis by simp
    qed
  next
    case False
    then have l: "length r < 3" by simp
    have "x \<in> set (take 3 (r @ x # rest))"
    proof -
      from l have "take 3 (r @ x # rest) = r @ take (3 - length r) (x # rest)" by simp
      moreover from l obtain m where "3 - length r = Suc m" by (cases "3 - length r") auto
      ultimately show ?thesis by simp
    qed
    moreover from assms(3) have "x \<notin> set fence"
      by (auto simp: fence_def)
    ultimately have "take 3 (r @ x # rest) \<noteq> fence" by metis
    then show ?thesis by blast
  qed
  with d show ?thesis by (simp add: match_end_def r_def)
qed

lemma strip_end_closing:
  assumes "\<forall>x \<in> set b2. is_space x" "b2 \<noteq> []" "b3 = [] \<or> is_line_terminator (hd b3)"
  shows "strip_end t = t \<Longrightarrow>
     strip_end (t @ b2 @ fence @ b3) = rev (dropWhile is_space (rev t)) @ b3"
proof (induction t)
  case Nil
  have "match_end (b2 @ fence @ b3) = Some b3"
    using assms(1,3) by (rule match_end_closing)
  with assms(2) show ?case by (cases b2) simp_all
next
  case (Cons c t)
  from strip_end_fixed_Cons [OF Cons.prems]
  have m: "match_end (c # t) = None" and f: "strip_end t = t" by simp_all
  show ?case
  proof (cases "\<forall>x \<in> set (c # t). is_space x")
    case True
    with assms(1) have "\<forall>x \<in> set ((c # t) @ b2). is_space x" by auto
    from match_end_closing [OF this assms(3)]
    have "strip_end ((c # t) @ b2 @ fence @ b3) = b3" by simp
    moreover have "rev (dropWhile is_space (rev (c # t))) = []"
      using True by (simp only: rstrip_Cons, simp)
    ultimately show ?thesis by (simp only: append_Nil)
  next
    case False
    from assms(1,2) obtain x b2' where b2: "b2 = x # b2'" "is_space x" by (cases b2) auto
    from match_end_text [OF m False b2(2), of "b2' @ fence @ b3"] b2(1)
    have "match_end ((c # t) @ b2 @ fence @ b3) = None" by simp
    then have "strip_end ((c # t) @ b2 @ fence @ b3) = c # strip_end (t @ b2 @ fence @ b3)"
      by simp
    moreover from Cons.IH [OF f]
    have "strip_end (t @ b2 @ fence @ b3) = rev (dropWhile is_space (rev t)) @ b3" .
    moreover have "rev (dropWhile is_space (rev (c # t))) = c # rev (dropWhile is_space (rev t))"
      using False by (simp only: rstrip_Cons, simp)
    ultimately show ?thesis by (simp only: append_Cons)
  qed
qed

lemma trim_all_space: "\<forall>x \<in> set s. is_space x \<Longrightarrow> trim s = []"
proof -
  assume "\<forall>x \<in> set s. is_space x"
  then have d: "dropWhile is_space s = []" by simp
  show ?thesis unfolding trim_def d by simp
qed

lemma strip_end_after_start:
  assumes "\<forall>x \<in> set b2. is_space x" "b2 \<noteq> []" "b3 = [] \<or> is_line_terminator (hd b3)"
    and "strip_end s = s"
  shows "strip_end (dropWhile is_space (s @ b2 @ fence @ b3)) = trim s @ b3"
proof (cases "\<forall>x \<in> set s. is_space x")
  case True
  with assms(1) have "\<forall>x \<in> set (s @ b2). is_space x" by auto
  then have "dropWhile is_space ((s @ b2) @ fence @ b3) = fence @ b3"
    by (simp only: dropWhile_all dropWhile_fence)
  moreover have "match_end ([] @ fence @ b3) = Some b3"
    by (rule match_end_closing) (simp_all add: assms(3))
  then have "strip_end (fence @ b3) = b3" by (simp add: fence_def)
  ultimately show ?thesis using True by (simp add: trim_all_space)
next
  case False
  then obtain x where "x \<in> set s" "\<not> is_space x" by auto
  then have "dropWhile is_space (s @ b2 @ fence @ b3) = dropWhile is_space s @ b2 @ fence @ b3"
    by (rule dropWhile_append1)
  moreover have "strip_end (dropWhile is_space s) = dropWhile is_space s"
    using strip_end_fixed_drop [OF assms(4)] by (simp add: dropWhile_eq_drop)
  ultimately show ?thesis
    using strip_end_closing [OF assms(1,2,3)] by (simp add: trim_def)
qed

lemma trim_trim: "trim (trim s) = trim s"
proof -
  define l where "l = dropWhile is_space s"
  define u where "u = rev (dropWhile is_space (rev l))"
  have u: "trim s = u" by (simp add: trim_def l_def u_def)
  have "rev (rev l) = rev (takeWhile is_space (rev l) @ dropWhile is_space (rev l))"
    by (simp only: takeWhile_dropWhile_id)
  then have l: "l = u @ rev (takeWhile is_space (rev l))"
    by (simp only: rev_rev_ident rev_append u_def)
  have 1: "dropWhile is_space u = u"
  proof (cases "u = []")
    case True
    then show ?thesis by simp
  next
    case False
    with l have "hd u = hd l" "l \<noteq> []"
      by (metis hd_append2, metis append_is_Nil_conv)
    moreover from \<open>l \<noteq> []\<close> have "\<not> is_space (hd l)"
      unfolding l_def by (rule hd_dropWhile)
    ultimately show ?thesis
      using False by (cases u) simp_all
  qed
  have 2: "rev (dropWhile is_space (rev u)) = u"
    by (simp add: u_def)
  have "trim u = u"
    unfolding trim_def by (simp only: 1 2)
  then show ?thesis by (simp only: u)
qed

lemma trim_append_space: "\<forall>x \<in> set b. is_space x \<Longrightarrow> trim (u @ b) = trim u"
proof (cases "\<forall>x \<in> set u. is_space x")
  case True
  assume "\<forall>x \<in> set b. is_space x"
  with True have "\<forall>x \<in> set (u @ b). is_space x" by auto
  then have "trim (u @ b) = []" by (rule trim_all_space)
  with True show ?thesis by (simp add: trim_all_space)
next
  case False
  assume b: "\<forall>x \<in> set b. is_space x"
  from False obtain x where "x \<in> set u" "\<not> is_space x" by auto
  then have "dropWhile is_space (u @ b) = dropWhile is_space u @ b"
    by (rule dropWhile_append1)
  moreover from b have "dropWhile is_space (rev b @ rev (dropWhile is_space u))
      = dropWhile is_space (rev (dropWhile is_space u))"
    by (intro dropWhile_all) simp
  ultimately show ?thesis by (simp add: trim_def)
qed

lemma at_json_fence_wrapped:
  assumes "map ascii_lower tag = ''json''"
  shows "at_json_fence (fence @ tag @ r)"
proof -
  from assms have "length tag = 4"
    using length_map [of ascii_lower tag] by simp
  then have "take 7 (fence @ tag @ r) = fence @ tag" by (simp add: fence_def)
  moreover have "map ascii_lower fence = fence"
    by (simp add: fence_def ascii_lower_def backtick_def)
  ultimately show ?thesis using assms by (simp add: at_json_fence_def)
qed

lemma strip_start_wrapped:
  assumes "map ascii_lower tag = ''json''" "\<forall>x \<in> set b1. is_space x"
  shows "strip_start (fence @ tag @ b1 @ r) = dropWhile is_space r"
proof -
  define W where "W = fence @ tag @ b1 @ r"
  from assms(1) have l: "length tag = 4"
    using length_map [of ascii_lower tag] by simp
  have a: "at_json_fence W"
    unfolding W_def using assms(1) by (rule at_json_fence_wrapped)
  have d: "drop 7 W = b1 @ r"
    unfolding W_def using l by (simp add: fence_def)
  obtain c cs where w: "W = c # cs"
    unfolding W_def by (cases "fence @ tag @ b1 @ r") (simp_all add: fence_def)
  from a have "strip_start_from True (c # cs) = dropWhile is_space (drop 7 (c # cs))"
    unfolding w by simp
  then have "strip_start W = dropWhile is_space (b1 @ r)"
    unfolding strip_start_def w [symmetric] d .
  with assms(2) show ?thesis
    unfolding W_def by (simp only: dropWhile_all)
qed

lemma json_fence_lines_iff:
  "json_fence_lines tag b1 b2 b3 \<longleftrightarrow>
     map ascii_lower tag = ''json'' \<and> (\<forall>x \<in> set b1. is_space x)
     \<and> b2 \<noteq> [] \<and> (\<forall>x \<in> set b2. is_space x)
     \<and> (\<forall>x \<in> set b3. is_space x) \<and> (b3 = [] \<or> is_line_terminator (hd b3))"
  by (simp add: json_fence_lines_def list_all_iff)

lemma strip_fences_wrapped:
  assumes "json_fence_lines tag b1 b2 b3" "strip_start s = s" "strip_end s = s"
  shows "strip_fences (wrap_in_fences tag b1 b2 b3 s) = strip_fences s"
proof -
  note j = assms(1) [unfolded json_fence_lines_iff]
  have "strip_start (wrap_in_fences tag b1 b2 b3 s) = dropWhile is_space (s @ b2 @ fence @ b3)"
    unfolding wrap_in_fences_def using j by (intro strip_start_wrapped) simp_all
  moreover have "strip_end (dropWhile is_space (s @ b2 @ fence @ b3)) = trim s @ b3"
    using j assms(3) by (intro strip_end_after_start) simp_all
  moreover have "trim (trim s @ b3) = trim (trim s)"
    using j by (intro trim_append_space) simp
  ultimately have "strip_fences (wrap_in_fences tag b1 b2 b3 s) = trim s"
    by (simp add: strip_fences_def trim_trim)
  with assms(2,3) show ?thesis by (simp add: strip_fences_def)
qed

lemma extracted_empty_text: "s \<noteq> [] \<Longrightarrow> strip_fences s = [] \<Longrightarrow> extracted (Some s) = JNull"
  by (simp add: extracted_def looks_like_plain_text_def startsWith_def JSON_parse_def clean_def)

lemma extracted_wrapped:
  assumes "json_fence_lines tag b1 b2 b3" "strip_start s = s" "strip_end s = s"
  shows "extracted (Some (wrap_in_fences tag b1 b2 b3 s)) = extracted (Some s)"
proof -
  have w: "wrap_in_fences tag b1 b2 b3 s \<noteq> []" by (simp add: wrap_in_fences_def fence_def)
  have f: "strip_fences (wrap_in_fences tag b1 b2 b3 s) = strip_fences s"
    using assms by (rule strip_fences_wrapped)
  show ?thesis
  proof (cases "s = []")
    case True
    then have "strip_fences s = []"
      by (simp add: strip_fences_def strip_start_def trim_def)
    with f w have "extracted (Some (wrap_in_fences tag b1 b2 b3 s)) = JNull"
      by (simp add: extracted_empty_text)
    with True show ?thesis by (simp add: extracted_def)
  next
    case False
    with w f show ?thesis by (simp add: extracted_def)
  qed
qed

text \<open>
  Claim C6 (as amended). Let \<open>s\<close> be a text that the two fence replacements leave as it
  is: no line of \<open>s\<close> starts with three backticks and \<open>json\<close>, and nowhere in \<open>s\<close> are
  three backticks followed by the end of a line. Then \<open>s\<close> wrapped in an opening line of
  three backticks and \<open>json\<close> (in any letter case) and a closing line of three backticks
  is parsed to the same result as \<open>s\<close> itself. Every text without three backticks in
  a row is such a text.
\<close>

theorem fenced_same_as_unfenced:
  "(json_fence_lines tag b1 b2 b3 \<and> strip_start s = s \<and> strip_end s = s \<longrightarrow>
      snd (extractAndParseJson (Some (wrap_in_fences tag b1 b2 b3 s)) ctx)
        = snd (extractAndParseJson (Some s) ctx))
   \<and> (\<not> includes_str s fence \<longrightarrow> strip_start s = s \<and> strip_end s = s)"
  by (simp add: extract_value extracted_wrapped strip_start_def strip_start_from_id strip_end_id)

text \<open>
  An object with inline code in a string, between \<open>```JSON\<close> with a carriage return and
  a line feed and a closing line followed by a line feed.
\<close>

theorem fenced_same_as_unfenced_witness:
  "json_fence_lines ''JSON'' [CHR 0x0D, newline] [newline] [newline]
   \<and> \<not> includes_str inline_code fence
   \<and> snd (extractAndParseJson
            (Some (wrap_in_fences ''JSON'' [CHR 0x0D, newline] [newline] [newline] inline_code))
            ''stepByStep'')
       = Inr (JObj [(map of_char ''a'', JStr (map of_char (''run '' @ [backtick] @ ''npm i'' @ [backtick])))])"
proof -
  have j: "json_fence_lines ''JSON'' [CHR 0x0D, newline] [newline] [newline]"
    by code_simp
  have n: "\<not> includes_str inline_code fence" by code_simp
  note t = fenced_same_as_unfenced [of "''JSON''" "[CHR 0x0D, newline]" "[newline]" "[newline]"
      inline_code "''stepByStep''"]
  from t [THEN conjunct2] n have "strip_start inline_code = inline_code
      \<and> strip_end inline_code = inline_code"
    by (rule mp)
  with j have "json_fence_lines ''JSON'' [CHR 0x0D, newline] [newline] [newline]
      \<and> strip_start inline_code = inline_code \<and> strip_end inline_code = inline_code"
    by simp
  with t [THEN conjunct1]
  have "snd (extractAndParseJson
            (Some (wrap_in_fences ''JSON'' [CHR 0x0D, newline] [newline] [newline] inline_code))
            ''stepByStep'')
      = snd (extractAndParseJson (Some inline_code) ''stepByStep'')"
    by (rule mp)
  moreover have "extracted (Some inline_code)
      = JObj [(map of_char ''a'', JStr (map of_char (''run '' @ [backtick] @ ''npm i'' @ [backtick])))]"
    by code_simp
  ultimately show ?thesis using j n by (simp only: extract_value simp_thms)
qed

text \<open>
  A text that ends with a fence line of its own: unwrapped, that line is removed and the
  array is parsed; wrapped, the inner fence line is the one removed, the outer one stays
  and the parse fails. And a plain array between two lines of three backticks without a
  tag: the closing line is never reached, because the second replacement removes the
  opening one, and the parse fails.
\<close>

theorem fenced_differs_counterexample:
  "snd (extractAndParseJson (Some half_fenced) ''stepByStep'') = Inr (JArr [JNum 1])
   \<and> snd (extractAndParseJson
            (Some (wrap_in_fences ''json'' [newline] [newline] [] half_fenced)) ''stepByStep'')
       = Inr JNull
   \<and> snd (extractAndParseJson (Some ''[1]'') ''stepByStep'') = Inr (JArr [JNum 1])
   \<and> snd (extractAndParseJson
            (Some (wrap_in_fences [] [newline] [newline] [] ''[1]'')) ''stepByStep'')
       = Inr JNull"
proof -
  have "extracted (Some half_fenced) = JArr [JNum 1]" by code_simp
  moreover have "extracted (Some (wrap_in_fences ''json'' [newline] [newline] [] half_fenced))
      = JNull"
    by code_simp
  moreover have "extracted (Some ''[1]'') = JArr [JNum 1]" by code_simp
  moreover have "extracted (Some (wrap_in_fences [] [newline] [newline] [] ''[1]'')) = JNull"
    by code_simp
  ultimately show ?thesis by (simp only: extract_value simp_thms)
qed

section \<open>Proofs: the repair pass\<close>

lemma repair_from_no_newline: "newline \<notin> set g \<Longrightarrow> repair_from p g = g"
  by (induction g arbitrary: p) auto



lemma repair_from_other:
  "c \<noteq> newline \<Longrightarrow> repair_from p (c # g) = c # repair_from (c = backslash) g"
  by simp
















section \<open>Proofs: the pipeline\<close>

lemma markers_parse:
  "extracted (Some rank_error_marker) =
     JArr [JObj [(map of_char ''error'',
       JStr (map of_char ''Failed to prepare data for research ranking.''))]]"
  "extracted (Some gaps_error_marker) =
     JObj [(map of_char ''error'',
       JStr (map of_char ''Failed to prepare data for research gap analysis.''))]"
  "extracted (Some pros_error_marker) =
     JObj [(map of_char ''error'',
       JStr (map of_char ''Failed to prepare data for pros and cons analysis.''))]"
  by code_simp+

lemma callGemini_eq:
  "callGemini w p c = (gateway_log w p c, snd (callGemini w p c))"
  by (simp add: gateway_log_def)

lemma guarded_Inr:
  "snd call = Inr s \<Longrightarrow> try_catch call h = (fst call, Inr s)"
  by (cases call) simp

lemma guarded_Inl:
  "snd call = Inl e \<Longrightarrow> try_catch call h = (fst call @ fst (h e), snd (h e))"
  by (cases call) simp

lemma guarded_result:
  "snd (try_catch call (\<lambda>error. seq (console l (m error)) (return (VText marker))))
     = Inr (text_or call marker)"
  by (cases "snd call") (simp_all add: guarded_Inr guarded_Inl text_or_def io_defs)

lemma rank_result:
  "snd (rankAndSummarizePapersLLM w t d ps) =
     Inr (text_or (callGemini w (prompt_rankPapers t d (stringify_papers t ps))
                     ''rank and summarize papers'') rank_error_marker)"
  unfolding rankAndSummarizePapersLLM_def by (rule guarded_result)

lemma gaps_result:
  "snd (generateResearchGapAnalysisLLM w t ps d) =
     Inr (text_or (callGemini w (prompt_researchGaps t (abstracts_of ps) d)
                     ''research gap analysis'') gaps_error_marker)"
  unfolding generateResearchGapAnalysisLLM_def by (rule guarded_result)

lemma pros_result:
  "snd (generateProsAndConsLLM w t ps d) =
     Inr (text_or (callGemini w (prompt_prosCons t (abstracts_of ps) d)
                     ''pros and cons'') pros_error_marker)"
  unfolding generateProsAndConsLLM_def by (rule guarded_result)

lemma requests_simps:
  "requests [] = []"
  "requests (Console l m # tr) = requests tr"
  "requests (HttpGet u q # tr) = HttpGet u q # requests tr"
  "requests (HttpPost u p # tr) = HttpPost u p # requests tr"
  by (simp_all add: requests_def)

lemma requests_check_response: "requests (fst (check_response c data)) = []"
  by (auto simp: check_response_def no_candidates_def requests_simps io_defs
      split: option.splits list.splits)

lemma requests_callGemini: "requests (fst (callGemini w p c)) = [HttpPost GEMINI_API p]"
proof (cases "gemini w c p")
  case (Rejected e)
  then show ?thesis by (simp add: callGemini_def requests_simps io_defs)
next
  case (Resolved data)
  obtain tr r where cr: "check_response c data = (tr, r)" by (cases "check_response c data")
  with requests_check_response [of c data] have "requests tr = []" by simp
  with Resolved cr show ?thesis
    by (cases r) (simp_all add: callGemini_def requests_simps requests_append io_defs)
qed

lemma requests_guarded:
  "requests (fst (try_catch call (\<lambda>error. seq (console l (m error)) (return marker))))
     = requests (fst call)"
  by (cases "snd call")
     (simp_all add: guarded_Inr guarded_Inl requests_simps requests_append io_defs)

lemma requests_rank:
  "requests (fst (rankAndSummarizePapersLLM w t d ps)) =
     [HttpPost GEMINI_API (prompt_rankPapers t d (stringify_papers t ps))]"
  unfolding rankAndSummarizePapersLLM_def by (simp only: requests_guarded requests_callGemini)

lemma requests_gaps:
  "requests (fst (generateResearchGapAnalysisLLM w t ps d)) =
     [HttpPost GEMINI_API (prompt_researchGaps t (abstracts_of ps) d)]"
  unfolding generateResearchGapAnalysisLLM_def
  by (simp only: requests_guarded requests_callGemini)

lemma requests_pros:
  "requests (fst (generateProsAndConsLLM w t ps d)) =
     [HttpPost GEMINI_API (prompt_prosCons t (abstracts_of ps) d)]"
  unfolding generateProsAndConsLLM_def by (simp only: requests_guarded requests_callGemini)

lemma requests_stage1:
  "requests (fst (stage1 w t d)) = [HttpPost GEMINI_API (prompt_stepByStep t d)]"
  by (simp add: stage1_def requests_callGemini)

lemma requests_stage4:
  "requests (fst (stage4 w t d)) = [HttpPost GEMINI_API (prompt_methodology t d)]"
  by (simp add: stage4_def requests_callGemini)

lemma fetch_loop_total: "\<exists>rs. snd (fetch_loop ps q) = Inr rs"
  by (induction ps)
     (simp_all add: fetch_loop_Nil fetch_loop_Cons del: fetch_loop.simps split: option.splits)

lemma fetch_eq: "fetchRelatedPapers w q = (fst (fetchRelatedPapers w q), Inr (fetched w q))"
proof -
  obtain rs where "snd (fetchRelatedPapers w q) = Inr rs"
    unfolding fetchRelatedPapers_def using fetch_loop_total by blast
  then show ?thesis by (simp add: fetched_def prod_eq_iff)
qed

lemma assign_None:
  "assign (tr, vs, None) f store =
     (case snd (f vs) of
        Inl e \<Rightarrow> (tr @ fst (f vs), vs, Some e)
      | Inr v \<Rightarrow> (tr @ fst (f vs), store vs v, None))"
  by (cases "f vs") (simp add: assign_def split: sum.splits)

lemma assign_Some: "assign (tr, vs, Some e) f store = (tr, vs, Some e)"
  by (simp add: assign_def)

lemma fetch_result: "snd (fetchRelatedPapers w q) = Inr (fetched w q)"
  using fetch_eq [of w q] by (simp add: prod_eq_iff)

lemma stages_fail1:
  "snd (stage1 w t d) = Inl e \<Longrightarrow> stages w t d = (fst (stage1 w t d), initial_vars, Some e)"
  by (simp add: stages_def assign_None assign_Some)

lemma stages_fail4:
  assumes "snd (stage1 w t d) = Inr s1" "snd (stage4 w t d) = Inl e"
  shows "stages w t d =
     (fst (stage1 w t d) @ fst (fetchRelatedPapers w d)
        @ fst (rankAndSummarizePapersLLM w t d (fetched w d)) @ fst (stage4 w t d),
      initial_vars\<lparr> stepByStepRaw := Some s1, relatedPapers_var := fetched w d,
        rankedPapersRaw := Some (text_or (stage3_call w t d) rank_error_marker) \<rparr>,
      Some e)"
  by (simp add: stages_def assign_None assign_Some assms fetch_result rank_result
      stage3_call_def)

lemma stages_ok:
  assumes "snd (stage1 w t d) = Inr s1" "snd (stage4 w t d) = Inr s4"
  shows "stages w t d =
     (fst (stage1 w t d) @ fst (fetchRelatedPapers w d)
        @ fst (rankAndSummarizePapersLLM w t d (fetched w d)) @ fst (stage4 w t d)
        @ fst (generateResearchGapAnalysisLLM w t (fetched w d) d)
        @ fst (generateProsAndConsLLM w t (fetched w d) d),
      initial_vars\<lparr> stepByStepRaw := Some s1, relatedPapers_var := fetched w d,
        rankedPapersRaw := Some (text_or (stage3_call w t d) rank_error_marker),
        methodologyRaw := Some s4,
        researchGapAnalysisRaw := Some (text_or (stage5_call w t d) gaps_error_marker),
        prosAndConsRaw := Some (text_or (stage6_call w t d) pros_error_marker) \<rparr>,
      None)"
  by (simp add: stages_def assign_None assign_Some assms fetch_result rank_result gaps_result
      pros_result stage3_call_def stage5_call_def stage6_call_def)

lemma extract_untyped_eq:
  "extractAndParseJson_untyped raw ctx =
     (untyped_log raw ctx,
      if truthy_non_string raw then Inl not_a_function else Inr (extracted_raw raw))"
proof (cases raw)
  case None
  then show ?thesis
    by (simp add: prod_eq_iff untyped_log_def extractAndParseJson_untyped_def
        truthy_non_string_def extracted_raw_def extract_value extracted_def)
next
  case (Some v)
  then show ?thesis
    by (cases v)
       (simp_all add: prod_eq_iff untyped_log_def extractAndParseJson_untyped_def
          truthy_non_string_def extracted_raw_def not_a_function_def extract_value
          extracted_def throw_def)
qed

lemma bind_pair_Inr: "bind (tr, Inr v) f = (tr @ fst (f v), snd (f v))"
  by (simp add: bind_def split: prod.splits)

lemma bind_pair_Inl: "bind (tr, Inl e) f = (tr, Inl e)"
  by (simp add: bind_def)

lemma texts_only_iff:
  "texts_only vs \<longleftrightarrow>
     \<not> truthy_non_string (stepByStepRaw vs) \<and> \<not> truthy_non_string (rankedPapersRaw vs)
     \<and> \<not> truthy_non_string (methodologyRaw vs)
     \<and> \<not> truthy_non_string (researchGapAnalysisRaw vs)
     \<and> \<not> truthy_non_string (prosAndConsRaw vs)"
  by (simp add: texts_only_def raws_of_def)

lemma on_error_result:
  "texts_only vs \<Longrightarrow>
     snd (on_error d vs err) = Inr (output_of d vs (Some (interruption_message err)))"
  by (simp add: on_error_def extract_untyped_eq texts_only_iff bind_pair_Inr output_of_def
      interruption_message_def io_defs)

lemma on_error_throws:
  "\<not> texts_only vs \<Longrightarrow> snd (on_error d vs err) = Inl not_a_function"
  by (cases "truthy_non_string (stepByStepRaw vs)"; cases "truthy_non_string (rankedPapersRaw vs)";
      cases "truthy_non_string (methodologyRaw vs)";
      cases "truthy_non_string (researchGapAnalysisRaw vs)";
      cases "truthy_non_string (prosAndConsRaw vs)")
     (simp_all add: on_error_def extract_untyped_eq texts_only_iff bind_pair_Inr bind_pair_Inl
        io_defs)

lemma parse_all_result:
  "texts_only vs \<Longrightarrow>
     snd (parse_all d vs) =
       Inr (output_of d vs (if all_truthy vs then None else Some (parse_failure_message vs)))"
  by (simp add: parse_all_def extract_untyped_eq texts_only_iff bind_pair_Inr output_of_def
      all_truthy_def parse_failure_message_def io_defs)

lemma parse_all_throws:
  "\<not> texts_only vs \<Longrightarrow> snd (parse_all d vs) = Inl not_a_function"
  by (cases "truthy_non_string (stepByStepRaw vs)"; cases "truthy_non_string (rankedPapersRaw vs)";
      cases "truthy_non_string (methodologyRaw vs)";
      cases "truthy_non_string (researchGapAnalysisRaw vs)";
      cases "truthy_non_string (prosAndConsRaw vs)")
     (simp_all add: parse_all_def extract_untyped_eq texts_only_iff bind_pair_Inr bind_pair_Inl
        io_defs)

lemma roadmap_split:
  "snd (generateThesisRoadmap w t d) =
     (case interruption w t d of
        Some err \<Rightarrow> snd (on_error d (final_vars w t d) err)
      | None \<Rightarrow>
          (case snd (parse_all d (final_vars w t d)) of
             Inr out \<Rightarrow> Inr out
           | Inl e \<Rightarrow> snd (on_error d (final_vars w t d) e)))"
proof -
  obtain tr vs exc where st: "stages w t d = (tr, vs, exc)" by (cases "stages w t d")
  show ?thesis
  proof (cases exc)
    case None
    show ?thesis
    proof (cases "snd (parse_all d vs)")
      case (Inl e)
      with st None guarded_Inl [OF Inl, of "on_error d vs"] show ?thesis
        by (simp add: generateThesisRoadmap_def final_vars_def interruption_def)
    next
      case (Inr out)
      with st None guarded_Inr [OF Inr, of "on_error d vs"] show ?thesis
        by (simp add: generateThesisRoadmap_def final_vars_def interruption_def)
    qed
  next
    case (Some err)
    with st show ?thesis
      by (simp add: generateThesisRoadmap_def final_vars_def interruption_def
          split: prod.splits)
  qed
qed

lemma roadmap_result:
  "texts_only (final_vars w t d) \<Longrightarrow>
   snd (generateThesisRoadmap w t d) =
     Inr (output_of d (final_vars w t d)
       (case interruption w t d of
          Some err \<Rightarrow> Some (interruption_message err)
        | None \<Rightarrow>
            if all_truthy (final_vars w t d) then None
            else Some (parse_failure_message (final_vars w t d))))"
  by (simp add: roadmap_split on_error_result parse_all_result split: option.splits)

lemma roadmap_rejects:
  "\<not> texts_only (final_vars w t d) \<Longrightarrow>
     snd (generateThesisRoadmap w t d) = Inl not_a_function"
  by (simp add: roadmap_split on_error_throws parse_all_throws split: option.splits)

lemma interruption_message_nonempty: "interruption_message err \<noteq> []"
  by (simp add: interruption_message_def)

lemma parse_failure_message_nonempty: "parse_failure_message vs \<noteq> []"
  by (simp add: parse_failure_message_def)

lemma all_truthy_not_null:
  "all_truthy vs \<Longrightarrow>
     extracted_raw (stepByStepRaw vs) \<noteq> JNull \<and> extracted_raw (rankedPapersRaw vs) \<noteq> JNull
     \<and> extracted_raw (methodologyRaw vs) \<noteq> JNull
     \<and> extracted_raw (researchGapAnalysisRaw vs) \<noteq> JNull
     \<and> extracted_raw (prosAndConsRaw vs) \<noteq> JNull"
  by (auto simp: all_truthy_def)

lemma callGemini_Inr:
  assumes "snd (callGemini w p c) = Inr v"
  shows "\<exists>d cand cs. gemini w c p = Resolved (Some d) \<and> candidates d = Some (cand # cs)
           \<and> first_text cand = Some v \<and> truthy_value v"
proof (cases "gemini w c p")
  case (Rejected e)
  with assms show ?thesis by (simp add: callGemini_rejected)
next
  case (Resolved data)
  show ?thesis
  proof (cases data)
    case None
    with Resolved assms show ?thesis by (simp add: callGemini_no_data)
  next
    case (Some d)
    with Resolved have D: "gemini w c p = Resolved (Some d)" by simp
    show ?thesis
    proof (cases "truthy_str (Option.bind (promptFeedback_of d) blockReason)")
      case True
      then obtain f r where "promptFeedback_of d = Some f" "blockReason f = Some r" "r \<noteq> []"
        by (cases "promptFeedback_of d") (auto simp: truthy_str_iff)
      with D assms show ?thesis by (simp add: callGemini_blocked)
    next
      case False
      note B = False
      show ?thesis
      proof (cases "candidates d")
        case None
        with D B assms show ?thesis by (simp add: callGemini_no_candidates)
      next
        case (Some cands)
        note C = Some
        show ?thesis
        proof (cases cands)
          case Nil
          with D B C assms show ?thesis by (simp add: callGemini_no_candidates)
        next
          case (Cons cand cs)
          show ?thesis
          proof (cases "truthy_opt (first_text cand)")
            case True
            then obtain u where u: "first_text cand = Some u" "truthy_value u"
              by (auto simp: truthy_opt_iff)
            with D B C Cons have "snd (callGemini w p c) = Inr u"
              by (simp add: callGemini_text)
            with assms have "u = v" by simp
            with D C Cons u show ?thesis by blast
          next
            case False
            with D B C Cons assms show ?thesis by (simp add: callGemini_missing_text)
          qed
        qed
      qed
    qed
  qed
qed

lemma callGemini_string:
  assumes "string_texts w" "snd (callGemini w p c) = Inr v"
  shows "\<not> truthy_non_string (Some v)"
proof -
  from callGemini_Inr [OF assms(2)] obtain d cand cs where
    "gemini w c p = Resolved (Some d)" "candidates d = Some (cand # cs)"
    "first_text cand = Some v"
    by blast
  with assms(1) show ?thesis unfolding string_texts_def by metis
qed

lemma text_or_string:
  "string_texts w \<Longrightarrow> \<not> truthy_non_string (Some (text_or (callGemini w p c) marker))"
proof (cases "snd (callGemini w p c)")
  case (Inl e)
  then show ?thesis by (simp add: text_or_def truthy_non_string_def)
next
  case (Inr v)
  assume "string_texts w"
  from callGemini_string [OF this Inr] Inr show ?thesis by (simp add: text_or_def)
qed

lemma string_texts_final:
  assumes "string_texts w"
  shows "texts_only (final_vars w t d)"
proof (cases "snd (stage1 w t d)")
  case (Inl e)
  from stages_fail1 [OF Inl] show ?thesis
    by (simp add: final_vars_def texts_only_iff initial_vars_def truthy_non_string_def)
next
  case (Inr s1)
  then have s1: "\<not> truthy_non_string (Some s1)"
    using callGemini_string [OF assms] by (simp add: stage1_def)
  note t3 = text_or_string [OF assms]
  show ?thesis
  proof (cases "snd (stage4 w t d)")
    case (Inl e)
    from stages_fail4 [OF Inr Inl] s1 t3 show ?thesis
      by (simp add: final_vars_def texts_only_iff initial_vars_def stage3_call_def
          truthy_non_string_def [of None])
  next
    case s4: (Inr s4)
    then have "\<not> truthy_non_string (Some s4)"
      using callGemini_string [OF assms] by (simp add: stage4_def)
    with stages_ok [OF Inr s4] s1 t3 show ?thesis
      by (simp add: final_vars_def texts_only_iff initial_vars_def stage3_call_def
          stage5_call_def stage6_call_def)
  qed
qed

lemma gemini_stage_answers:
  "gemini (stage_answers table) c p =
     (case map_of table c of
        Some v \<Rightarrow> Resolved (Some (answer ''STOP'' v))
      | None \<Rightarrow> Rejected (AxiosError ''Network Error'' None))"
  by (simp add: stage_answers_def gemini_answers_def)

lemma answer_text:
  assumes "gemini w c p = Resolved (Some (answer reason v))" "truthy_value v"
  shows "snd (callGemini w p c) = Inr v"
proof -
  have "\<not> truthy_str (Option.bind (promptFeedback_of (answer reason v)) blockReason)"
    by (simp add: answer_def truthy_str_def)
  moreover have "candidates (answer reason v) = Some (text_candidate reason v # [])"
    by (simp add: answer_def)
  moreover have "first_text (text_candidate reason v) = Some v"
    by (simp add: text_candidate_def first_text_def)
  ultimately show ?thesis
    using assms by (simp add: callGemini_text)
qed

lemma stage_answers_text:
  assumes "map_of table c = Some v" "truthy_value v"
  shows "snd (callGemini (stage_answers table) p c) = Inr v"
  by (rule answer_text [where reason = "''STOP''"])
     (simp_all add: gemini_stage_answers assms)

lemma stage_answers_fail:
  "map_of table c = None \<Longrightarrow>
     snd (callGemini (stage_answers table) p c) = Inl (gateway_error c)"
  by (simp add: gemini_stage_answers callGemini_rejected)

lemma fetched_stage_answers: "fetched (stage_answers table) d = []"
  by (simp add: fetched_def fetchRelatedPapers_def providers_def ss_provider_def
      oa_provider_def core_provider_def try_provider_def fetchFromSemanticScholar_def
      fetchFromOpenAlex_def fetchFromCORE_def CORE_API_KEY_def or_str_def truthy_str_def
      on_provider_error_def stage_answers_def gemini_answers_def offline_def io_defs)

lemma first_raw_kept:
  assumes "snd (stage1 w t d) = Inr v"
  shows "stepByStepRaw (final_vars w t d) = Some v"
proof (cases "snd (stage4 w t d)")
  case (Inl e)
  from stages_fail4 [OF assms Inl] show ?thesis
    by (simp add: final_vars_def initial_vars_def)
next
  case (Inr s4)
  from stages_ok [OF assms Inr] show ?thesis
    by (simp add: final_vars_def initial_vars_def)
qed

lemma first_raw_breaks:
  assumes "snd (stage1 w t d) = Inr v" "truthy_non_string (Some v)"
  shows "snd (generateThesisRoadmap w t d) = Inl not_a_function"
  using first_raw_kept [OF assms(1)] assms(2)
  by (intro roadmap_rejects) (simp add: texts_only_iff)

text \<open>
  Claim C1. \<open>generateThesisRoadmap\<close> resolves exactly when none of the five raw values
  the stages assigned is a truthy value that is not a string, and so for every topic
  and every prompt template in every world whose generative text service answers with
  strings for texts, whatever else the external calls do. It then returns a result
  object that carries the topic, whose five content fields are what the extractor makes
  of the five raw texts (a parsed value, or \<open>null\<close>), and whose \<open>error\<close> is a non-empty
  string whenever one of the fields is \<open>null\<close> or an exception interrupted the stages.
  When one of the raw values is a truthy value that is not a string, the call rejects
  with the \<open>TypeError\<close> of the extractor.
\<close>

theorem generateThesisRoadmap_resolves_on_texts:
  "(texts_only (final_vars w t d) \<longrightarrow>
      (\<exists>tr out. generateThesisRoadmap w t d = (tr, Inr out)
         \<and> thesisDescription_of out = d
         \<and> stepByStep out = extracted_raw (stepByStepRaw (final_vars w t d))
         \<and> relatedPapers out = extracted_raw (rankedPapersRaw (final_vars w t d))
         \<and> methodology out = extracted_raw (methodologyRaw (final_vars w t d))
         \<and> researchGapAnalysis out = extracted_raw (researchGapAnalysisRaw (final_vars w t d))
         \<and> prosAndCons out = extracted_raw (prosAndConsRaw (final_vars w t d))
         \<and> ((stepByStep out = JNull \<or> relatedPapers out = JNull \<or> methodology out = JNull
              \<or> researchGapAnalysis out = JNull \<or> prosAndCons out = JNull
              \<or> interruption w t d \<noteq> None) \<longrightarrow>
             (\<exists>m. error out = Some m \<and> m \<noteq> []))))
   \<and> (\<not> texts_only (final_vars w t d) \<longrightarrow>
        snd (generateThesisRoadmap w t d) = Inl not_a_function)
   \<and> (string_texts w \<longrightarrow> texts_only (final_vars w t d))"
proof (intro conjI impI)
  assume tx: "texts_only (final_vars w t d)"
  let ?vs = "final_vars w t d"
  define err where "err =
    (case interruption w t d of
       Some e \<Rightarrow> Some (interruption_message e)
     | None \<Rightarrow> if all_truthy ?vs then None else Some (parse_failure_message ?vs))"
  define out where "out = output_of d ?vs err"
  have "snd (generateThesisRoadmap w t d) = Inr out"
    unfolding out_def err_def using tx by (rule roadmap_result)
  then have r: "generateThesisRoadmap w t d = (fst (generateThesisRoadmap w t d), Inr out)"
    by (simp add: prod_eq_iff)
  have e: "\<exists>m. error out = Some m \<and> m \<noteq> []"
    if "stepByStep out = JNull \<or> relatedPapers out = JNull \<or> methodology out = JNull
          \<or> researchGapAnalysis out = JNull \<or> prosAndCons out = JNull
          \<or> interruption w t d \<noteq> None"
  proof (cases "interruption w t d")
    case (Some e)
    then show ?thesis
      by (simp add: out_def err_def output_of_def interruption_message_nonempty)
  next
    case None
    with that have "\<not> all_truthy ?vs"
      using all_truthy_not_null [of ?vs] by (auto simp: out_def output_of_def)
    with None show ?thesis
      by (simp add: out_def err_def output_of_def parse_failure_message_nonempty)
  qed
  have f: "thesisDescription_of out = d
     \<and> stepByStep out = extracted_raw (stepByStepRaw (final_vars w t d))
     \<and> relatedPapers out = extracted_raw (rankedPapersRaw (final_vars w t d))
     \<and> methodology out = extracted_raw (methodologyRaw (final_vars w t d))
     \<and> researchGapAnalysis out = extracted_raw (researchGapAnalysisRaw (final_vars w t d))
     \<and> prosAndCons out = extracted_raw (prosAndConsRaw (final_vars w t d))"
    by (simp add: out_def output_of_def)
  from r e f show "\<exists>tr out. generateThesisRoadmap w t d = (tr, Inr out)
         \<and> thesisDescription_of out = d
         \<and> stepByStep out = extracted_raw (stepByStepRaw (final_vars w t d))
         \<and> relatedPapers out = extracted_raw (rankedPapersRaw (final_vars w t d))
         \<and> methodology out = extracted_raw (methodologyRaw (final_vars w t d))
         \<and> researchGapAnalysis out = extracted_raw (researchGapAnalysisRaw (final_vars w t d))
         \<and> prosAndCons out = extracted_raw (prosAndConsRaw (final_vars w t d))
         \<and> ((stepByStep out = JNull \<or> relatedPapers out = JNull \<or> methodology out = JNull
              \<or> researchGapAnalysis out = JNull \<or> prosAndCons out = JNull
              \<or> interruption w t d \<noteq> None) \<longrightarrow>
             (\<exists>m. error out = Some m \<and> m \<noteq> []))"
    by blast
next
  assume "\<not> texts_only (final_vars w t d)"
  then show "snd (generateThesisRoadmap w t d) = Inl not_a_function"
    by (rule roadmap_rejects)
next
  assume "string_texts w"
  then show "texts_only (final_vars w t d)" by (rule string_texts_final)
qed

text \<open>
  Two runs without reachable paper providers in which stages 1 and 4 are answered. With
  two strings the call resolves and the fields hold the parsed texts; with an array as
  the text of stage 4 it rejects.
\<close>

theorem generateThesisRoadmap_resolves_on_texts_witness:
  "string_texts
     (stage_answers [(''step-by-step guide'', VText ''[1]''), (''methodology'', VText ''[2]'')])
   \<and> (\<exists>tr out.
         generateThesisRoadmap
           (stage_answers [(''step-by-step guide'', VText ''[1]''), (''methodology'', VText ''[2]'')])
           example_templates ''remote work'' = (tr, Inr out)
         \<and> thesisDescription_of out = ''remote work''
         \<and> stepByStep out = JArr [JNum 1]
         \<and> methodology out = JArr [JNum 2])
   \<and> \<not> texts_only
         (final_vars
            (stage_answers [(''step-by-step guide'', VText ''[1]''), (''methodology'', VArr [])])
            example_templates ''remote work'')
   \<and> snd (generateThesisRoadmap
            (stage_answers [(''step-by-step guide'', VText ''[1]''), (''methodology'', VArr [])])
            example_templates ''remote work'')
       = Inl (TypeError ''rawString.replace is not a function'')"
proof -
  let ?t = example_templates and ?d = "''remote work''"
  let ?a = "stage_answers [(''step-by-step guide'', VText ''[1]''), (''methodology'', VText ''[2]'')]"
  let ?b = "stage_answers [(''step-by-step guide'', VText ''[1]''), (''methodology'', VArr [])]"
  have sa: "string_texts ?a"
    unfolding string_texts_def
    by (auto simp: gemini_stage_answers answer_def text_candidate_def first_text_def
        truthy_non_string_def split: if_splits)
  have a: "snd (stage1 ?a ?t ?d) = Inr (VText ''[1]'')" "snd (stage4 ?a ?t ?d) = Inr (VText ''[2]'')"
    by (simp_all add: stage1_def stage4_def stage_answers_text)
  from stages_ok [OF a] have va: "stepByStepRaw (final_vars ?a ?t ?d) = Some (VText ''[1]'')"
    "methodologyRaw (final_vars ?a ?t ?d) = Some (VText ''[2]'')"
    by (simp_all add: final_vars_def initial_vars_def)
  have p: "extracted (Some ''[1]'') = JArr [JNum 1]" "extracted (Some ''[2]'') = JArr [JNum 2]"
    by code_simp+
  note ta = generateThesisRoadmap_resolves_on_texts [of ?a ?t ?d]
  from ta [THEN conjunct2, THEN conjunct2] sa have "texts_only (final_vars ?a ?t ?d)"
    by (rule mp)
  with ta [THEN conjunct1] obtain tr out where o:
    "generateThesisRoadmap ?a ?t ?d = (tr, Inr out)" "thesisDescription_of out = ?d"
    "stepByStep out = extracted_raw (stepByStepRaw (final_vars ?a ?t ?d))"
    "methodology out = extracted_raw (methodologyRaw (final_vars ?a ?t ?d))"
    by blast
  from o(3,4) have "stepByStep out = JArr [JNum 1]" "methodology out = JArr [JNum 2]"
    by (simp_all add: va extracted_raw_def p)
  with o(1,2) have 1: "\<exists>tr out. generateThesisRoadmap ?a ?t ?d = (tr, Inr out)
         \<and> thesisDescription_of out = ''remote work''
         \<and> stepByStep out = JArr [JNum 1] \<and> methodology out = JArr [JNum 2]"
    by blast
  have b: "snd (stage1 ?b ?t ?d) = Inr (VText ''[1]'')" "snd (stage4 ?b ?t ?d) = Inr (VArr [])"
    by (simp_all add: stage1_def stage4_def stage_answers_text)
  from stages_ok [OF b] have "methodologyRaw (final_vars ?b ?t ?d) = Some (VArr [])"
    by (simp add: final_vars_def initial_vars_def)
  then have nb: "\<not> texts_only (final_vars ?b ?t ?d)"
    by (simp add: texts_only_iff truthy_non_string_def)
  note tb = generateThesisRoadmap_resolves_on_texts [of ?b ?t ?d]
  from tb [THEN conjunct2, THEN conjunct1] nb
  have "snd (generateThesisRoadmap ?b ?t ?d) = Inl not_a_function"
    by (rule mp)
  with sa 1 nb show ?thesis by (simp add: not_a_function_def)
qed

text \<open>
  A service that answers stage 1 with the number 42 as its text and stage 4 with a
  string: the number passes the check of the gateway, no stage fails, the extractor
  throws on the number inside the \<open>try\<close> block and again inside the handler, and the
  call rejects.
\<close>

theorem generateThesisRoadmap_rejects_counterexample:
  "interruption
     (stage_answers [(''step-by-step guide'', VNum 42), (''methodology'', VText ''[2]'')])
     example_templates ''remote work'' = None
   \<and> snd (generateThesisRoadmap
          (stage_answers [(''step-by-step guide'', VNum 42), (''methodology'', VText ''[2]'')])
          example_templates ''remote work'')
     = Inl (TypeError ''rawString.replace is not a function'')"
proof -
  let ?w = "stage_answers [(''step-by-step guide'', VNum 42), (''methodology'', VText ''[2]'')]"
  have s: "snd (stage1 ?w example_templates ''remote work'') = Inr (VNum 42)"
    "snd (stage4 ?w example_templates ''remote work'') = Inr (VText ''[2]'')"
    by (simp_all add: stage1_def stage4_def stage_answers_text)
  from stages_ok [OF s] have "interruption ?w example_templates ''remote work'' = None"
    by (simp add: interruption_def)
  moreover from s(1) have "snd (generateThesisRoadmap ?w example_templates ''remote work'')
      = Inl not_a_function"
    by (rule first_raw_breaks) (simp add: truthy_non_string_def)
  ultimately show ?thesis by (simp add: not_a_function_def)
qed

section \<open>Proofs: guarded and unguarded stages\<close>

lemma text_or_Inl: "snd call = Inl e \<Longrightarrow> text_or call marker = VText marker"
  by (simp add: text_or_def)

lemma markers_truthy:
  "truthy (extracted_raw (Some (VText rank_error_marker)))
   \<and> extracted_raw (Some (VText rank_error_marker)) \<noteq> JNull
   \<and> truthy (extracted_raw (Some (VText gaps_error_marker)))
   \<and> extracted_raw (Some (VText gaps_error_marker)) \<noteq> JNull
   \<and> truthy (extracted_raw (Some (VText pros_error_marker)))
   \<and> extracted_raw (Some (VText pros_error_marker)) \<noteq> JNull"
  by (simp add: extracted_raw_def markers_parse)

lemma interrupted_result:
  "stages w t d = (tr, vs, Some e) \<Longrightarrow> texts_only vs \<Longrightarrow>
     snd (generateThesisRoadmap w t d) = Inr (output_of d vs (Some (interruption_message e)))"
  using roadmap_result [of w t d] by (simp add: final_vars_def interruption_def)

lemma interrupted_rejects:
  "stages w t d = (tr, vs, Some e) \<Longrightarrow> \<not> texts_only vs \<Longrightarrow>
     snd (generateThesisRoadmap w t d) = Inl not_a_function"
  using roadmap_rejects [of w t d] by (simp add: final_vars_def)

lemma texts_only_initial: "texts_only initial_vars"
  by (simp add: texts_only_iff initial_vars_def truthy_non_string_def)

text \<open>
  Claim C2. Stages 3, 5 and 6 never throw: each returns the text of its gateway call, or,
  when that call failed, its error marker, a string which the extractor parses to a
  value that is not \<open>null\<close>. So when stages 1 and 4 succeed, all six stages run,
  whatever happens in stages 3, 5 and 6. A failure of the gateway call of stage 1 stops
  the run there: the events of the run are those of stage 1 alone, its request is the
  only one, no variable is assigned, and the handler returns the result with five \<open>null\<close>
  fields and a non-empty error. A failure of the gateway call of stage 4 stops the run
  after the events of stages 1 to 4 (no request follows that of stage 4), with the raw
  values of stages 1 and 3 assigned; the handler then returns the result built from
  these two values, with a non-empty error, unless one of them is a truthy value that
  is not a string, in which case the handler throws and the call rejects.
\<close>

theorem guarded_and_unguarded_stages:
  "snd (rankAndSummarizePapersLLM w t d ps) =
     Inr (text_or (callGemini w (prompt_rankPapers t d (stringify_papers t ps))
                     ''rank and summarize papers'') rank_error_marker)
   \<and> snd (generateResearchGapAnalysisLLM w t ps d) =
     Inr (text_or (callGemini w (prompt_researchGaps t (abstracts_of ps) d)
                     ''research gap analysis'') gaps_error_marker)
   \<and> snd (generateProsAndConsLLM w t ps d) =
     Inr (text_or (callGemini w (prompt_prosCons t (abstracts_of ps) d)
                     ''pros and cons'') pros_error_marker)
   \<and> (snd call = Inl e \<longrightarrow> text_or call marker = VText marker)
   \<and> truthy (extracted_raw (Some (VText rank_error_marker)))
   \<and> extracted_raw (Some (VText rank_error_marker)) \<noteq> JNull
   \<and> truthy (extracted_raw (Some (VText gaps_error_marker)))
   \<and> extracted_raw (Some (VText gaps_error_marker)) \<noteq> JNull
   \<and> truthy (extracted_raw (Some (VText pros_error_marker)))
   \<and> extracted_raw (Some (VText pros_error_marker)) \<noteq> JNull
   \<and> (snd (stage1 w t d) = Inr s1 \<and> snd (stage4 w t d) = Inr s4 \<longrightarrow>
        stages w t d =
          (fst (stage1 w t d) @ fst (fetchRelatedPapers w d)
             @ fst (rankAndSummarizePapersLLM w t d (fetched w d)) @ fst (stage4 w t d)
             @ fst (generateResearchGapAnalysisLLM w t (fetched w d) d)
             @ fst (generateProsAndConsLLM w t (fetched w d) d),
           initial_vars\<lparr> stepByStepRaw := Some s1, relatedPapers_var := fetched w d,
             rankedPapersRaw := Some (text_or (stage3_call w t d) rank_error_marker),
             methodologyRaw := Some s4,
             researchGapAnalysisRaw := Some (text_or (stage5_call w t d) gaps_error_marker),
             prosAndConsRaw := Some (text_or (stage6_call w t d) pros_error_marker) \<rparr>,
           None))
   \<and> (snd (stage1 w t d) = Inl e1 \<longrightarrow>
        stages w t d = (fst (stage1 w t d), initial_vars, Some e1)
        \<and> requests (fst (stages w t d)) = [HttpPost GEMINI_API (prompt_stepByStep t d)]
        \<and> snd (generateThesisRoadmap w t d) =
            Inr (output_of d initial_vars (Some (interruption_message e1)))
        \<and> interruption_message e1 \<noteq> [])
   \<and> (snd (stage1 w t d) = Inr s1 \<and> snd (stage4 w t d) = Inl e4 \<longrightarrow>
        stages w t d =
          (fst (stage1 w t d) @ fst (fetchRelatedPapers w d)
             @ fst (rankAndSummarizePapersLLM w t d (fetched w d)) @ fst (stage4 w t d),
           initial_vars\<lparr> stepByStepRaw := Some s1, relatedPapers_var := fetched w d,
             rankedPapersRaw := Some (text_or (stage3_call w t d) rank_error_marker) \<rparr>,
           Some e4)
        \<and> requests (fst (stages w t d)) =
            HttpPost GEMINI_API (prompt_stepByStep t d) # requests (fst (fetchRelatedPapers w d))
              @ [HttpPost GEMINI_API (prompt_rankPapers t d (stringify_papers t (fetched w d))),
                 HttpPost GEMINI_API (prompt_methodology t d)]
        \<and> (\<not> truthy_non_string (Some s1)
             \<and> \<not> truthy_non_string (Some (text_or (stage3_call w t d) rank_error_marker)) \<longrightarrow>
            snd (generateThesisRoadmap w t d) =
              Inr (output_of d
                     (initial_vars\<lparr> stepByStepRaw := Some s1, relatedPapers_var := fetched w d,
                        rankedPapersRaw := Some (text_or (stage3_call w t d) rank_error_marker) \<rparr>)
                     (Some (interruption_message e4))))
        \<and> (truthy_non_string (Some s1)
             \<or> truthy_non_string (Some (text_or (stage3_call w t d) rank_error_marker)) \<longrightarrow>
            snd (generateThesisRoadmap w t d) = Inl not_a_function)
        \<and> interruption_message e4 \<noteq> [])"
proof -
  have ok: "stages w t d =
          (fst (stage1 w t d) @ fst (fetchRelatedPapers w d)
             @ fst (rankAndSummarizePapersLLM w t d (fetched w d)) @ fst (stage4 w t d)
             @ fst (generateResearchGapAnalysisLLM w t (fetched w d) d)
             @ fst (generateProsAndConsLLM w t (fetched w d) d),
           initial_vars\<lparr> stepByStepRaw := Some s1, relatedPapers_var := fetched w d,
             rankedPapersRaw := Some (text_or (stage3_call w t d) rank_error_marker),
             methodologyRaw := Some s4,
             researchGapAnalysisRaw := Some (text_or (stage5_call w t d) gaps_error_marker),
             prosAndConsRaw := Some (text_or (stage6_call w t d) pros_error_marker) \<rparr>,
           None)"
    if "snd (stage1 w t d) = Inr s1 \<and> snd (stage4 w t d) = Inr s4"
    using that by (intro stages_ok) simp_all
  have f1: "stages w t d = (fst (stage1 w t d), initial_vars, Some e1)
        \<and> requests (fst (stages w t d)) = [HttpPost GEMINI_API (prompt_stepByStep t d)]
        \<and> snd (generateThesisRoadmap w t d) =
            Inr (output_of d initial_vars (Some (interruption_message e1)))
        \<and> interruption_message e1 \<noteq> []"
    if "snd (stage1 w t d) = Inl e1"
  proof -
    note st = stages_fail1 [OF that]
    from st interrupted_result [OF st texts_only_initial] show ?thesis
      by (simp add: interruption_message_nonempty requests_stage1)
  qed
  let ?vs = "initial_vars\<lparr> stepByStepRaw := Some s1, relatedPapers_var := fetched w d,
             rankedPapersRaw := Some (text_or (stage3_call w t d) rank_error_marker) \<rparr>"
  have tx: "texts_only ?vs \<longleftrightarrow>
      \<not> truthy_non_string (Some s1)
      \<and> \<not> truthy_non_string (Some (text_or (stage3_call w t d) rank_error_marker))"
    by (simp add: texts_only_iff initial_vars_def truthy_non_string_def [of None])
  have f4: "stages w t d =
          (fst (stage1 w t d) @ fst (fetchRelatedPapers w d)
             @ fst (rankAndSummarizePapersLLM w t d (fetched w d)) @ fst (stage4 w t d),
           ?vs, Some e4)
        \<and> requests (fst (stages w t d)) =
            HttpPost GEMINI_API (prompt_stepByStep t d) # requests (fst (fetchRelatedPapers w d))
              @ [HttpPost GEMINI_API (prompt_rankPapers t d (stringify_papers t (fetched w d))),
                 HttpPost GEMINI_API (prompt_methodology t d)]
        \<and> (\<not> truthy_non_string (Some s1)
             \<and> \<not> truthy_non_string (Some (text_or (stage3_call w t d) rank_error_marker)) \<longrightarrow>
            snd (generateThesisRoadmap w t d) =
              Inr (output_of d ?vs (Some (interruption_message e4))))
        \<and> (truthy_non_string (Some s1)
             \<or> truthy_non_string (Some (text_or (stage3_call w t d) rank_error_marker)) \<longrightarrow>
            snd (generateThesisRoadmap w t d) = Inl not_a_function)
        \<and> interruption_message e4 \<noteq> []"
    if "snd (stage1 w t d) = Inr s1 \<and> snd (stage4 w t d) = Inl e4"
  proof -
    from that have "snd (stage1 w t d) = Inr s1" "snd (stage4 w t d) = Inl e4" by simp_all
    note st = stages_fail4 [OF this]
    have a: "snd (generateThesisRoadmap w t d) =
        Inr (output_of d ?vs (Some (interruption_message e4)))"
      if "\<not> truthy_non_string (Some s1)
          \<and> \<not> truthy_non_string (Some (text_or (stage3_call w t d) rank_error_marker))"
      using that tx by (intro interrupted_result [OF st]) simp
    have b: "snd (generateThesisRoadmap w t d) = Inl not_a_function"
      if "truthy_non_string (Some s1)
          \<or> truthy_non_string (Some (text_or (stage3_call w t d) rank_error_marker))"
      using that tx by (intro interrupted_rejects [OF st]) blast
    have r: "requests (fst (stages w t d)) =
        HttpPost GEMINI_API (prompt_stepByStep t d) # requests (fst (fetchRelatedPapers w d))
          @ [HttpPost GEMINI_API (prompt_rankPapers t d (stringify_papers t (fetched w d))),
             HttpPost GEMINI_API (prompt_methodology t d)]"
      by (simp add: st requests_append requests_stage1 requests_stage4 requests_rank)
    from st a b r show ?thesis
      using interruption_message_nonempty [of e4] by blast
  qed
  note m = markers_truthy
  show ?thesis
    by (intro conjI)
       (rule rank_result gaps_result pros_result impI [OF text_or_Inl] impI [OF ok]
          impI [OF f1] impI [OF f4] m [THEN conjunct1] m [THEN conjunct2, THEN conjunct1]
          m [THEN conjunct2, THEN conjunct2, THEN conjunct1]
          m [THEN conjunct2, THEN conjunct2, THEN conjunct2, THEN conjunct1]
          m [THEN conjunct2, THEN conjunct2, THEN conjunct2, THEN conjunct2, THEN conjunct1]
          m [THEN conjunct2, THEN conjunct2, THEN conjunct2, THEN conjunct2, THEN conjunct2]
        | assumption)+
qed

text \<open>
  Four runs without reachable paper providers. When only stages 1 and 4 are answered,
  the run completes and stages 3, 5 and 6 hand on their markers. When nothing is
  answered, the run stops at stage 1 after one request and the result has five \<open>null\<close>
  fields. When only stage 1 is answered, the run stops at stage 4 and the result holds
  the parsed text of stage 1 and the parsed marker of stage 3. When only stage 1 is
  answered and its text is \<open>true\<close>, the run stops at stage 4 and the call rejects.
\<close>

theorem guarded_and_unguarded_stages_witness:
  "interruption
       (stage_answers [(''step-by-step guide'', VText ''[1]''), (''methodology'', VText ''[2]'')])
       example_templates ''remote work'' = None
   \<and> final_vars
       (stage_answers [(''step-by-step guide'', VText ''[1]''), (''methodology'', VText ''[2]'')])
       example_templates ''remote work''
     = \<lparr> stepByStepRaw = Some (VText ''[1]''), rankedPapersRaw = Some (VText rank_error_marker),
         methodologyRaw = Some (VText ''[2]''),
         researchGapAnalysisRaw = Some (VText gaps_error_marker),
         prosAndConsRaw = Some (VText pros_error_marker), relatedPapers_var = [] \<rparr>
   \<and> interruption (stage_answers []) example_templates ''remote work''
     = Some (gateway_error ''step-by-step guide'')
   \<and> final_vars (stage_answers []) example_templates ''remote work'' = initial_vars
   \<and> requests (fst (stages (stage_answers []) example_templates ''remote work''))
     = [HttpPost GEMINI_API ''steps for remote work'']
   \<and> snd (generateThesisRoadmap (stage_answers []) example_templates ''remote work'')
     = Inr \<lparr> thesisDescription_of = ''remote work'', stepByStep = JNull,
             relatedPapers = JNull, methodology = JNull, researchGapAnalysis = JNull,
             prosAndCons = JNull,
             error = Some (''Failed to generate thesis roadmap: ''
               @ ''Failed to get response from AI for step-by-step guide.'') \<rparr>
   \<and> interruption (stage_answers [(''step-by-step guide'', VText ''[1]'')])
       example_templates ''remote work'' = Some (gateway_error ''methodology'')
   \<and> final_vars (stage_answers [(''step-by-step guide'', VText ''[1]'')])
       example_templates ''remote work''
     = \<lparr> stepByStepRaw = Some (VText ''[1]''), rankedPapersRaw = Some (VText rank_error_marker),
         methodologyRaw = None, researchGapAnalysisRaw = None,
         prosAndConsRaw = None, relatedPapers_var = [] \<rparr>
   \<and> snd (generateThesisRoadmap (stage_answers [(''step-by-step guide'', VText ''[1]'')])
          example_templates ''remote work'')
     = Inr \<lparr> thesisDescription_of = ''remote work'', stepByStep = JArr [JNum 1],
             relatedPapers = JArr [JObj [(map of_char ''error'',
               JStr (map of_char ''Failed to prepare data for research ranking.''))]],
             methodology = JNull, researchGapAnalysis = JNull, prosAndCons = JNull,
             error = Some (''Failed to generate thesis roadmap: ''
               @ ''Failed to get response from AI for methodology.'') \<rparr>
   \<and> snd (generateThesisRoadmap (stage_answers [(''step-by-step guide'', VBool True)])
          example_templates ''remote work'')
     = Inl (TypeError ''rawString.replace is not a function'')"
proof -
  let ?t = example_templates and ?d = "''remote work''"
  let ?a = "stage_answers [(''step-by-step guide'', VText ''[1]''), (''methodology'', VText ''[2]'')]"
  let ?b = "stage_answers []"
  let ?c = "stage_answers [(''step-by-step guide'', VText ''[1]'')]"
  let ?e = "stage_answers [(''step-by-step guide'', VBool True)]"
  note fetched = fetched_stage_answers
  have a: "snd (stage1 ?a ?t ?d) = Inr (VText ''[1]'')
      \<and> snd (stage4 ?a ?t ?d) = Inr (VText ''[2]'')"
    by (simp add: stage1_def stage4_def stage_answers_text)
  have a3: "text_or (stage3_call ?a ?t ?d) rank_error_marker = VText rank_error_marker"
    "text_or (stage5_call ?a ?t ?d) gaps_error_marker = VText gaps_error_marker"
    "text_or (stage6_call ?a ?t ?d) pros_error_marker = VText pros_error_marker"
    by (simp_all add: stage3_call_def stage5_call_def stage6_call_def stage_answers_fail
        text_or_def)
  have b: "snd (stage1 ?b ?t ?d) = Inl (gateway_error ''step-by-step guide'')"
    by (simp add: stage1_def stage_answers_fail)
  have c: "snd (stage1 ?c ?t ?d) = Inr (VText ''[1]'')
      \<and> snd (stage4 ?c ?t ?d) = Inl (gateway_error ''methodology'')"
    by (simp add: stage1_def stage4_def stage_answers_text stage_answers_fail)
  have c3: "text_or (stage3_call ?c ?t ?d) rank_error_marker = VText rank_error_marker"
    by (simp add: stage3_call_def stage_answers_fail text_or_def)
  have e: "snd (stage1 ?e ?t ?d) = Inr (VBool True)
      \<and> snd (stage4 ?e ?t ?d) = Inl (gateway_error ''methodology'')"
    by (simp add: stage1_def stage4_def stage_answers_text stage_answers_fail)
  have p1: "extracted (Some ''[1]'') = JArr [JNum 1]" by code_simp
  note ta = guarded_and_unguarded_stages [where w = ?a and t = ?t and d = ?d
      and ?s1.0 = "VText ''[1]''" and ?s4.0 = "VText ''[2]''"]
  note tb = guarded_and_unguarded_stages [where w = ?b and t = ?t and d = ?d
      and ?e1.0 = "gateway_error ''step-by-step guide''"]
  note tc = guarded_and_unguarded_stages [where w = ?c and t = ?t and d = ?d
      and ?s1.0 = "VText ''[1]''" and ?e4.0 = "gateway_error ''methodology''"]
  note te = guarded_and_unguarded_stages [where w = ?e and t = ?t and d = ?d
      and ?s1.0 = "VBool True" and ?e4.0 = "gateway_error ''methodology''"]
  note ta' = ta [THEN conjunct2, THEN conjunct2, THEN conjunct2, THEN conjunct2, THEN conjunct2,
      THEN conjunct2, THEN conjunct2, THEN conjunct2, THEN conjunct2, THEN conjunct2,
      THEN conjunct1]
  note tb' = tb [THEN conjunct2, THEN conjunct2, THEN conjunct2, THEN conjunct2, THEN conjunct2,
      THEN conjunct2, THEN conjunct2, THEN conjunct2, THEN conjunct2, THEN conjunct2,
      THEN conjunct2, THEN conjunct1]
  note tc' = tc [THEN conjunct2, THEN conjunct2, THEN conjunct2, THEN conjunct2, THEN conjunct2,
      THEN conjunct2, THEN conjunct2, THEN conjunct2, THEN conjunct2, THEN conjunct2,
      THEN conjunct2, THEN conjunct2]
  note te' = te [THEN conjunct2, THEN conjunct2, THEN conjunct2, THEN conjunct2, THEN conjunct2,
      THEN conjunct2, THEN conjunct2, THEN conjunct2, THEN conjunct2, THEN conjunct2,
      THEN conjunct2, THEN conjunct2]
  note ra = mp [OF ta' a]
  have 1: "interruption ?a ?t ?d = None
      \<and> final_vars ?a ?t ?d =
          \<lparr> stepByStepRaw = Some (VText ''[1]''), rankedPapersRaw = Some (VText rank_error_marker),
            methodologyRaw = Some (VText ''[2]''),
            researchGapAnalysisRaw = Some (VText gaps_error_marker),
            prosAndConsRaw = Some (VText pros_error_marker), relatedPapers_var = [] \<rparr>"
    unfolding interruption_def final_vars_def ra
    by (simp add: a3 fetched initial_vars_def)
  note rb = mp [OF tb' b]
  have 2: "interruption ?b ?t ?d = Some (gateway_error ''step-by-step guide'')
      \<and> final_vars ?b ?t ?d = initial_vars"
    unfolding interruption_def final_vars_def rb [THEN conjunct1] by simp
  have 3: "requests (fst (stages ?b ?t ?d)) = [HttpPost GEMINI_API ''steps for remote work'']"
    using rb [THEN conjunct2, THEN conjunct1] by (simp add: example_templates_def)
  have 4: "snd (generateThesisRoadmap ?b ?t ?d)
     = Inr \<lparr> thesisDescription_of = ''remote work'', stepByStep = JNull,
             relatedPapers = JNull, methodology = JNull, researchGapAnalysis = JNull,
             prosAndCons = JNull,
             error = Some (''Failed to generate thesis roadmap: ''
               @ ''Failed to get response from AI for step-by-step guide.'') \<rparr>"
    using rb [THEN conjunct2, THEN conjunct2, THEN conjunct1]
    by (simp add: output_of_def initial_vars_def extracted_raw_def interruption_message_def
        gateway_error_def)
  note rc = mp [OF tc' c]
  have 5: "interruption ?c ?t ?d = Some (gateway_error ''methodology'')
      \<and> final_vars ?c ?t ?d =
          \<lparr> stepByStepRaw = Some (VText ''[1]''), rankedPapersRaw = Some (VText rank_error_marker),
            methodologyRaw = None, researchGapAnalysisRaw = None,
            prosAndConsRaw = None, relatedPapers_var = [] \<rparr>"
    unfolding interruption_def final_vars_def rc [THEN conjunct1]
    by (simp add: c3 fetched initial_vars_def)
  have "\<not> truthy_non_string (Some (VText ''[1]''))
      \<and> \<not> truthy_non_string (Some (text_or (stage3_call ?c ?t ?d) rank_error_marker))"
    by (simp add: c3 truthy_non_string_def)
  from mp [OF rc [THEN conjunct2, THEN conjunct2, THEN conjunct1] this]
  have 6: "snd (generateThesisRoadmap ?c ?t ?d)
     = Inr \<lparr> thesisDescription_of = ''remote work'', stepByStep = JArr [JNum 1],
             relatedPapers = JArr [JObj [(map of_char ''error'',
               JStr (map of_char ''Failed to prepare data for research ranking.''))]],
             methodology = JNull, researchGapAnalysis = JNull, prosAndCons = JNull,
             error = Some (''Failed to generate thesis roadmap: ''
               @ ''Failed to get response from AI for methodology.'') \<rparr>"
    by (simp add: c3 output_of_def initial_vars_def extracted_raw_def p1 markers_parse
        interruption_message_def gateway_error_def)
  note re = mp [OF te' e]
  have "truthy_non_string (Some (VBool True))
      \<or> truthy_non_string (Some (text_or (stage3_call ?e ?t ?d) rank_error_marker))"
    by (simp add: truthy_non_string_def)
  from mp [OF re [THEN conjunct2, THEN conjunct2, THEN conjunct2, THEN conjunct1] this]
  have 7: "snd (generateThesisRoadmap ?e ?t ?d)
      = Inl (TypeError ''rawString.replace is not a function'')"
    by (simp add: not_a_function_def)
  show ?thesis
    by (intro conjI)
       (rule 1 [THEN conjunct1] 1 [THEN conjunct2] 2 [THEN conjunct1] 2 [THEN conjunct2] 3 4
          5 [THEN conjunct1] 5 [THEN conjunct2] 6 7)+
qed

text \<open>
  The service answers stage 1 with the number 42 as its text and no other stage: the
  run stops at stage 4 and lands in the handler, which throws on the number instead of
  returning a result with an error.
\<close>

theorem handler_throws_counterexample:
  "interruption (stage_answers [(''step-by-step guide'', VNum 42)])
       example_templates ''remote work'' = Some (gateway_error ''methodology'')
   \<and> stepByStepRaw (final_vars (stage_answers [(''step-by-step guide'', VNum 42)])
       example_templates ''remote work'') = Some (VNum 42)
   \<and> snd (generateThesisRoadmap (stage_answers [(''step-by-step guide'', VNum 42)])
          example_templates ''remote work'')
     = Inl (TypeError ''rawString.replace is not a function'')"
proof -
  let ?w = "stage_answers [(''step-by-step guide'', VNum 42)]"
  have s: "snd (stage1 ?w example_templates ''remote work'') = Inr (VNum 42)"
    "snd (stage4 ?w example_templates ''remote work'') = Inl (gateway_error ''methodology'')"
    by (simp_all add: stage1_def stage4_def stage_answers_text stage_answers_fail)
  from stages_fail4 [OF s]
  have "interruption ?w example_templates ''remote work'' = Some (gateway_error ''methodology'')"
    by (simp add: interruption_def)
  moreover note first_raw_kept [OF s(1)]
  moreover from s(1) have "snd (generateThesisRoadmap ?w example_templates ''remote work'')
      = Inl not_a_function"
    by (rule first_raw_breaks) (simp add: truthy_non_string_def)
  ultimately show ?thesis by (simp add: not_a_function_def)
qed

end
